(* ===== verification/Prelude.thy ===== *)
theory Prelude
  imports Complex_Main
begin

text \<open>
  Shared vocabulary of the Q-learning learner development: the errors the tensor
  runtime raises, the results of a state-changing update (a Python exception leaves the
  mutations made before it in place, so a raised error carries the state), the
  element-wise broadcasting of one-dimensional tensors, the traversal of a list with a
  fallible function, and the mean of a tensor, where \<open>None\<close> stands for the NaN that
  torch returns for the mean of an empty tensor. The lemmas here are the generic facts
  on these operations that the component theories use.
\<close>

named_theorems tensor_simps "evaluation rules of the tensor operations on well-shaped inputs"

section \<open>Errors and results\<close>

text \<open>
  The runtime failures the learners can meet. The code has no error handling of its own:
  every one of these propagates out of \<open>update\<close> as an exception.
\<close>

datatype error =
    Shape_mismatch      \<comment> \<open>torch: sizes of tensors must match (not broadcastable)\<close>
  | Class_out_of_range  \<comment> \<open>torch one_hot: class values must be in [0, num_classes)\<close>
  | Empty_reduction     \<comment> \<open>torch max / argmax over a dimension of size 0\<close>
  | Zero_division       \<comment> \<open>Python: integer modulo by zero\<close>
  | Key_error           \<comment> \<open>Python: missing key in a dict or in os.environ\<close>
  | Value_error         \<comment> \<open>Python: int() of a non-integer string; argparse: option string with no name\<close>
  | Index_error         \<comment> \<open>numpy: index out of bounds\<close>
  | Attribute_error     \<comment> \<open>Python: attribute read on an object that lacks it\<close>
  | Argument_error      \<comment> \<open>argparse: conflicting option string in add_argument\<close>
  | Empty_sequence      \<comment> \<open>torch RNN: expected sequence length to be larger than 0\<close>

text \<open>
  The result of an operation on an object: either it returns a value and the new state,
  or it raises, and the object keeps whatever was assigned before the raise.
\<close>

type_synonym ('a, 's) result = "(error \<times> 's) + ('a \<times> 's)"

text \<open>Sequencing of fallible computations: the first error propagates.\<close>

definition ebind :: "'e + 'a \<Rightarrow> ('a \<Rightarrow> 'e + 'b) \<Rightarrow> 'e + 'b" where
  "ebind m f = (case m of Inl e \<Rightarrow> Inl e | Inr x \<Rightarrow> f x)"

lemma ebind_Inr [simp]: "ebind (Inr x) f = f x"
  and ebind_Inl [simp]: "ebind (Inl e) f = Inl e"
  by (simp_all add: ebind_def)

lemma ebind_cong [fundef_cong]:
  "m = m' \<Longrightarrow> (\<And>x. m' = Inr x \<Longrightarrow> f x = g x) \<Longrightarrow> ebind m f = ebind m' g"
  by (cases m') simp_all

lemma ebind_eq_Inr:
  "ebind m f = Inr y \<longleftrightarrow> (\<exists>x. m = Inr x \<and> f x = Inr y)"
  by (cases m) simp_all

section \<open>Traversal with a fallible function\<close>

fun traverse :: "('a \<Rightarrow> 'e + 'b) \<Rightarrow> 'a list \<Rightarrow> 'e + 'b list" where
  "traverse f [] = Inr []"
| "traverse f (x # xs) =
     (case f x of
        Inl e \<Rightarrow> Inl e
      | Inr y \<Rightarrow> (case traverse f xs of Inl e \<Rightarrow> Inl e | Inr ys \<Rightarrow> Inr (y # ys)))"

lemma traverse_Inr_list_all2:
  "traverse f xs = Inr ys \<Longrightarrow> list_all2 (\<lambda>x y. f x = Inr y) xs ys"
  by (induction xs arbitrary: ys) (auto split: sum.splits)

lemma list_all2_traverse_Inr:
  "list_all2 (\<lambda>x y. f x = Inr y) xs ys \<Longrightarrow> traverse f xs = Inr ys"
  by (induction xs arbitrary: ys) (auto simp: list_all2_Cons1)

lemma traverse_Inr_iff:
  "traverse f xs = Inr ys \<longleftrightarrow> list_all2 (\<lambda>x y. f x = Inr y) xs ys"
  using traverse_Inr_list_all2 list_all2_traverse_Inr by blast

lemma traverse_map_Inr [simp]: "traverse (\<lambda>x. Inr (g x)) xs = Inr (map g xs)"
  by (induction xs) auto

lemma traverse_Inr_length: "traverse f xs = Inr ys \<Longrightarrow> length ys = length xs"
  by (auto simp: traverse_Inr_iff dest: list_all2_lengthD)

lemma traverse_Inr_nth:
  "traverse f xs = Inr ys \<Longrightarrow> i < length xs \<Longrightarrow> f (xs ! i) = Inr (ys ! i)"
  by (auto simp: traverse_Inr_iff list_all2_conv_all_nth)

lemma traverse_all_Inr:
  assumes "\<forall>x \<in> set xs. f x = Inr (g x)"
  shows "traverse f xs = Inr (map g xs)"
  using assms by (induction xs) auto

lemma traverse_Inl_ex:
  "traverse f xs = Inl e \<Longrightarrow> \<exists>x \<in> set xs. f x = Inl e"
  by (induction xs) (auto split: sum.splits)

lemma traverse_map: "traverse f (map g xs) = traverse (f \<circ> g) xs"
  by (induction xs) (auto split: sum.splits)

lemma traverse_cong: "\<forall>x \<in> set xs. f x = g x \<Longrightarrow> traverse f xs = traverse g xs"
  by (induction xs) (auto split: sum.splits)

lemma length_takeWhile_less_mem:
  "x \<in> set xs \<Longrightarrow> \<not> P x \<Longrightarrow> length (takeWhile P xs) < length xs"
  by (induction xs) auto

section \<open>Broadcasting element-wise operations\<close>

text \<open>
  torch's broadcasting for two one-dimensional tensors: equal sizes combine position by
  position; a tensor of size 1 is repeated along the other; any other pair of sizes
  raises. Every binary element-wise operator of the learners (\<open>+\<close>, \<open>*\<close>, \<open>-\<close>,
  and the difference inside \<open>MSELoss\<close>) goes through it.
\<close>

definition bcast :: "('a \<Rightarrow> 'b \<Rightarrow> 'c) \<Rightarrow> 'a list \<Rightarrow> 'b list \<Rightarrow> error + 'c list" where
  "bcast f xs ys =
     (if length xs = length ys then Inr (map2 f xs ys)
      else if length xs = 1 then Inr (map (f (hd xs)) ys)
      else if length ys = 1 then Inr (map (\<lambda>x. f x (hd ys)) xs)
      else Inl Shape_mismatch)"

lemma bcast_same [tensor_simps]:
  "length xs = length ys \<Longrightarrow> bcast f xs ys = Inr (map2 f xs ys)"
  by (simp add: bcast_def)

lemma bcast_singleton_left: "bcast f [x] ys = Inr (map (f x) ys)"
proof (cases "length ys = 1")
  case True
  then obtain y where "ys = [y]" by (cases ys) auto
  then show ?thesis by (simp add: bcast_def)
qed (simp add: bcast_def)

lemma bcast_Inr_length:
  "bcast f xs ys = Inr zs \<Longrightarrow> length zs = (if length xs = 1 then length ys else length xs)"
  by (auto simp: bcast_def split: if_splits)

lemma bcast_Inl_iff:
  "(\<exists>e. bcast f xs ys = Inl e) \<longleftrightarrow>
     length xs \<noteq> length ys \<and> length xs \<noteq> 1 \<and> length ys \<noteq> 1"
  by (auto simp: bcast_def)

lemma bcast_nth_same:
  "length xs = length ys \<Longrightarrow> i < length xs \<Longrightarrow> bcast f xs ys = Inr zs \<Longrightarrow>
     zs ! i = f (xs ! i) (ys ! i)"
  by (auto simp: bcast_def)

section \<open>Mean of a tensor\<close>

text \<open>\<open>tensor.mean()\<close>: the sum divided by the number of elements; NaN when empty.\<close>

definition mean :: "real list \<Rightarrow> real option" where
  "mean xs = (if xs = [] then None else Some (sum_list xs / real (length xs)))"

lemma mean_Some [tensor_simps]: "xs \<noteq> [] \<Longrightarrow> mean xs = Some (sum_list xs / real (length xs))"
  by (simp add: mean_def)

lemma mean_None_iff: "mean xs = None \<longleftrightarrow> xs = []"
  by (simp add: mean_def)

lemma mean_nonneg: "\<forall>x \<in> set xs. 0 \<le> x \<Longrightarrow> mean xs = Some m \<Longrightarrow> 0 \<le> m"
  by (auto simp: mean_def sum_list_nonneg split: if_splits)

end
