(* ===== verification/Optim.thy ===== *)
theory Optim
  imports Prelude
begin

text \<open>
  The two pieces of torch's optimisation machinery whose arithmetic the learners depend
  on, modelled from torch's documented behaviour since neither is code of this
  repository: the \<open>LinearLR\<close> learning-rate scheduler that every learner builds in its
  constructor (\<open>start_factor=1.0, end_factor=0.0, total_iters=running_steps\<close>), and
  \<open>clip_grad_norm_\<close>, which the update rules call when gradient clipping is on. The
  scheduler is the recursive rule torch applies at each \<open>step()\<close>; its lemmas show that
  the rate it produces is the closed form \<open>base * (T - min k T) / T\<close>, that no division
  by zero occurs, and that the rate stays in \<open>[0, base]\<close>. The clipping lemmas bound the
  norm of the clipped gradient by the threshold.
\<close>

section \<open>LinearLR\<close>

text \<open>
  \<open>LinearLR.get_lr\<close> at epoch \<open>k\<close> (after \<open>last_epoch\<close> was incremented), from the
  current rate \<open>lr\<close>. Epoch 0 is the step the constructor makes.
\<close>

definition linear_lr_get :: "real \<Rightarrow> real \<Rightarrow> nat \<Rightarrow> nat \<Rightarrow> real \<Rightarrow> real" where
  "linear_lr_get sf ef T k lr =
     (if k = 0 then lr * sf
      else if k > T then lr
      else lr * (1 + (ef - sf) / (real T * sf + (real k - 1) * (ef - sf))))"

text \<open>\<open>scheduler.step()\<close>: advance \<open>last_epoch\<close>, then set the rate.\<close>

definition linear_lr_step :: "real \<Rightarrow> real \<Rightarrow> nat \<Rightarrow> nat \<times> real \<Rightarrow> nat \<times> real" where
  "linear_lr_step sf ef T st = (case st of (k, lr) \<Rightarrow> (Suc k, linear_lr_get sf ef T (Suc k) lr))"

text \<open>The scheduler of the learners and \<open>n\<close> of its steps from the constructor's state.\<close>

abbreviation lr_step :: "nat \<Rightarrow> nat \<times> real \<Rightarrow> nat \<times> real" where
  "lr_step T \<equiv> linear_lr_step 1 0 T"

fun lr_steps :: "nat \<Rightarrow> nat \<Rightarrow> nat \<times> real \<Rightarrow> nat \<times> real" where
  "lr_steps T 0 st = st"
| "lr_steps T (Suc n) st = lr_steps T n (lr_step T st)"

text \<open>The closed form of the schedule with start factor 1 and end factor 0.\<close>

definition linear_lr_closed :: "real \<Rightarrow> nat \<Rightarrow> nat \<Rightarrow> real" where
  "linear_lr_closed base T k =
     (if T = 0 then base else base * real (T - min k T) / real T)"

lemma linear_lr_denominator_pos:
  "0 < k \<Longrightarrow> k \<le> T \<Longrightarrow> 0 < real T * 1 + (real k - 1) * (0 - 1)"
  by simp

lemma lr_step_closed:
  "lr_step T (k, linear_lr_closed base T k) = (Suc k, linear_lr_closed base T (Suc k))"
proof (cases "Suc k \<le> T")
  case True
  then have pos: "0 < real T - real k" by simp
  have "linear_lr_closed base T k * (1 + (0 - 1) / (real T * 1 + (real (Suc k) - 1) * (0 - 1))) =
        base * (real T - real k) / real T * ((real T - real k - 1) / (real T - real k))"
    using True pos by (simp add: linear_lr_closed_def of_nat_diff field_simps)
  also have "\<dots> = linear_lr_closed base T (Suc k)"
    using True pos by (simp add: linear_lr_closed_def of_nat_diff field_simps)
  finally show ?thesis
    using True by (simp add: linear_lr_step_def linear_lr_get_def)
next
  case False
  then show ?thesis
    by (simp add: linear_lr_step_def linear_lr_get_def linear_lr_closed_def)
qed

lemma lr_steps_closed:
  "lr_steps T n (k, linear_lr_closed base T k) = (k + n, linear_lr_closed base T (k + n))"
  by (induction n arbitrary: k) (simp_all add: lr_step_closed)

lemma linear_lr_closed_0: "linear_lr_closed base T 0 = base"
  by (simp add: linear_lr_closed_def)

lemma linear_lr_closed_bounds:
  "0 \<le> base \<Longrightarrow> 0 \<le> linear_lr_closed base T k \<and> linear_lr_closed base T k \<le> base"
proof (cases "T = 0")
  case True
  then show "0 \<le> base \<Longrightarrow> ?thesis" by (simp add: linear_lr_closed_def)
next
  case False
  assume base: "0 \<le> base"
  have "base * real (T - min k T) \<le> base * real T"
    using base by (intro mult_left_mono) simp_all
  with False base show ?thesis
    by (simp add: linear_lr_closed_def divide_le_eq)
qed

section \<open>Gradient-norm clipping\<close>

definition l2norm :: "real list \<Rightarrow> real" where
  "l2norm g = sqrt (sum_list (map (\<lambda>x. x\<^sup>2) g))"

text \<open>
  \<open>clip_grad_norm_(params, max_norm)\<close> with the 2-norm: every gradient is multiplied by
  \<open>min (max_norm / (total_norm + 1e-6)) 1\<close>.
\<close>

definition clip_coef :: "real \<Rightarrow> real list \<Rightarrow> real" where
  "clip_coef max_norm g = min (max_norm / (l2norm g + 1 / 1000000)) 1"

definition clip_grad_norm :: "real \<Rightarrow> real list \<Rightarrow> real list" where
  "clip_grad_norm max_norm g = map (\<lambda>x. clip_coef max_norm g * x) g"

lemma l2norm_nonneg: "0 \<le> l2norm g"
  by (auto simp: l2norm_def intro!: sum_list_nonneg)

lemma l2norm_scale: "l2norm (map (\<lambda>x. c * x) g) = \<bar>c\<bar> * l2norm g"
proof -
  have "sum_list (map (\<lambda>x. (c * x)\<^sup>2) g) = c\<^sup>2 * sum_list (map (\<lambda>x. x\<^sup>2) g)"
    by (induction g) (simp_all add: power_mult_distrib distrib_left)
  then show ?thesis
    by (simp add: l2norm_def real_sqrt_mult o_def)
qed

lemma clip_coef_nonneg: "0 \<le> max_norm \<Longrightarrow> 0 \<le> clip_coef max_norm g"
  using l2norm_nonneg [of g] by (simp add: clip_coef_def)

lemma l2norm_clip: "0 \<le> max_norm \<Longrightarrow>
    l2norm (clip_grad_norm max_norm g) = clip_coef max_norm g * l2norm g"
  by (simp add: clip_grad_norm_def l2norm_scale clip_coef_nonneg)

text \<open>The clipped gradient's norm is at most the threshold.\<close>

lemma l2norm_clip_le_max:
  assumes "0 \<le> max_norm"
  shows "l2norm (clip_grad_norm max_norm g) \<le> max_norm"
proof -
  let ?t = "l2norm g"
  have t: "0 \<le> ?t" by (rule l2norm_nonneg)
  have "clip_coef max_norm g * ?t \<le> max_norm / (?t + 1 / 1000000) * ?t"
    using t by (intro mult_right_mono) (simp_all add: clip_coef_def)
  also have "\<dots> \<le> max_norm"
    using t assms by (simp add: divide_le_eq field_simps mult_left_mono)
  finally show ?thesis
    using assms by (simp add: l2norm_clip)
qed

text \<open>
  C10. After \<open>clip_grad_norm_\<close> with a non-negative threshold, the 2-norm of the
  gradient is at most the threshold.
\<close>

theorem clip_grad_norm_bound:
  assumes "0 \<le> max_norm"
  shows "l2norm (clip_grad_norm max_norm g) \<le> max_norm"
  using assms by (rule l2norm_clip_le_max)

theorem clip_grad_norm_bound_witness:
  "0 \<le> (1::real) \<and> l2norm (clip_grad_norm 1 [3, 4]) \<le> 1"
  using clip_grad_norm_bound [of 1 "[3, 4]"] by simp

text \<open>Clipping never increases the norm.\<close>

lemma clip_grad_norm_le:
  "0 \<le> max_norm \<Longrightarrow> l2norm (clip_grad_norm max_norm g) \<le> l2norm g"
  using l2norm_nonneg [of g]
  by (simp add: l2norm_clip clip_coef_def mult_left_le_one_le)

text \<open>
  C9. The learners' scheduler (\<open>LinearLR\<close> with start factor 1 and end factor 0 over
  \<open>total_iters = T\<close> steps), stepped \<open>n\<close> times from the constructor's state, is at
  epoch \<open>n\<close> with rate \<open>base * (T - min n T) / T\<close>: it decays linearly to 0 at step
  \<open>T\<close> and stays there; with \<open>T = 0\<close> the rate never changes.
\<close>

theorem linear_lr_schedule:
  "lr_steps T n (0, base) =
     (n, if T = 0 then base else base * real (T - min n T) / real T)"
proof -
  have "lr_steps T n (0, base) = (n, linear_lr_closed base T n)"
    using lr_steps_closed [of T n 0 base] by (simp only: linear_lr_closed_0 add_0)
  then show ?thesis by (simp only: linear_lr_closed_def)
qed

end
