(* ===== verification/Py_Int.thy ===== *)
theory Py_Int
  imports Prelude
begin

text \<open>
  Python's conversions between integers and strings as the learners use them: an
  f-string formats \<open>self.rank\<close> into the statistic keys \<open>Qloss/rank_<r>\<close>, and the
  prioritized learner reads its rank with \<open>int(os.environ['RANK'])\<close>. \<open>str\<close> of an
  int is its decimal digits with a leading minus sign for negatives. \<open>int\<close> of a
  string (CPython 3.11, \<open>PyLong_FromUnicodeObject\<close>) first maps a string that is not
  pure ASCII through \<open>_PyUnicode_TransformDecimalAndSpaceToASCII\<close>, then
  (\<open>PyLong_FromString\<close>) accepts surrounding ASCII whitespace, an optional sign and decimal
  digits with single underscores between them, and raises \<open>ValueError\<close> otherwise or when
  there are more than \<open>sys.get_int_max_str_digits()\<close> digits, 4300 by default. A HOL
  character is a code point below 256. The lemmas show that \<open>int\<close> inverts \<open>str\<close> below
  the digit limit, and that the formatted keys of different ranks differ.
\<close>

section \<open>Formatting\<close>

definition digit_char :: "nat \<Rightarrow> char" where
  "digit_char d = char_of (48 + d)"

fun string_of_nat :: "nat \<Rightarrow> string" where
  "string_of_nat n =
     (if n < 10 then [digit_char n] else string_of_nat (n div 10) @ [digit_char (n mod 10)])"

declare string_of_nat.simps [simp del]

definition string_of_int :: "int \<Rightarrow> string" where
  "string_of_int i = (if i < 0 then CHR ''-'' # string_of_nat (nat (- i)) else string_of_nat (nat i))"

section \<open>Parsing\<close>

definition is_digit :: "char \<Rightarrow> bool" where
  "is_digit c \<longleftrightarrow> 48 \<le> (of_char c :: nat) \<and> (of_char c :: nat) \<le> 57"

definition digit_val :: "char \<Rightarrow> nat" where
  "digit_val c = of_char c - 48"

definition is_space :: "char \<Rightarrow> bool" where
  "is_space c \<longleftrightarrow> (of_char c :: nat) \<in> {9, 10, 11, 12, 13, 32}"

definition strip :: "string \<Rightarrow> string" where
  "strip s = rev (dropWhile is_space (rev (dropWhile is_space s)))"

text \<open>
  \<open>_PyUnicode_TransformDecimalAndSpaceToASCII\<close> on a string with a code point of 128 or
  more: code points below 127 are kept, Unicode whitespace (below 256: U+0085 and U+00A0)
  becomes a space, and the first other character (no code point below 256 beyond ASCII
  is a decimal digit) ends the string with \<open>'?'\<close>. A pure ASCII string is kept as it is.
\<close>

fun transform_chars :: "string \<Rightarrow> string" where
  "transform_chars [] = []"
| "transform_chars (c # cs) =
     (if (of_char c :: nat) < 127 then c # transform_chars cs
      else if (of_char c :: nat) \<in> {133, 160} then CHR '' '' # transform_chars cs
      else [CHR ''?''])"

definition transform_decimal_and_space :: "string \<Rightarrow> string" where
  "transform_decimal_and_space s =
     (if list_all (\<lambda>c. (of_char c :: nat) < 128) s then s else transform_chars s)"

text \<open>The default of \<open>sys.set_int_max_str_digits\<close>.\<close>

definition max_str_digits :: nat where
  "max_str_digits = 4300"

text \<open>Digits with underscores only between two digits.\<close>

fun well_grouped :: "string \<Rightarrow> bool" where
  "well_grouped [] = False"
| "well_grouped [c] = is_digit c"
| "well_grouped (c # d # cs) =
     (is_digit c \<and> (if d = CHR ''_'' then cs \<noteq> [] \<and> is_digit (hd cs) \<and> well_grouped cs
                    else well_grouped (d # cs)))"

definition digits_value :: "string \<Rightarrow> nat" where
  "digits_value s = foldl (\<lambda>acc c. 10 * acc + digit_val c) 0 (filter (\<lambda>c. c \<noteq> CHR ''_'') s)"

definition parse_unsigned :: "string \<Rightarrow> error + int" where
  "parse_unsigned s =
     (if well_grouped s \<and> length (filter (\<lambda>c. c \<noteq> CHR ''_'') s) \<le> max_str_digits
      then Inr (int (digits_value s)) else Inl Value_error)"

definition py_int :: "string \<Rightarrow> error + int" where
  "py_int s =
     (case strip (transform_decimal_and_space s) of
        [] \<Rightarrow> Inl Value_error
      | c # cs \<Rightarrow>
          if c = CHR ''-'' then (case parse_unsigned cs of Inl e \<Rightarrow> Inl e | Inr v \<Rightarrow> Inr (- v))
          else if c = CHR ''+'' then parse_unsigned cs
          else parse_unsigned (c # cs))"

section \<open>Parsing inverts formatting\<close>

lemma max_str_digits_pos: "0 < max_str_digits"
  by (simp add: max_str_digits_def)

lemma of_char_digit_char: "d < 10 \<Longrightarrow> (of_char (digit_char d) :: nat) = 48 + d"
  by (simp add: digit_char_def)

lemma digit_char_props:
  "d < 10 \<Longrightarrow> is_digit (digit_char d) \<and> \<not> is_space (digit_char d) \<and>
     digit_val (digit_char d) = d \<and> digit_char d \<noteq> CHR ''_'' \<and>
     digit_char d \<noteq> CHR ''-'' \<and> digit_char d \<noteq> CHR ''+''"
proof -
  assume d: "d < 10"
  then have o: "(of_char (digit_char d) :: nat) = 48 + d" by (rule of_char_digit_char)
  have neq: "digit_char d \<noteq> c" if "(of_char c :: nat) < 48" for c
    using o that by auto
  show ?thesis
    using d o neq [of "CHR ''_''"] neq [of "CHR ''-''"] neq [of "CHR ''+''"]
    by (auto simp: is_digit_def is_space_def digit_val_def)
qed

lemma string_of_nat_digits:
  "c \<in> set (string_of_nat n) \<Longrightarrow> \<exists>d < 10. c = digit_char d"
proof (induction n rule: string_of_nat.induct)
  case (1 n)
  show ?case
  proof (cases "n < 10")
    case True
    with "1.prems" have "c = digit_char n" by (subst (asm) string_of_nat.simps) simp
    with True show ?thesis by blast
  next
    case False
    with "1.prems" have "c = digit_char (n mod 10) \<or> c \<in> set (string_of_nat (n div 10))"
      by (subst (asm) string_of_nat.simps) simp
    moreover have "(n mod 10 :: nat) < 10" by simp
    ultimately show ?thesis using "1.IH" False by blast
  qed
qed

lemma string_of_nat_chars:
  assumes "c \<in> set (string_of_nat n)"
  shows "is_digit c \<and> \<not> is_space c \<and> c \<noteq> CHR ''_'' \<and> c \<noteq> CHR ''-'' \<and> c \<noteq> CHR ''+''"
proof -
  obtain d where "d < 10" and "c = digit_char d"
    using string_of_nat_digits [OF assms] by blast
  then show ?thesis using digit_char_props [of d] by simp
qed

lemma string_of_nat_not_Nil: "string_of_nat n \<noteq> []"
  by (subst string_of_nat.simps) simp

lemma well_grouped_digits:
  "s \<noteq> [] \<Longrightarrow> \<forall>c \<in> set s. is_digit c \<and> c \<noteq> CHR ''_'' \<Longrightarrow> well_grouped s"
  by (induction s rule: well_grouped.induct) auto

lemma digits_value_string_of_nat: "digits_value (string_of_nat n) = n"
proof (induction n rule: string_of_nat.induct)
  case (1 n)
  have fl: "filter (\<lambda>c. c \<noteq> CHR ''_'') (string_of_nat m) = string_of_nat m" for m
    using string_of_nat_chars [of _ m] by (auto simp: filter_id_conv)
  show ?case
  proof (cases "n < 10")
    case True
    then show ?thesis
      using digit_char_props [of n]
      by (subst string_of_nat.simps) (simp add: digits_value_def)
  next
    case False
    then have ih: "digits_value (string_of_nat (n div 10)) = n div 10" using "1.IH" by simp
    have "digits_value (string_of_nat n) =
          10 * digits_value (string_of_nat (n div 10)) + digit_val (digit_char (n mod 10))"
      using False fl [of "n div 10"] digit_char_props [of "n mod 10"]
      by (subst string_of_nat.simps) (simp add: digits_value_def)
    also have "\<dots> = n"
      using ih digit_char_props [of "n mod 10"] by simp
    finally show ?thesis .
  qed
qed

lemma strip_no_space: "\<forall>c \<in> set s. \<not> is_space c \<Longrightarrow> strip s = s"
proof -
  have dw: "\<forall>c \<in> set xs. \<not> is_space c \<Longrightarrow> dropWhile is_space xs = xs" for xs
    by (induction xs) auto
  assume "\<forall>c \<in> set s. \<not> is_space c"
  then show ?thesis by (simp add: strip_def dw)
qed

lemma strip_string_of_nat: "strip (string_of_nat n) = string_of_nat n"
  using string_of_nat_chars [of _ n] by (blast intro: strip_no_space)

lemma length_string_of_nat: "n < 10 ^ k \<Longrightarrow> 0 < k \<Longrightarrow> length (string_of_nat n) \<le> k"
proof (induction n arbitrary: k rule: string_of_nat.induct)
  case (1 n)
  show ?case
  proof (cases "n < 10")
    case True
    then show ?thesis using "1.prems"(2) by (subst string_of_nat.simps) simp
  next
    case False
    obtain j where k: "k = Suc j" using "1.prems"(2) by (cases k) auto
    have "n div 10 < 10 ^ j" using "1.prems"(1) k by (simp add: less_mult_imp_div_less mult.commute)
    moreover have "0 < j" using False "1.prems"(1) k by (cases j) auto
    ultimately have "length (string_of_nat (n div 10)) \<le> j" using "1.IH" False by blast
    then show ?thesis using False k by (subst string_of_nat.simps) simp
  qed
qed

lemma filter_string_of_nat: "filter (\<lambda>c. c \<noteq> CHR ''_'') (string_of_nat n) = string_of_nat n"
  using string_of_nat_chars [of _ n] by (auto simp: filter_id_conv)

lemma parse_unsigned_string_of_nat:
  assumes "n < 10 ^ max_str_digits"
  shows "parse_unsigned (string_of_nat n) = Inr (int n)"
proof -
  have "well_grouped (string_of_nat n)"
    using string_of_nat_chars [of _ n] string_of_nat_not_Nil
    by (blast intro: well_grouped_digits)
  moreover have "length (string_of_nat n) \<le> max_str_digits"
    using assms max_str_digits_pos by (rule length_string_of_nat)
  ultimately show ?thesis
    by (simp add: parse_unsigned_def digits_value_string_of_nat filter_string_of_nat)
qed

lemma transform_ascii:
  "list_all (\<lambda>c. (of_char c :: nat) < 128) s \<Longrightarrow> transform_decimal_and_space s = s"
  by (simp add: transform_decimal_and_space_def)

lemma string_of_int_ascii: "list_all (\<lambda>c. (of_char c :: nat) < 128) (string_of_int i)"
proof -
  have "(of_char c :: nat) < 128" if "c \<in> set (string_of_nat n)" for c n
    using string_of_nat_chars [OF that] by (simp add: is_digit_def)
  then show ?thesis by (simp add: string_of_int_def list_all_iff)
qed

lemma string_of_nat_Cons:
  obtains c cs where "string_of_nat n = c # cs" and "c \<noteq> CHR ''-''" and "c \<noteq> CHR ''+''"
proof -
  obtain c cs where eq: "string_of_nat n = c # cs"
    using string_of_nat_not_Nil by (cases "string_of_nat n") auto
  then have "c \<in> set (string_of_nat n)" by simp
  then show ?thesis
    using eq that string_of_nat_chars [of c n] by blast
qed

lemma strip_minus_string_of_nat:
  "strip (CHR ''-'' # string_of_nat n) = CHR ''-'' # string_of_nat n"
proof (rule strip_no_space)
  have "\<not> is_space (CHR ''-'')" by (simp add: is_space_def)
  then show "\<forall>c \<in> set (CHR ''-'' # string_of_nat n). \<not> is_space c"
    using string_of_nat_chars [of _ n] by auto
qed

theorem py_int_string_of_int:
  assumes "\<bar>i\<bar> < 10 ^ max_str_digits"
  shows "py_int (string_of_int i) = Inr i"
proof (cases "i < 0")
  case True
  then have "nat (- i) < 10 ^ max_str_digits" using assms by (simp add: nat_less_iff)
  then show ?thesis
    using True unfolding py_int_def transform_ascii [OF string_of_int_ascii]
    by (simp add: string_of_int_def strip_minus_string_of_nat parse_unsigned_string_of_nat)
next
  case False
  then have n: "nat i < 10 ^ max_str_digits" using assms by (simp add: nat_less_iff)
  obtain c cs where eq: "string_of_nat (nat i) = c # cs" and "c \<noteq> CHR ''-''" and "c \<noteq> CHR ''+''"
    by (rule string_of_nat_Cons)
  moreover have "strip (c # cs) = c # cs"
    using strip_string_of_nat [of "nat i"] eq by simp
  ultimately show ?thesis
    using False parse_unsigned_string_of_nat [OF n] unfolding py_int_def transform_ascii [OF string_of_int_ascii]
    by (simp add: string_of_int_def)
qed

text \<open>Integers of one digit are below the limit, as every rank and count of the examples.\<close>

lemma ten_le_limit: "(10::int) \<le> 10 ^ max_str_digits"
  by (rule self_le_power [OF _ max_str_digits_pos]) simp

lemma below_digit_limit [simp]: "(i::int) < 10 \<Longrightarrow> i < 10 ^ max_str_digits"
  using ten_le_limit by linarith

lemma at_most_digit_limit [simp]: "(i::int) \<le> 10 \<Longrightarrow> i \<le> 10 ^ max_str_digits"
  using ten_le_limit by linarith

lemma string_of_nat_inj: "string_of_nat m = string_of_nat n \<Longrightarrow> m = n"
  by (metis digits_value_string_of_nat)

lemma string_of_int_inj: "string_of_int i = string_of_int j \<Longrightarrow> i = j"
proof -
  assume eq: "string_of_int i = string_of_int j"
  have nm: "string_of_nat n \<noteq> CHR ''-'' # cs" for n cs
    by (rule string_of_nat_Cons [of n]) auto
  show "i = j"
  proof (cases "i < 0"; cases "j < 0")
    assume "i < 0" "j < 0"
    then show ?thesis using eq by (auto simp: string_of_int_def dest: string_of_nat_inj)
  next
    assume "\<not> i < 0" "\<not> j < 0"
    then show ?thesis using eq by (auto simp: string_of_int_def dest: string_of_nat_inj)
  qed (use eq nm in \<open>auto simp: string_of_int_def dest: sym\<close>)
qed

end
