(* ===== verification/Learner.thy ===== *)
theory Learner
  imports Optim Py_Int
begin

text \<open>
  The part the three Q-learning learners share. Each learner class calls the base
  \<open>Learner.__init__\<close> (configuration, device, distributed rank, gradient-clip settings,
  the iteration counter) and builds the same Adam optimizer and \<open>LinearLR\<close> scheduler;
  each \<open>update\<close> first increments \<open>self.iterations\<close>, then computes its loss, and ends
  with the same tail: zero the gradients, backpropagate, clip if configured, step the
  optimizer, step the scheduler, copy the online parameters into the target network
  every \<open>sync_frequency\<close> iterations, and report a statistics dict whose keys are
  suffixed with the rank under distributed training.

  The policy's parameters are of an arbitrary type \<open>'p\<close> and the optimizer's internal
  state (Adam's moments and step count) of type \<open>'o\<close>: the optimizer step is the
  interface \<open>opt_step\<close>, given the state, the current learning rate, the (clipped)
  gradient and the parameters. The learner state is the part of the Python object an
  update changes: the counter, the online and target parameters, the optimizer state, the
  learning rate in \<open>param_groups[0]['lr']\<close> and the scheduler's \<open>last_epoch\<close>.

  Training runs are the inductive set \<open>trained\<close> with its invariant \<open>learner_inv\<close>;
  \<open>run_path\<close> is a finite sequence of successive updates, along which the counter grows
  by one per update.
\<close>

section \<open>Configuration and state\<close>

record learner_config =
  gamma :: real
  sync_frequency :: int
  use_grad_clip :: bool
  grad_clip_norm :: real
  distributed_training :: bool
  rank :: int
  world_size :: nat
  learning_rate :: real
  running_steps :: nat

record ('p, 'o) learner_state =
  iterations :: nat
  eval_params :: 'p
  target_params :: 'p
  opt_state :: 'o
  lr :: real
  last_epoch :: nat

type_synonym ('p, 'o) opt_step = "'o \<Rightarrow> real \<Rightarrow> real list \<Rightarrow> 'p \<Rightarrow> 'o \<times> 'p"

text \<open>
  The constructor: the target network starts as a copy of the online one, the counter at
  0, and the scheduler's initial step leaves the rate at \<open>learning_rate * start_factor\<close>.
\<close>

definition learner_init :: "learner_config \<Rightarrow> 'p \<Rightarrow> 'o \<Rightarrow> ('p, 'o) learner_state" where
  "learner_init cfg p st0 =
     \<lparr>iterations = 0, eval_params = p, target_params = p, opt_state = st0,
      lr = linear_lr_get 1 0 (running_steps cfg) 0 (learning_rate cfg), last_epoch = 0\<rparr>"

text \<open>\<open>self.iterations += 1\<close>, the first statement of every \<open>update\<close>.\<close>

definition start_update :: "('p, 'o) learner_state \<Rightarrow> ('p, 'o) learner_state" where
  "start_update s = s\<lparr>iterations := Suc (iterations s)\<rparr>"

lemma start_update_fields [simp]:
  "iterations (start_update s) = Suc (iterations s)"
  "eval_params (start_update s) = eval_params s"
  "target_params (start_update s) = target_params s"
  "opt_state (start_update s) = opt_state s"
  "lr (start_update s) = lr s"
  "last_epoch (start_update s) = last_epoch s"
  by (simp_all add: start_update_def)

text \<open>\<open>self.policy.copy_target()\<close>: hard copy of the online parameters.\<close>

definition copy_target :: "('p, 'o) learner_state \<Rightarrow> ('p, 'o) learner_state" where
  "copy_target s = s\<lparr>target_params := eval_params s\<rparr>"

section \<open>The shared tail of update\<close>

text \<open>
  From \<open>self.optimizer.zero_grad()\<close> to the target sync, given the gradient \<open>g\<close> that
  \<open>loss.backward()\<close> produced: clip, step the optimizer with the current rate, step the
  scheduler, then test \<open>self.iterations % self.sync_frequency == 0\<close>. Python's \<open>%\<close>
  raises \<open>ZeroDivisionError\<close> for a zero divisor, after the optimizer and the scheduler
  have already stepped; for a nonzero divisor it agrees with HOL's \<open>mod\<close> on \<open>int\<close>
  (both round the quotient toward minus infinity).
\<close>

definition clip_if :: "learner_config \<Rightarrow> real list \<Rightarrow> real list" where
  "clip_if cfg g = (if use_grad_clip cfg then clip_grad_norm (grad_clip_norm cfg) g else g)"

definition optimize_and_sync ::
  "learner_config \<Rightarrow> ('p, 'o) opt_step \<Rightarrow> real list \<Rightarrow> ('p, 'o) learner_state \<Rightarrow>
     (unit, ('p, 'o) learner_state) result" where
  "optimize_and_sync cfg opt g s =
     (let g' = clip_if cfg g;
          (st', p') = opt (opt_state s) (lr s) g' (eval_params s);
          s1 = s\<lparr>opt_state := st', eval_params := p'\<rparr>;
          (k', lr') = lr_step (running_steps cfg) (last_epoch s1, lr s1);
          s2 = s1\<lparr>last_epoch := k', lr := lr'\<rparr>
      in if sync_frequency cfg = 0 then Inl (Zero_division, s2)
         else if int (iterations s2) mod sync_frequency cfg = 0 then Inr ((), copy_target s2)
         else Inr ((), s2))"

section \<open>Statistics\<close>

text \<open>
  The returned dict, in insertion order. Values are floats: the loss and the mean
  prediction are \<open>None\<close> where torch produces NaN (an empty batch).
\<close>

type_synonym info = "(string \<times> real option) list"

definition rank_key :: "learner_config \<Rightarrow> string \<Rightarrow> string" where
  "rank_key cfg k = (if distributed_training cfg then k @ ''/rank_'' @ string_of_int (rank cfg) else k)"

definition update_info :: "learner_config \<Rightarrow> real option \<Rightarrow> real \<Rightarrow> real option \<Rightarrow> info" where
  "update_info cfg loss lr_now pred_mean =
     [(rank_key cfg ''Qloss'', loss),
      (rank_key cfg ''learning_rate'', Some lr_now),
      (rank_key cfg ''predictQ'', pred_mean)]"

section \<open>Effect of the shared tail\<close>

text \<open>
  What the tail does to each field, whether or not the sync test raises: the counter is
  untouched, the optimizer has stepped once with the current rate on the (clipped)
  gradient, the scheduler has stepped once, and the target parameters are the new online
  parameters exactly when the counter is a multiple of the sync frequency.
\<close>

definition tail_fields ::
  "learner_config \<Rightarrow> ('p, 'o) opt_step \<Rightarrow> real list \<Rightarrow> ('p, 'o) learner_state \<Rightarrow>
     ('p, 'o) learner_state \<Rightarrow> bool" where
  "tail_fields cfg opt g s s' \<longleftrightarrow>
     iterations s' = iterations s \<and>
     (opt_state s', eval_params s') = opt (opt_state s) (lr s) (clip_if cfg g) (eval_params s) \<and>
     (last_epoch s', lr s') = lr_step (running_steps cfg) (last_epoch s, lr s)"

lemma optimize_and_sync_eq:
  assumes "opt (opt_state s) (lr s) (clip_if cfg g) (eval_params s) = (st', p')"
    and "lr_step (running_steps cfg) (last_epoch s, lr s) = (k', l')"
  shows "optimize_and_sync cfg opt g s =
     (let s2 = s\<lparr>opt_state := st', eval_params := p', last_epoch := k', lr := l'\<rparr> in
      if sync_frequency cfg = 0 then Inl (Zero_division, s2)
      else if int (iterations s) mod sync_frequency cfg = 0 then Inr ((), copy_target s2)
      else Inr ((), s2))"
  using assms by (simp add: optimize_and_sync_def Let_def)

lemma optimize_and_sync_Inr:
  assumes "sync_frequency cfg \<noteq> 0"
  obtains s' where "optimize_and_sync cfg opt g s = Inr ((), s')"
    and "tail_fields cfg opt g s s'"
    and "target_params s' =
           (if int (iterations s) mod sync_frequency cfg = 0 then eval_params s' else target_params s)"
proof -
  obtain st' p' where o: "opt (opt_state s) (lr s) (clip_if cfg g) (eval_params s) = (st', p')"
    by (metis surj_pair)
  obtain k' l' where l: "lr_step (running_steps cfg) (last_epoch s, lr s) = (k', l')"
    by (metis surj_pair)
  let ?s2 = "s\<lparr>opt_state := st', eval_params := p', last_epoch := k', lr := l'\<rparr>"
  let ?s' = "if int (iterations s) mod sync_frequency cfg = 0 then copy_target ?s2 else ?s2"
  show ?thesis
  proof (rule that [of ?s'])
    show "optimize_and_sync cfg opt g s = Inr ((), ?s')"
      using assms by (simp add: optimize_and_sync_eq [where opt = opt, OF o l])
    show "tail_fields cfg opt g s ?s'"
      using o l by (simp add: tail_fields_def copy_target_def)
    show "target_params ?s' =
           (if int (iterations s) mod sync_frequency cfg = 0 then eval_params ?s' else target_params s)"
      by (simp add: copy_target_def)
  qed
qed

lemma optimize_and_sync_zero:
  assumes "sync_frequency cfg = 0"
  obtains s' where "optimize_and_sync cfg opt g s = Inl (Zero_division, s')"
    and "tail_fields cfg opt g s s'"
    and "target_params s' = target_params s"
proof -
  obtain st' p' where o: "opt (opt_state s) (lr s) (clip_if cfg g) (eval_params s) = (st', p')"
    by (metis surj_pair)
  obtain k' l' where l: "lr_step (running_steps cfg) (last_epoch s, lr s) = (k', l')"
    by (metis surj_pair)
  let ?s2 = "s\<lparr>opt_state := st', eval_params := p', last_epoch := k', lr := l'\<rparr>"
  show ?thesis
  proof (rule that [of ?s2])
    show "optimize_and_sync cfg opt g s = Inl (Zero_division, ?s2)"
      using assms by (simp add: optimize_and_sync_eq [where opt = opt, OF o l])
    show "tail_fields cfg opt g s ?s2"
      using o l by (simp add: tail_fields_def)
  qed simp
qed

lemma optimize_and_sync_Inr_fields:
  assumes "optimize_and_sync cfg opt g s = Inr (u, s')"
  shows "tail_fields cfg opt g s s'"
    and "target_params s' =
           (if int (iterations s) mod sync_frequency cfg = 0 then eval_params s' else target_params s)"
proof -
  have nz: "sync_frequency cfg \<noteq> 0"
  proof
    assume "sync_frequency cfg = 0"
    then obtain s'' where "optimize_and_sync cfg opt g s = Inl (Zero_division, s'')"
      by (rule optimize_and_sync_zero)
    with assms show False by simp
  qed
  obtain s'' where r: "optimize_and_sync cfg opt g s = Inr ((), s'')"
    and "tail_fields cfg opt g s s''"
    and "target_params s'' =
           (if int (iterations s) mod sync_frequency cfg = 0 then eval_params s'' else target_params s)"
    using nz by (rule optimize_and_sync_Inr)
  moreover from r assms have "s'' = s'" by simp
  ultimately show "tail_fields cfg opt g s s'"
    and "target_params s' =
           (if int (iterations s) mod sync_frequency cfg = 0 then eval_params s' else target_params s)"
    by simp_all
qed

text \<open>
  With clipping configured, the optimizer has stepped with a gradient whose norm is at
  most the threshold.
\<close>

lemma optimize_and_sync_clipped:
  assumes "optimize_and_sync cfg opt g s = Inr (u, s')"
    and "use_grad_clip cfg" and "0 \<le> grad_clip_norm cfg"
  shows "\<exists>g'. l2norm g' \<le> grad_clip_norm cfg \<and>
           (opt_state s', eval_params s') = opt (opt_state s) (lr s) g' (eval_params s)"
proof -
  have "(opt_state s', eval_params s') = opt (opt_state s) (lr s) (clip_if cfg g) (eval_params s)"
    using optimize_and_sync_Inr_fields(1) [OF assms(1)] by (simp add: tail_fields_def)
  moreover have "l2norm (clip_if cfg g) \<le> grad_clip_norm cfg"
    using assms(2,3) by (simp add: clip_if_def l2norm_clip_le_max)
  ultimately show ?thesis by blast
qed

section \<open>Training runs\<close>

text \<open>
  A training run is the constructor followed by any number of successful updates, one
  after the other (updates are sequential: the optimizer step is not reentrant). Each
  learner supplies its own step relation; \<open>trained\<close> is the set of states a run reaches.
\<close>

inductive trained ::
  "learner_config \<Rightarrow> (('p, 'o) learner_state \<Rightarrow> ('p, 'o) learner_state \<Rightarrow> bool) \<Rightarrow>
     ('p, 'o) learner_state \<Rightarrow> bool"
  for cfg step where
  trained_init: "trained cfg step (learner_init cfg p st0)"
| trained_step: "trained cfg step s \<Longrightarrow> step s s' \<Longrightarrow> trained cfg step s'"

text \<open>
  The invariant of a run: the scheduler has stepped once per update, so the learning rate
  is the closed form of the schedule at the current iteration; and whenever the counter is
  a multiple of the sync frequency the target network equals the online one.
\<close>

definition learner_inv :: "learner_config \<Rightarrow> ('p, 'o) learner_state \<Rightarrow> bool" where
  "learner_inv cfg s \<longleftrightarrow>
     last_epoch s = iterations s \<and>
     lr s = linear_lr_closed (learning_rate cfg) (running_steps cfg) (iterations s) \<and>
     (int (iterations s) mod sync_frequency cfg = 0 \<longrightarrow> target_params s = eval_params s)"

text \<open>An update step that ends with the shared tail, after incrementing the counter.\<close>

definition tail_step ::
  "learner_config \<Rightarrow> ('p, 'o) opt_step \<Rightarrow> ('p, 'o) learner_state \<Rightarrow> ('p, 'o) learner_state \<Rightarrow> bool" where
  "tail_step cfg opt s s' \<longleftrightarrow> (\<exists>g. optimize_and_sync cfg opt g (start_update s) = Inr ((), s'))"

lemma learner_inv_init: "learner_inv cfg (learner_init cfg p st0)"
  by (simp add: learner_inv_def learner_init_def linear_lr_get_def linear_lr_closed_0)

lemma learner_inv_tail_step:
  assumes "learner_inv cfg s" and "tail_step cfg opt s s'"
  shows "learner_inv cfg s'"
proof -
  obtain g where r: "optimize_and_sync cfg opt g (start_update s) = Inr ((), s')"
    using assms(2) by (auto simp: tail_step_def)
  have f: "tail_fields cfg opt g (start_update s) s'"
    and t: "target_params s' = (if int (iterations (start_update s)) mod sync_frequency cfg = 0
                               then eval_params s' else target_params (start_update s))"
    using optimize_and_sync_Inr_fields [OF r] by simp_all
  have it: "iterations s' = Suc (iterations s)"
    using f by (simp add: tail_fields_def start_update_def)
  have "(last_epoch s', lr s') = lr_step (running_steps cfg) (last_epoch s, lr s)"
    using f by (simp add: tail_fields_def start_update_def)
  also have "\<dots> = (Suc (iterations s),
                    linear_lr_closed (learning_rate cfg) (running_steps cfg) (Suc (iterations s)))"
    using assms(1) lr_step_closed by (simp add: learner_inv_def)
  finally show ?thesis
    using it t by (auto simp: learner_inv_def start_update_def)
qed

lemma trained_learner_inv:
  assumes "trained cfg step s" and "\<And>s s'. step s s' \<Longrightarrow> tail_step cfg opt s s'"
  shows "learner_inv cfg s"
  using assms(1)
proof (induction rule: trained.induct)
  case (trained_init p st0)
  then show ?case by (rule learner_inv_init)
next
  case (trained_step s s')
  then show ?case using assms(2) learner_inv_tail_step by blast
qed

lemma tail_step_sync:
  assumes "tail_step cfg opt s s'"
  shows "iterations s' = Suc (iterations s) \<and>
         target_params s' = (if int (Suc (iterations s)) mod sync_frequency cfg = 0
                             then eval_params s' else target_params s)"
proof -
  obtain g where r: "optimize_and_sync cfg opt g (start_update s) = Inr ((), s')"
    using assms by (auto simp: tail_step_def)
  show ?thesis
    using optimize_and_sync_Inr_fields [OF r]
    by (simp add: tail_fields_def start_update_def)
qed

section \<open>Runs as sequences of updates\<close>

text \<open>
  A finite run from a state: the states after each of a sequence of updates, each
  related to the one before by the learner's step.
\<close>

fun run_path :: "('s \<Rightarrow> 's \<Rightarrow> bool) \<Rightarrow> 's \<Rightarrow> 's list \<Rightarrow> bool" where
  "run_path step s [] = True"
| "run_path step s (x # xs) = (step s x \<and> run_path step x xs)"

lemma run_path_append:
  "run_path step s (xs @ ys) \<longleftrightarrow> run_path step s xs \<and> run_path step (last (s # xs)) ys"
  by (induction xs arbitrary: s) auto

lemma run_path_trained:
  assumes "trained cfg step s" and "run_path step s xs"
  shows "\<forall>x \<in> set xs. trained cfg step x"
  using assms by (induction xs arbitrary: s) (auto intro: trained_step)

lemma run_path_iterations:
  assumes "\<And>s s'. step s s' \<Longrightarrow> tail_step cfg opt s s'" and "run_path step s xs"
  shows "\<forall>j < length xs. iterations (xs ! j) = iterations s + Suc j"
  using assms(2)
proof (induction xs arbitrary: s)
  case (Cons x xs)
  then have "iterations x = Suc (iterations s)" and "\<forall>j < length xs. iterations (xs ! j) = iterations x + Suc j"
    using tail_step_sync [OF assms(1)] by auto
  then show ?case by (simp add: nth_Cons split: nat.splits)
qed simp

text \<open>Among \<open>N\<close> consecutive counter values one is a multiple of \<open>N\<close>.\<close>

lemma add_cancel_diff: "b < N \<Longrightarrow> (a + b) + (N - b) = a + (N::nat)"
  by simp

lemma window_multiple:
  assumes "0 < N"
  obtains j where "j < N" and "(k + Suc j) mod N = 0"
proof -
  let ?j = "N - 1 - k mod N"
  have m: "k mod N < N" using assms by simp
  have s1: "Suc ?j = N - k mod N" using m by simp
  have "k + Suc ?j = (k div N * N + k mod N) + (N - k mod N)"
    by (simp only: s1 div_mult_mod_eq)
  also have "\<dots> = k div N * N + N"
    using m by (rule add_cancel_diff)
  finally have "(k + Suc ?j) mod N = 0" by simp
  with m show ?thesis using that [of ?j] by simp
qed

text \<open>Along a run the learning rate stays between 0 and the configured rate, and it is 0 once
  the scheduler's \<open>total_iters\<close> updates are done.\<close>

lemma trained_lr:
  assumes "trained cfg step s" and "\<And>s s'. step s s' \<Longrightarrow> tail_step cfg opt s s'"
  shows "lr s = linear_lr_closed (learning_rate cfg) (running_steps cfg) (iterations s)"
  using trained_learner_inv [OF assms] by (simp add: learner_inv_def)

lemma linear_lr_closed_done:
  "0 < T \<Longrightarrow> T \<le> k \<Longrightarrow> linear_lr_closed base T k = 0"
  by (simp add: linear_lr_closed_def)

section \<open>Shape of the statistics\<close>

lemma rank_key_inj [simp]: "rank_key cfg k = rank_key cfg k' \<longleftrightarrow> k = k'"
  by (simp add: rank_key_def)

lemma map_of_update_info_lr:
  "map_of (update_info cfg loss l pm) (rank_key cfg ''learning_rate'') = Some (Some l)"
  by (simp add: update_info_def)

text \<open>
  C11. Under distributed training, two statistic keys reported by workers are equal only
  when they name the same statistic of the same rank: the rank suffix written by the
  f-string is decimal and read back uniquely.
\<close>

theorem rank_keys_distinct:
  assumes "distributed_training cfg" and "distributed_training cfg'"
    and "k \<in> {''Qloss'', ''learning_rate'', ''predictQ''}"
    and "k' \<in> {''Qloss'', ''learning_rate'', ''predictQ''}"
    and "rank_key cfg k = rank_key cfg' k'"
  shows "k = k' \<and> rank cfg = rank cfg'"
  using assms by (auto simp: rank_key_def dest: string_of_int_inj)

theorem rank_keys_distinct_witness:
  "distributed_training (\<lparr>gamma = 0, sync_frequency = 1, use_grad_clip = False, grad_clip_norm = 0,
      distributed_training = True, rank = 3, world_size = 4, learning_rate = 0, running_steps = 0\<rparr>) \<and> distributed_training (\<lparr>gamma = 0, sync_frequency = 1, use_grad_clip = False, grad_clip_norm = 0,
      distributed_training = True, rank = 3, world_size = 4, learning_rate = 0, running_steps = 0\<rparr>) \<and>
   ''Qloss'' \<in> {''Qloss'', ''learning_rate'', ''predictQ''} \<and>
   ''Qloss'' \<in> {''Qloss'', ''learning_rate'', ''predictQ''} \<and>
   rank_key (\<lparr>gamma = 0, sync_frequency = 1, use_grad_clip = False, grad_clip_norm = 0,
      distributed_training = True, rank = 3, world_size = 4, learning_rate = 0, running_steps = 0\<rparr>) ''Qloss'' = rank_key (\<lparr>gamma = 0, sync_frequency = 1, use_grad_clip = False, grad_clip_norm = 0,
      distributed_training = True, rank = 3, world_size = 4, learning_rate = 0, running_steps = 0\<rparr>) ''Qloss'' \<and> rank (\<lparr>gamma = 0, sync_frequency = 1, use_grad_clip = False, grad_clip_norm = 0,
      distributed_training = True, rank = 3, world_size = 4, learning_rate = 0, running_steps = 0\<rparr>) = 3"
  using rank_keys_distinct [of "\<lparr>gamma = 0, sync_frequency = 1, use_grad_clip = False, grad_clip_norm = 0,
      distributed_training = True, rank = 3, world_size = 4, learning_rate = 0, running_steps = 0\<rparr>" "\<lparr>gamma = 0, sync_frequency = 1, use_grad_clip = False, grad_clip_norm = 0,
      distributed_training = True, rank = 3, world_size = 4, learning_rate = 0, running_steps = 0\<rparr>" "''Qloss''" "''Qloss''"] by simp

end
