(* ===== verification/Tensor_Ops.thy ===== *)
theory Tensor_Ops
  imports Prelude
begin

text \<open>
  The tensor operations the three update rules are made of, on batches represented as
  lists: a batch of action-value vectors is a \<open>real list list\<close> (one row per sample,
  one column per discrete action), a batch of scalars a \<open>real list\<close>. Each operation
  keeps torch's failure modes: \<open>one_hot\<close> raises on a class outside \<open>[0, n)\<close>, a
  reduction over an empty action dimension raises, mismatched sizes raise unless one is
  1 (broadcasting). The number of classes of the learners' one-hot (\<open>Q.shape[-1]\<close>) is
  passed explicitly as the policy's \<open>action_dim\<close>, the width the policy contract fixes for
  its output (a list of rows does not keep the width of an empty batch). The lemmas give
  each operation's value on well-shaped inputs; the central one is that one-hot masking
  followed by a sum selects the indexed entry.
\<close>

section \<open>One-hot encoding\<close>

definition one_hot :: "int \<Rightarrow> nat \<Rightarrow> error + real list" where
  "one_hot a n =
     (if 0 \<le> a \<and> a < int n then Inr (map (\<lambda>j. if j = nat a then 1 else 0) [0..<n])
      else Inl Class_out_of_range)"

definition one_hot_batch :: "int list \<Rightarrow> nat \<Rightarrow> error + real list list" where
  "one_hot_batch as n = traverse (\<lambda>a. one_hot a n) as"

section \<open>Mask and sum over the action dimension\<close>

text \<open>\<open>(q * m).sum(dim=-1)\<close> for one row, and for a batch of rows.\<close>

definition row_dot :: "real list \<Rightarrow> real list \<Rightarrow> error + real" where
  "row_dot q m = (case bcast (*) q m of Inl e \<Rightarrow> Inl e | Inr v \<Rightarrow> Inr (sum_list v))"

definition mask_sum :: "real list list \<Rightarrow> real list list \<Rightarrow> error + real list" where
  "mask_sum qs ms =
     (case bcast Pair qs ms of
        Inl e \<Rightarrow> Inl e
      | Inr ps \<Rightarrow> traverse (\<lambda>(q, m). row_dot q m) ps)"

text \<open>\<open>(Q * one_hot(A, n)).sum(dim=-1)\<close>: the value of the indexed action in each row.\<close>

definition select_action :: "real list list \<Rightarrow> int list \<Rightarrow> nat \<Rightarrow> error + real list" where
  "select_action qs as n =
     (case one_hot_batch as n of Inl e \<Rightarrow> Inl e | Inr ms \<Rightarrow> mask_sum qs ms)"

section \<open>Reductions over the action dimension\<close>

fun row_max :: "real list \<Rightarrow> error + real" where
  "row_max [] = Inl Empty_reduction"
| "row_max (x # xs) = Inr (fold max xs x)"

text \<open>\<open>argmax\<close>: the index of the first maximal entry.\<close>

fun row_argmax :: "real list \<Rightarrow> error + nat" where
  "row_argmax [] = Inl Empty_reduction"
| "row_argmax (x # xs) =
     (let m = fold max xs x in Inr (length (takeWhile (\<lambda>v. v \<noteq> m) (x # xs))))"

text \<open>
  Reductions along the last dimension of a batch whose rows have \<open>n\<close> entries: torch
  raises when that dimension is empty, whatever the batch size.
\<close>

definition max_last :: "nat \<Rightarrow> real list list \<Rightarrow> error + real list" where
  "max_last n qs = (if n = 0 then Inl Empty_reduction else traverse row_max qs)"

definition argmax_last :: "nat \<Rightarrow> real list list \<Rightarrow> error + nat list" where
  "argmax_last n qs = (if n = 0 then Inl Empty_reduction else traverse row_argmax qs)"

section \<open>Temporal-difference target and loss\<close>

text \<open>\<open>rew + gamma * (1 - ter) * q\<close>, evaluated left to right as Python does.\<close>

definition td_target :: "real \<Rightarrow> real list \<Rightarrow> real list \<Rightarrow> real list \<Rightarrow> error + real list" where
  "td_target gamma rew ter q =
     (case bcast (*) (map (\<lambda>t. gamma * (1 - t)) ter) q of
        Inl e \<Rightarrow> Inl e
      | Inr c \<Rightarrow> bcast (+) rew c)"

text \<open>\<open>nn.MSELoss()(input, target)\<close> with the default mean reduction.\<close>

definition mse_loss :: "real list \<Rightarrow> real list \<Rightarrow> error + real option" where
  "mse_loss inp tgt =
     (case bcast (\<lambda>p t. (p - t)\<^sup>2) inp tgt of Inl e \<Rightarrow> Inl e | Inr d \<Rightarrow> Inr (mean d))"

section \<open>Evaluation on well-shaped inputs\<close>

text \<open>A batch of rows is well-shaped for \<open>n\<close> actions when every row has \<open>n\<close> entries.\<close>

definition rows_of_width :: "nat \<Rightarrow> real list list \<Rightarrow> bool" where
  "rows_of_width n qs \<longleftrightarrow> (\<forall>q \<in> set qs. length q = n)"

definition actions_in_range :: "nat \<Rightarrow> int list \<Rightarrow> bool" where
  "actions_in_range n as \<longleftrightarrow> (\<forall>a \<in> set as. 0 \<le> a \<and> a < int n)"

lemma one_hot_Inr [tensor_simps]:
  "0 \<le> a \<Longrightarrow> a < int n \<Longrightarrow>
     one_hot a n = Inr (map (\<lambda>j. if j = nat a then 1 else 0) [0..<n])"
  by (simp add: one_hot_def)

lemma one_hot_batch_Inr:
  "actions_in_range n as \<Longrightarrow>
     one_hot_batch as n = Inr (map (\<lambda>a. map (\<lambda>j. if j = nat a then 1 else 0) [0..<n]) as)"
  unfolding one_hot_batch_def actions_in_range_def
  by (rule traverse_all_Inr) (simp add: one_hot_Inr)

lemma one_hot_batch_Inl:
  "\<not> actions_in_range n as \<Longrightarrow> one_hot_batch as n = Inl Class_out_of_range"
  unfolding one_hot_batch_def actions_in_range_def
  by (induction as) (auto simp: one_hot_def split: sum.splits)

lemma sum_list_indicator_upt:
  assumes "length (q::real list) = n" and "k < n"
  shows "sum_list (map2 (*) q (map (\<lambda>j. if j = k then 1 else 0) [0..<n])) = q ! k"
proof -
  have "map2 (*) q (map (\<lambda>j. if j = k then 1 else 0) [0..<n]) =
        map (\<lambda>j. if j = k then q ! j else 0) [0..<n]"
    using assms(1) by (auto simp: list_eq_iff_nth_eq)
  then have "sum_list (map2 (*) q (map (\<lambda>j. if j = k then 1 else 0) [0..<n])) =
             (\<Sum>j \<in> {0..<n}. if j = k then q ! j else 0)"
    by (simp add: interv_sum_list_conv_sum_set_nat)
  also have "\<dots> = q ! k"
    using assms(2) by simp
  finally show ?thesis .
qed

text \<open>One-hot masking of one row selects the entry of the action.\<close>

lemma row_dot_one_hot:
  assumes "length q = n" and "0 \<le> a" and "a < int n"
  shows "row_dot q (map (\<lambda>j. if j = nat a then 1 else 0) [0..<n]) = Inr (q ! nat a)"
  using assms by (simp add: row_dot_def bcast_same sum_list_indicator_upt nat_less_iff)

lemma select_action_nth:
  assumes "rows_of_width n qs" and "actions_in_range n as" and "length as = length qs"
  shows "select_action qs as n = Inr (map2 (\<lambda>q a. q ! nat a) qs as)"
proof -
  let ?ms = "map (\<lambda>a. map (\<lambda>j. if j = nat a then 1 else (0::real)) [0..<n]) as"
  have "list_all2 (\<lambda>x y. (case x of (q, m) \<Rightarrow> row_dot q m) = Inr y)
          (zip qs ?ms) (map2 (\<lambda>q a. q ! nat a) qs as)"
    using assms
    by (auto simp: list_all2_conv_all_nth rows_of_width_def actions_in_range_def
             intro!: row_dot_one_hot)
  then have "traverse (\<lambda>(q, m). row_dot q m) (zip qs ?ms) = Inr (map2 (\<lambda>q a. q ! nat a) qs as)"
    by (simp add: traverse_Inr_iff)
  with assms show ?thesis
    by (simp add: select_action_def one_hot_batch_Inr mask_sum_def bcast_same)
qed

lemma select_action_Inl:
  "\<not> actions_in_range n as \<Longrightarrow> select_action qs as n = Inl Class_out_of_range"
  by (simp add: select_action_def one_hot_batch_Inl)

lemma fold_max_Max: "fold max xs (x::real) = Max (insert x (set xs))"
  using Max.set_eq_fold [of x xs] by simp

lemma row_max_Max: "q \<noteq> [] \<Longrightarrow> row_max q = Inr (Max (set q))"
  by (cases q) (simp_all add: fold_max_Max)

lemma row_argmax_first_max:
  assumes "q \<noteq> []"
  obtains i where "row_argmax q = Inr i" and "i < length q" and "q ! i = Max (set q)"
    and "\<forall>j < i. q ! j < q ! i"
proof -
  let ?m = "Max (set q)"
  let ?i = "length (takeWhile (\<lambda>v. v \<noteq> ?m) q)"
  have eq: "row_argmax q = Inr ?i"
    using assms by (cases q) (simp_all add: fold_max_Max)
  have mem: "?m \<in> set q" using assms by simp
  then have lt: "?i < length q"
    by (auto intro: length_takeWhile_less_mem)
  have at: "q ! ?i = ?m"
    using nth_length_takeWhile [of "\<lambda>v. v \<noteq> ?m" q] lt by simp
  have "\<forall>j < ?i. q ! j < q ! ?i"
  proof (intro allI impI)
    fix j assume "j < ?i"
    then have "q ! j \<noteq> ?m" and "q ! j \<in> set q"
      using nth_mem [of j q] lt takeWhile_nth [of j "\<lambda>v. v \<noteq> ?m" q]
            set_takeWhileD [of "q ! j" "\<lambda>v. v \<noteq> ?m" q] nth_mem [of j "takeWhile (\<lambda>v. v \<noteq> ?m) q"]
      by auto
    then show "q ! j < q ! ?i"
      using at assms by (simp add: order.not_eq_order_implies_strict)
  qed
  with eq lt at show ?thesis by (rule that)
qed

lemma td_target_same:
  assumes "length ter = length rew" and "length q = length rew"
  shows "td_target gamma rew ter q =
           Inr (map (\<lambda>i. rew ! i + gamma * (1 - ter ! i) * q ! i) [0..<length rew])"
proof -
  let ?c = "map2 (*) (map (\<lambda>t. gamma * (1 - t)) ter) q"
  have "td_target gamma rew ter q = Inr (map2 (+) rew ?c)"
    using assms by (simp add: td_target_def bcast_same)
  also have "map2 (+) rew ?c = map (\<lambda>i. rew ! i + gamma * (1 - ter ! i) * q ! i) [0..<length rew]"
    using assms by (intro nth_equalityI) simp_all
  finally show ?thesis .
qed

lemma mse_loss_same:
  "length p = length t \<Longrightarrow> mse_loss p t = Inr (mean (map2 (\<lambda>a b. (a - b)\<^sup>2) p t))"
  by (simp add: mse_loss_def bcast_same)

text \<open>Reductions on a well-shaped batch with a nonempty action dimension.\<close>

lemma max_last_Max:
  "rows_of_width n qs \<Longrightarrow> 0 < n \<Longrightarrow> max_last n qs = Inr (map (\<lambda>q. Max (set q)) qs)"
  unfolding max_last_def rows_of_width_def
  by (auto intro!: traverse_all_Inr row_max_Max)

lemma argmax_last_Inr:
  assumes "rows_of_width n qs" and "0 < n"
  obtains as where "argmax_last n qs = Inr as" and "length as = length qs"
    and "\<forall>i < length qs. as ! i < n \<and> qs ! i ! (as ! i) = Max (set (qs ! i))"
proof -
  have ne: "\<forall>q \<in> set qs. q \<noteq> []" using assms by (auto simp: rows_of_width_def)
  have "\<forall>q \<in> set qs. \<exists>i. row_argmax q = Inr i \<and> i < length q \<and> q ! i = Max (set q)"
    using ne by (metis row_argmax_first_max)
  then obtain f where f: "\<forall>q \<in> set qs. row_argmax q = Inr (f q) \<and> f q < length q \<and> q ! f q = Max (set q)"
    by metis
  then have "traverse row_argmax qs = Inr (map f qs)"
    by (intro traverse_all_Inr) simp
  moreover have "\<forall>i < length qs. map f qs ! i < n \<and> qs ! i ! (map f qs ! i) = Max (set (qs ! i))"
    using f assms(1) by (auto simp: rows_of_width_def)
  ultimately show ?thesis
    using assms(2) that by (simp add: argmax_last_def)
qed

text \<open>
  Selecting, in each row, the entry at that row's argmax gives the row's maximum: the
  one-hot-of-argmax computation equals the plain maximum.
\<close>

lemma select_argmax_eq_max_last:
  assumes "rows_of_width n qs" and "0 < n" and "argmax_last n qs = Inr as"
  shows "select_action qs (map int as) n = max_last n qs"
proof -
  obtain as' where a: "argmax_last n qs = Inr as'" and len: "length as' = length qs"
    and at: "\<forall>i < length qs. as' ! i < n \<and> qs ! i ! (as' ! i) = Max (set (qs ! i))"
    using assms(1,2) by (rule argmax_last_Inr)
  from a assms(3) have [simp]: "as' = as" by simp
  have "actions_in_range n (map int as)"
    using len at by (auto simp: actions_in_range_def in_set_conv_nth)
  then have "select_action qs (map int as) n = Inr (map2 (\<lambda>q a. q ! nat a) qs (map int as))"
    using assms(1) len by (intro select_action_nth) simp_all
  also have "map2 (\<lambda>q a. q ! nat a) qs (map int as) = map (\<lambda>q. Max (set q)) qs"
    using len at by (intro nth_equalityI) simp_all
  finally show ?thesis
    using assms(1,2) by (simp add: max_last_Max)
qed

text \<open>Lengths and entries of successful results, whatever the row contents.\<close>

lemma select_action_length:
  assumes "select_action qs as n = Inr v" and "length as = length qs"
  shows "length v = length qs"
proof -
  obtain ms where ms: "one_hot_batch as n = Inr ms" and r: "mask_sum qs ms = Inr v"
    using assms(1) by (auto simp: select_action_def split: sum.splits)
  have "length ms = length qs"
    using ms assms(2) by (simp add: one_hot_batch_def traverse_Inr_length)
  then show ?thesis
    using r by (auto simp: mask_sum_def bcast_same traverse_Inr_length split: sum.splits)
qed

lemma td_target_nth:
  assumes "td_target gam rew ter q = Inr tgt"
    and "length ter = length rew" and "length q = length rew" and "i < length rew"
  shows "tgt ! i = rew ! i + gam * (1 - ter ! i) * q ! i"
proof -
  have "tgt = map (\<lambda>i. rew ! i + gam * (1 - ter ! i) * q ! i) [0..<length rew]"
    using assms(1-3) by (simp add: td_target_same)
  then show ?thesis using assms(4) by simp
qed

lemma td_target_length:
  assumes "td_target gam rew ter q = Inr tgt"
    and "length ter = length rew" and "length q = length rew"
  shows "length tgt = length rew"
proof -
  have "tgt = map (\<lambda>i. rew ! i + gam * (1 - ter ! i) * q ! i) [0..<length rew]"
    using assms by (simp add: td_target_same)
  then show ?thesis by simp
qed

text \<open>A rewards tensor with one entry is broadcast over the batch.\<close>

lemma td_target_bcast_reward:
  assumes "length ter = length q"
  shows "td_target gam [r] ter q = Inr (map (\<lambda>i. r + gam * (1 - ter ! i) * q ! i) [0..<length q])"
proof -
  have c: "bcast (*) (map (\<lambda>t. gam * (1 - t)) ter) q = Inr (map2 (*) (map (\<lambda>t. gam * (1 - t)) ter) q)"
    using assms by (simp add: bcast_same)
  have "map ((+) r) (map2 (*) (map (\<lambda>t. gam * (1 - t)) ter) q) =
        map (\<lambda>i. r + gam * (1 - ter ! i) * q ! i) [0..<length q]"
    using assms by (intro nth_equalityI) simp_all
  then show ?thesis
    by (simp add: td_target_def c bcast_singleton_left)
qed

end
