(* ===== verification/Policy.thy ===== *)
theory Policy
  imports Tensor_Ops
begin

text \<open>
  The interface the learners require of the policy network (xuance's Q-network classes
  are outside this repository and are modelled from the contract the learners use). A
  policy has a number of discrete actions, \<open>action_dim\<close>, and a Q-function from
  parameters and one observation to one value per action; \<open>policy(obs)\<close> and
  \<open>policy.target(obs)\<close> both evaluate it over the batch (with the online and the target
  parameters respectively) and return the greedy action of each row next to the values.
  The gradient that \<open>loss.backward()\<close> computes is the interface \<open>grad_mse\<close>: the
  gradient, at the online parameters, of the mean squared error between the selected
  online values and the given (constant) targets.
\<close>

record ('p, 'x) q_policy =
  action_dim :: nat
  qnet :: "'p \<Rightarrow> 'x \<Rightarrow> real list"
  grad_mse :: "'p \<Rightarrow> 'x list \<Rightarrow> int list \<Rightarrow> real list \<Rightarrow> real list"

text \<open>
  \<open>policy(obs)\<close> / \<open>policy.target(obs)\<close>: the greedy actions (\<open>argmax(dim=-1)\<close>) and the
  action values of the batch.
\<close>

definition policy_forward ::
  "('p, 'x) q_policy \<Rightarrow> 'p \<Rightarrow> 'x list \<Rightarrow> error + (nat list \<times> real list list)" where
  "policy_forward pol p xs =
     (let q = map (qnet pol p) xs in ebind (argmax_last (action_dim pol) q) (\<lambda>a. Inr (a, q)))"

text \<open>A batch of transitions, the named arrays the replay buffer hands to \<open>update\<close>.\<close>

record 'x transitions =
  obs :: "'x list"
  actions :: "int list"
  obs_next :: "'x list"
  rewards :: "real list"
  terminals :: "real list"

text \<open>The sample dict: the transition arrays and the batch size (the ignored \<open>weights\<close> and
  \<open>step_choices\<close> are left out).\<close>

record 'x per_samples = "'x transitions" +
  batch_size :: nat

text \<open>All arrays of the batch share the leading (batch) dimension.\<close>

definition well_shaped :: "'x transitions \<Rightarrow> bool" where
  "well_shaped b \<longleftrightarrow>
     length (actions b) = length (obs b) \<and> length (obs_next b) = length (obs b) \<and>
     length (rewards b) = length (obs b) \<and> length (terminals b) = length (obs b)"

text \<open>The network returns \<open>action_dim\<close> values for every observation it is applied to.\<close>

definition net_shaped :: "('p, 'x) q_policy \<Rightarrow> 'p \<Rightarrow> 'x list \<Rightarrow> bool" where
  "net_shaped pol p xs \<longleftrightarrow> rows_of_width (action_dim pol) (map (qnet pol p) xs)"

lemma policy_forward_Inr:
  assumes "net_shaped pol p xs" and "0 < action_dim pol"
  obtains as where "policy_forward pol p xs = Inr (as, map (qnet pol p) xs)"
    and "argmax_last (action_dim pol) (map (qnet pol p) xs) = Inr as"
proof -
  obtain as where "argmax_last (action_dim pol) (map (qnet pol p) xs) = Inr as"
    using assms by (auto simp: net_shaped_def elim: argmax_last_Inr)
  then show ?thesis using that by (simp add: policy_forward_def)
qed

lemma policy_forward_length:
  "policy_forward pol p xs = Inr (as, q) \<Longrightarrow> length q = length xs \<and> length as = length xs"
  by (auto simp: policy_forward_def Let_def ebind_def argmax_last_def traverse_Inr_length
           split: if_splits sum.splits)

lemma policy_forward_empty_actions:
  "action_dim pol = 0 \<Longrightarrow> policy_forward pol p xs = Inl Empty_reduction"
  by (simp add: policy_forward_def argmax_last_def)

end
