(* ===== verification/Examples.thy ===== *)
theory Examples
  imports Learner Policy
begin

text \<open>
  Concrete instances of the interfaces, used to run the update rules on the scenario of
  the specification (a batch of four transitions with rewards \<open>[1, 0, 0, 2]\<close>, terminal
  flags \<open>[0, 0, 1, 0]\<close> and discount 0.9): a one-parameter Q-network with two actions, a
  gradient-descent optimizer whose state counts its steps, and two configurations (one
  worker, and the second of two distributed workers).
\<close>

definition cfg_ex :: learner_config where
  "cfg_ex = \<lparr>gamma = 9 / 10, sync_frequency = 1, use_grad_clip = False, grad_clip_norm = 1,
             distributed_training = False, rank = 0, world_size = 1, learning_rate = 1 / 10,
             running_steps = 4\<rparr>"

definition cfg_dist_ex :: learner_config where
  "cfg_dist_ex = cfg_ex\<lparr>distributed_training := True, rank := 1, world_size := 2\<rparr>"

definition pol_ex :: "(real, real) q_policy" where
  "pol_ex = \<lparr>action_dim = 2, qnet = (\<lambda>p x. [p * x, p + x]), grad_mse = (\<lambda>p xs as ts. [p])\<rparr>"

definition opt_ex :: "(real, nat) opt_step" where
  "opt_ex = (\<lambda>k l g p. (Suc k, p - l * hd g))"

definition batch_ex :: "real transitions" where
  "batch_ex = \<lparr>obs = [1, 2, 3, 4], actions = [0, 1, 1, 0], obs_next = [2, 3, 4, 5],
               rewards = [1, 0, 0, 2], terminals = [0, 0, 1, 0]\<rparr>"

definition samples_ex :: "real per_samples" where
  "samples_ex = \<lparr>obs = [1, 2, 3, 4], actions = [0, 1, 1, 0], obs_next = [2, 3, 4, 5],
                 rewards = [1, 0, 0, 2], terminals = [0, 0, 1, 0], batch_size = 4\<rparr>"

definition init_ex :: "(real, nat) learner_state" where
  "init_ex = learner_init cfg_ex 1 0"

text \<open>The definitions a concrete run unfolds.\<close>

lemmas example_defs = cfg_ex_def cfg_dist_ex_def pol_ex_def opt_ex_def batch_ex_def samples_ex_def
  init_ex_def learner_init_def

lemmas run_defs = start_update_def policy_forward_def argmax_last_def select_action_def
  one_hot_batch_def one_hot_def mask_sum_def bcast_def row_dot_def td_target_def mse_loss_def
  mean_def optimize_and_sync_def clip_if_def linear_lr_step_def linear_lr_get_def copy_target_def
  update_info_def rank_key_def max_last_def upt_rec

end
