(* ===== verification/Adam.thy ===== *)
theory Adam
  imports Learner Policy
begin

text \<open>
  The optimizer every learner constructor builds,
  \<open>torch.optim.Adam(self.policy.parameters(), self.config.learning_rate, eps=1e-5)\<close> with
  torch's default \<open>betas=(0.9, 0.999)\<close>, no weight decay and no AMSGrad, modelled after
  torch's single-tensor Adam step since it is not code of this repository. The
  parameters are one flat tensor (a list of reals) and its gradient, which autograd gives
  the parameters' shape. The state is \<open>state['step']\<close> and the two moment estimates,
  which torch creates as zeros at the first step. The lemmas give the first step from that
  state in closed form and bound it: every parameter moves by at most the learning rate.
\<close>

record adam_state =
  adam_t :: nat
  exp_avg :: "real list"
  exp_avg_sq :: "real list"

text \<open>The state of a fresh optimizer for parameters \<open>p\<close>: step 0, zero moments.\<close>

definition adam_init :: "real list \<Rightarrow> adam_state" where
  "adam_init p = \<lparr>adam_t = 0, exp_avg = replicate (length p) 0, exp_avg_sq = replicate (length p) 0\<rparr>"

text \<open>
  One entry of the update at step \<open>t\<close>: \<open>exp_avg.lerp_(grad, 1 - beta1)\<close>,
  \<open>exp_avg_sq.mul_(beta2).addcmul_(grad, grad, value=1 - beta2)\<close>, the bias corrections
  \<open>1 - beta ** step\<close>, \<open>denom = exp_avg_sq.sqrt() / sqrt(bias_correction2) + eps\<close> and
  \<open>param.addcdiv_(exp_avg, denom, value=-lr / bias_correction1)\<close>.
\<close>

definition adam_elem ::
  "real \<Rightarrow> real \<Rightarrow> real \<Rightarrow> real \<Rightarrow> nat \<Rightarrow> real \<Rightarrow> real \<times> real \<times> real \<Rightarrow> real \<times> real \<times> real" where
  "adam_elem b1 b2 eps rate t g pmv =
     (case pmv of (p, m, v) \<Rightarrow>
      let m' = b1 * m + (1 - b1) * g;
          v' = b2 * v + (1 - b2) * g * g;
          step_size = rate / (1 - b1 ^ t);
          denom = sqrt v' / sqrt (1 - b2 ^ t) + eps
      in (p - step_size * m' / denom, m', v'))"

text \<open>\<open>optimizer.step()\<close> with the current learning rate: the step counter advances, then every entry is updated.\<close>

definition adam_step :: "real \<Rightarrow> real \<Rightarrow> real \<Rightarrow> (real list, adam_state) opt_step" where
  "adam_step b1 b2 eps st rate g p =
     (let t = Suc (adam_t st);
          r = map2 (adam_elem b1 b2 eps rate t) g (zip p (zip (exp_avg st) (exp_avg_sq st)))
      in (\<lparr>adam_t = t, exp_avg = map (fst \<circ> snd) r, exp_avg_sq = map (snd \<circ> snd) r\<rparr>, map fst r))"

text \<open>The optimizer of the learners: default betas, \<open>eps=1e-5\<close>.\<close>

definition learner_adam :: "(real list, adam_state) opt_step" where
  "learner_adam = adam_step (9 / 10) (999 / 1000) (1 / 100000)"

text \<open>The gradient \<open>loss.backward()\<close> leaves has the shape of the parameters.\<close>

definition grad_shaped :: "(real list, 'x) q_policy \<Rightarrow> bool" where
  "grad_shaped pol \<longleftrightarrow> (\<forall>p xs as ts. length (grad_mse pol p xs as ts) = length p)"

section \<open>The first step\<close>

lemma adam_elem_first:
  assumes "b1 < 1" and "b2 < 1"
  shows "adam_elem b1 b2 eps rate (Suc 0) g (p, 0, 0) = (p - rate * g / (\<bar>g\<bar> + eps), (1 - b1) * g, (1 - b2) * g * g)"
proof -
  have b2: "0 < 1 - b2" using assms(2) by simp
  have "sqrt ((1 - b2) * g * g) = sqrt (1 - b2) * \<bar>g\<bar>"
    by (simp add: real_sqrt_mult mult.assoc)
  then have d: "sqrt ((1 - b2) * g * g) / sqrt (1 - b2) = \<bar>g\<bar>"
    using b2 by simp
  have "rate / (1 - b1) * ((1 - b1) * g) = rate * g"
    using assms(1) by simp
  then show ?thesis
    using assms(1) by (simp add: adam_elem_def Let_def d)
qed

lemma first_step_bound:
  fixes rate :: real
  assumes "0 \<le> rate" and "0 < eps"
  shows "\<bar>rate * g / (\<bar>g\<bar> + eps)\<bar> \<le> rate"
proof -
  have pos: "0 < \<bar>g\<bar> + eps" using assms(2) abs_ge_zero [of g] by linarith
  have "\<bar>rate * g / (\<bar>g\<bar> + eps)\<bar> = rate * (\<bar>g\<bar> / (\<bar>g\<bar> + eps))"
    using assms(1) pos by (simp add: abs_mult)
  also have "\<dots> \<le> rate * 1"
    using assms pos by (intro mult_left_mono) simp_all
  finally show ?thesis by simp
qed

lemma learner_adam_first_state:
  assumes "length g = length p"
  shows "learner_adam (adam_init p) rate g p =
           (\<lparr>adam_t = 1, exp_avg = map (\<lambda>g. g / 10) g, exp_avg_sq = map (\<lambda>g. g * g / 1000) g\<rparr>,
            map2 (\<lambda>g p. p - rate * g / (\<bar>g\<bar> + 1 / 100000)) g p)"
proof -
  let ?r = "map2 (adam_elem (9 / 10) (999 / 1000) (1 / 100000) rate (Suc 0)) g
              (zip p (zip (replicate (length p) 0) (replicate (length p) 0)))"
  have e: "learner_adam (adam_init p) rate g p =
           (\<lparr>adam_t = Suc 0, exp_avg = map (fst \<circ> snd) ?r, exp_avg_sq = map (snd \<circ> snd) ?r\<rparr>, map fst ?r)"
    by (simp only: learner_adam_def adam_step_def adam_init_def Let_def adam_state.simps)
  have r: "?r = map2 (\<lambda>g p. (p - rate * g / (\<bar>g\<bar> + 1 / 100000), g / 10, g * g / 1000)) g p"
    using assms by (induction g p rule: list_induct2) (simp_all add: adam_elem_first)
  have "map (fst \<circ> snd) ?r = map (\<lambda>g. g / 10) g" "map (snd \<circ> snd) ?r = map (\<lambda>g. g * g / 1000) g"
    "map fst ?r = map2 (\<lambda>g p. p - rate * g / (\<bar>g\<bar> + 1 / 100000)) g p"
    unfolding r using assms by (induction g p rule: list_induct2) simp_all
  then show ?thesis using e by simp
qed

lemma learner_adam_first:
  assumes "length g = length p"
  shows "snd (learner_adam (adam_init p) rate g p) =
           map2 (\<lambda>g p. p - rate * g / (\<bar>g\<bar> + 1 / 100000)) g p"
  using assms by (simp add: learner_adam_first_state)

text \<open>From the fresh state, each parameter moves by at most the learning rate.\<close>

lemma learner_adam_first_bounded:
  assumes "length g = length p" and "0 \<le> rate"
  shows "length (snd (learner_adam (adam_init p) rate g p)) = length p \<and>
         (\<forall>i < length p. \<bar>snd (learner_adam (adam_init p) rate g p) ! i - p ! i\<bar> \<le> rate)"
  using assms first_step_bound [OF assms(2), of "1 / 100000"]
  by (simp add: learner_adam_first)

lemma clip_if_length [simp]: "length (clip_if cfg g) = length g"
  by (simp add: clip_if_def clip_grad_norm_def)

section \<open>The first update of a learner\<close>

text \<open>
  Every learner's first update runs the shared tail on the constructor's state: the rate is
  still \<open>learning_rate\<close> and Adam is fresh, so each parameter moves by at most that rate,
  whatever the gradient.
\<close>

lemma eval_params_learner_init: "eval_params (learner_init cfg p st0) = p"
  by (simp add: learner_init_def)

lemma first_tail_adam_bounded:
  assumes "optimize_and_sync cfg learner_adam g (start_update (learner_init cfg p (adam_init p))) =
             Inr ((), s')"
    and "length g = length p" and "0 \<le> learning_rate cfg"
  shows "length (eval_params s') = length p \<and>
         (\<forall>i < length p. \<bar>eval_params s' ! i - p ! i\<bar> \<le> learning_rate cfg)"
proof -
  have "tail_fields cfg learner_adam g (start_update (learner_init cfg p (adam_init p))) s'"
    using assms(1) by (rule optimize_and_sync_Inr_fields)
  then have "eval_params s' = snd (learner_adam (adam_init p) (learning_rate cfg) (clip_if cfg g) p)"
    by (simp add: tail_fields_def learner_init_def linear_lr_get_def prod_eq_iff)
  then show ?thesis
    using learner_adam_first_bounded [of "clip_if cfg g" p "learning_rate cfg"] assms(2,3) by simp
qed

end
