(* ===== verification/DDQN.thy ===== *)
theory DDQN
  imports Examples Adam
begin

text \<open>
  \<open>DDQN_Learner.update\<close> (src/xuance/torch/learners/qlearning_family/ddqn_learner.py).
  The forward part \<open>ddqn_targets\<close> evaluates the online network on the observations and
  the target network on the next observations, selects the target value at the target
  network's own greedy action by one-hot masking, forms the TD target and selects the
  online value of the taken action. \<open>ddqn_update\<close> is the whole method: the counter
  increment, the forward part, the MSE loss, the shared tail and the statistics. The
  lemmas give the forward part's value on well-shaped batches, its behaviour at
  terminal transitions whatever the target network returns, the update's effect on the
  counter and the target network, its errors, and the invariant of training runs.
\<close>

section \<open>The update rule\<close>

definition ddqn_targets ::
  "real \<Rightarrow> ('p, 'x) q_policy \<Rightarrow> 'p \<Rightarrow> 'p \<Rightarrow> 'x transitions \<Rightarrow> error + real list \<times> real list" where
  "ddqn_targets gam pol pe pt b =
     ebind (policy_forward pol pe (obs b)) (\<lambda>(_, evalQ).
     ebind (policy_forward pol pt (obs_next b)) (\<lambda>(targetA, targetQ).
     ebind (select_action targetQ (map int targetA) (action_dim pol)) (\<lambda>tq.
     ebind (td_target gam (rewards b) (terminals b) tq) (\<lambda>target.
     ebind (select_action evalQ (actions b) (action_dim pol)) (\<lambda>predict.
     Inr (predict, target))))))"

definition ddqn_update ::
  "learner_config \<Rightarrow> ('p, 'x) q_policy \<Rightarrow> ('p, 'o) opt_step \<Rightarrow> ('p, 'o) learner_state \<Rightarrow>
     'x transitions \<Rightarrow> (info, ('p, 'o) learner_state) result" where
  "ddqn_update cfg pol opt s b =
     (let s1 = start_update s in
      case ebind (ddqn_targets (gamma cfg) pol (eval_params s1) (target_params s1) b)
             (\<lambda>(predict, target). ebind (mse_loss predict target) (\<lambda>loss. Inr (predict, target, loss))) of
        Inl e \<Rightarrow> Inl (e, s1)
      | Inr (predict, target, loss) \<Rightarrow>
          (case optimize_and_sync cfg opt (grad_mse pol (eval_params s1) (obs b) (actions b) target) s1 of
             Inl es \<Rightarrow> Inl es
           | Inr (_, s2) \<Rightarrow> Inr (update_info cfg loss (lr s2) (mean predict), s2)))"

text \<open>One successful update of a training run.\<close>

inductive ddqn_step ::
  "learner_config \<Rightarrow> ('p, 'x) q_policy \<Rightarrow> ('p, 'o) opt_step \<Rightarrow>
     ('p, 'o) learner_state \<Rightarrow> ('p, 'o) learner_state \<Rightarrow> bool"
  for cfg pol opt where
  "ddqn_update cfg pol opt s b = Inr (stats, s') \<Longrightarrow> ddqn_step cfg pol opt s s'"

text \<open>
  \<open>DDQN_Learner.__init__\<close>: the base constructor, \<open>torch.optim.Adam\<close> over the policy's
  parameters with the configured rate and \<open>eps=1e-5\<close>, and the \<open>LinearLR\<close> scheduler;
  the learner then updates with \<open>learner_adam\<close>.
\<close>

definition ddqn_learner_init :: "learner_config \<Rightarrow> real list \<Rightarrow> (real list, adam_state) learner_state" where
  "ddqn_learner_init cfg p = learner_init cfg p (adam_init p)"

section \<open>The forward part\<close>

lemma ddqn_targets_Inr:
  assumes "ddqn_targets gam pol pe pt b = Inr (predict, target)"
  obtains evalA evalQ targetA targetQ tq where
    "policy_forward pol pe (obs b) = Inr (evalA, evalQ)"
    "policy_forward pol pt (obs_next b) = Inr (targetA, targetQ)"
    "select_action targetQ (map int targetA) (action_dim pol) = Inr tq"
    "td_target gam (rewards b) (terminals b) tq = Inr target"
    "select_action evalQ (actions b) (action_dim pol) = Inr predict"
  using assms that
  by (auto simp: ddqn_targets_def ebind_eq_Inr split: prod.splits)

text \<open>
  On a well-shaped batch, the \<open>i\<close>-th target is the \<open>i\<close>-th reward plus the discounted,
  terminal-masked value the target network selected, whatever that value is.
\<close>

lemma ddqn_target_nth:
  assumes "ddqn_targets gam pol pe pt b = Inr (predict, target)"
    and "well_shaped b" and "i < length (obs b)"
  shows "\<exists>v. target ! i = rewards b ! i + gam * (1 - terminals b ! i) * v"
proof -
  obtain evalA evalQ targetA targetQ tq where
    t: "policy_forward pol pt (obs_next b) = Inr (targetA, targetQ)"
    and s: "select_action targetQ (map int targetA) (action_dim pol) = Inr tq"
    and d: "td_target gam (rewards b) (terminals b) tq = Inr target"
    using assms(1) by (rule ddqn_targets_Inr)
  have "length tq = length (rewards b)"
    using t s assms(2) policy_forward_length [OF t]
    by (auto simp: well_shaped_def dest: select_action_length)
  then show ?thesis
    using d assms(2,3) by (auto simp: well_shaped_def td_target_nth)
qed

text \<open>
  On networks that return one value per action, the forward part is the TD target over
  the target network's maxima followed by the online selection.
\<close>

lemma ddqn_targets_forward:
  assumes "net_shaped pol pe (obs b)" and "net_shaped pol pt (obs_next b)" and "0 < action_dim pol"
  shows "ddqn_targets gam pol pe pt b =
     ebind (td_target gam (rewards b) (terminals b) (map ((\<lambda>q. Max (set q)) \<circ> qnet pol pt) (obs_next b)))
       (\<lambda>target. ebind (select_action (map (qnet pol pe) (obs b)) (actions b) (action_dim pol))
       (\<lambda>predict. Inr (predict, target)))"
proof -
  let ?n = "action_dim pol"
  let ?eQ = "map (qnet pol pe) (obs b)" and ?tQ = "map (qnet pol pt) (obs_next b)"
  obtain eA where e: "policy_forward pol pe (obs b) = Inr (eA, ?eQ)"
    using assms(1,3) by (rule policy_forward_Inr)
  obtain tA where t: "policy_forward pol pt (obs_next b) = Inr (tA, ?tQ)"
    and ta: "argmax_last ?n ?tQ = Inr tA"
    using assms(2,3) by (rule policy_forward_Inr)
  have sel: "select_action ?tQ (map int tA) ?n = Inr (map (\<lambda>q. Max (set q)) ?tQ)"
    using assms(2,3) ta by (simp add: net_shaped_def select_argmax_eq_max_last max_last_Max)
  show ?thesis
    by (simp add: ddqn_targets_def e t sel)
qed

lemma ddqn_targets_eq:
  assumes "well_shaped b" and "net_shaped pol pe (obs b)" and "net_shaped pol pt (obs_next b)"
    and "0 < action_dim pol" and "actions_in_range (action_dim pol) (actions b)"
  shows "ddqn_targets gam pol pe pt b =
           Inr (map2 (\<lambda>q a. q ! nat a) (map (qnet pol pe) (obs b)) (actions b),
                map (\<lambda>i. rewards b ! i + gam * (1 - terminals b ! i) *
                          Max (set (qnet pol pt (obs_next b ! i)))) [0..<length (obs b)])"
proof -
  have td: "td_target gam (rewards b) (terminals b) (map ((\<lambda>q. Max (set q)) \<circ> qnet pol pt) (obs_next b)) =
       Inr (map (\<lambda>i. rewards b ! i + gam * (1 - terminals b ! i) *
                     Max (set (qnet pol pt (obs_next b ! i)))) [0..<length (obs b)])"
    using assms(1) by (simp add: td_target_same well_shaped_def)
  have pr: "select_action (map (qnet pol pe) (obs b)) (actions b) (action_dim pol) =
              Inr (map2 (\<lambda>q a. q ! nat a) (map (qnet pol pe) (obs b)) (actions b))"
    using assms(1,2,5) by (intro select_action_nth) (simp_all add: net_shaped_def well_shaped_def)
  show ?thesis
    by (simp add: ddqn_targets_forward [OF assms(2-4)] td pr)
qed

section \<open>The whole update\<close>

lemma ddqn_update_Inr:
  assumes "ddqn_update cfg pol opt s b = Inr (stats, s')"
  obtains predict target loss where
    "ddqn_targets (gamma cfg) pol (eval_params s) (target_params s) b = Inr (predict, target)"
    "mse_loss predict target = Inr loss"
    "optimize_and_sync cfg opt (grad_mse pol (eval_params s) (obs b) (actions b) target)
       (start_update s) = Inr ((), s')"
    "stats = update_info cfg loss (lr s') (mean predict)"
  using assms that
  by (auto simp: ddqn_update_def start_update_def Let_def ebind_def split: sum.splits prod.splits)

lemma ddqn_update_forward_Inl:
  "ddqn_targets (gamma cfg) pol (eval_params s) (target_params s) b = Inl e \<Longrightarrow>
     ddqn_update cfg pol opt s b = Inl (e, start_update s)"
  by (simp add: ddqn_update_def start_update_def)

lemma ddqn_step_tail: "ddqn_step cfg pol opt s s' \<Longrightarrow> tail_step cfg opt s s'"
  by (auto simp: tail_step_def elim!: ddqn_step.cases elim: ddqn_update_Inr)

lemma ddqn_trained_inv: "trained cfg (ddqn_step cfg pol opt) s \<Longrightarrow> learner_inv cfg s"
  by (erule trained_learner_inv) (erule ddqn_step_tail)

text \<open>An action outside \<open>[0, action_dim)\<close> makes the online one-hot raise.\<close>

lemma ddqn_targets_action_error:
  assumes "well_shaped b" and "net_shaped pol pe (obs b)" and "net_shaped pol pt (obs_next b)"
    and "0 < action_dim pol" and "\<not> actions_in_range (action_dim pol) (actions b)"
  shows "ddqn_targets gam pol pe pt b = Inl Class_out_of_range"
proof -
  obtain tgt where td: "td_target gam (rewards b) (terminals b)
                          (map ((\<lambda>q. Max (set q)) \<circ> qnet pol pt) (obs_next b)) = Inr tgt"
    using assms(1) by (simp add: td_target_same well_shaped_def)
  show ?thesis
    using assms(5) by (simp add: ddqn_targets_forward [OF assms(2-4)] td select_action_Inl)
qed

section \<open>Properties of the update rule\<close>

lemma ddqn_targets_ex:
  "ddqn_targets (9 / 10) pol_ex 1 1 batch_ex = Inr ([1, 3, 4, 4], [37 / 10, 18 / 5, 0, 37 / 5])"
  by (simp add: ddqn_targets_def example_defs run_defs)

lemma ddqn_update_ex:
  "ddqn_update cfg_ex pol_ex opt_ex init_ex batch_ex =
     Inr ([(''Qloss'', Some (3521 / 400)), (''learning_rate'', Some (3 / 40)), (''predictQ'', Some 3)],
          \<lparr>iterations = 1, eval_params = 9 / 10, target_params = 9 / 10, opt_state = 1,
           lr = 3 / 40, last_epoch = 1\<rparr>)"
  by (simp add: ddqn_update_def ddqn_targets_def example_defs run_defs power2_eq_square)

lemma ddqn_update_clip_ex:
  "ddqn_update (cfg_ex\<lparr>use_grad_clip := True, grad_clip_norm := 1 / 2\<rparr>) pol_ex opt_ex init_ex batch_ex =
     Inr ([(''Qloss'', Some (3521 / 400)), (''learning_rate'', Some (3 / 40)), (''predictQ'', Some 3)],
          \<lparr>iterations = 1, eval_params = 950001 / 1000001, target_params = 950001 / 1000001,
           opt_state = 1, lr = 3 / 40, last_epoch = 1\<rparr>)"
  by (simp add: ddqn_update_def ddqn_targets_def example_defs run_defs power2_eq_square
                clip_grad_norm_def clip_coef_def l2norm_def)

lemma ddqn_trained_ex:
  "trained cfg_ex (ddqn_step cfg_ex pol_ex opt_ex)
     \<lparr>iterations = 1, eval_params = 9 / 10, target_params = 9 / 10, opt_state = 1,
      lr = 3 / 40, last_epoch = 1\<rparr>"
proof (rule trained_step)
  show "trained cfg_ex (ddqn_step cfg_ex pol_ex opt_ex) init_ex"
    unfolding init_ex_def by (rule trained_init)
  show "ddqn_step cfg_ex pol_ex opt_ex init_ex
          \<lparr>iterations = 1, eval_params = 9 / 10, target_params = 9 / 10, opt_state = 1,
           lr = 3 / 40, last_epoch = 1\<rparr>"
    by (rule ddqn_step.intros) (rule ddqn_update_ex)
qed

text \<open>
  C1. At a terminal transition (flag 1) of a well-shaped batch, the TD target the DDQN
  update regresses on is exactly the reward: the discounted continuation is zeroed
  whatever the target network returns.
\<close>

theorem ddqn_terminal_target:
  assumes "ddqn_targets gam pol pe pt b = Inr (predict, target)"
    and "well_shaped b" and "i < length (obs b)" and "terminals b ! i = 1"
  shows "target ! i = rewards b ! i"
proof -
  obtain v where "target ! i = rewards b ! i + gam * (1 - terminals b ! i) * v"
    using ddqn_target_nth [OF assms(1-3)] by blast
  with assms(4) show ?thesis by simp
qed

theorem ddqn_terminal_target_witness:
  "well_shaped batch_ex \<and> 2 < length (obs batch_ex) \<and> terminals batch_ex ! 2 = 1 \<and>
   [37 / 10, 18 / 5, 0, 37 / 5 :: real] ! 2 = rewards batch_ex ! 2"
proof -
  have w: "well_shaped batch_ex" and l: "2 < length (obs batch_ex)"
    and t: "terminals batch_ex ! 2 = 1"
    by (simp_all add: well_shaped_def batch_ex_def)
  show ?thesis
    using w l t ddqn_terminal_target [OF ddqn_targets_ex w l t] by simp
qed

text \<open>
  C2. At a non-terminal transition (flag 0), with a network that returns one value per
  action and actions in range, the DDQN target is the reward plus the discounted maximum
  of the target network's values at the next observation, and the prediction is the
  online network's value of the action taken.
\<close>

theorem ddqn_nonterminal_target:
  assumes "well_shaped b" and "net_shaped pol pe (obs b)" and "net_shaped pol pt (obs_next b)"
    and "0 < action_dim pol" and "actions_in_range (action_dim pol) (actions b)"
    and "i < length (obs b)" and "terminals b ! i = 0"
  shows "\<exists>predict target. ddqn_targets gam pol pe pt b = Inr (predict, target) \<and>
           predict ! i = qnet pol pe (obs b ! i) ! nat (actions b ! i) \<and>
           target ! i = rewards b ! i + gam * Max (set (qnet pol pt (obs_next b ! i)))"
  using assms(6,7) assms(1) ddqn_targets_eq [OF assms(1-5), of gam]
  by (simp add: well_shaped_def)

theorem ddqn_nonterminal_target_witness:
  "well_shaped batch_ex \<and> net_shaped pol_ex 1 (obs batch_ex) \<and>
   net_shaped pol_ex 1 (obs_next batch_ex) \<and> 0 < action_dim pol_ex \<and>
   actions_in_range (action_dim pol_ex) (actions batch_ex) \<and>
   0 < length (obs batch_ex) \<and> terminals batch_ex ! 0 = 0 \<and>
   (\<exists>predict target. ddqn_targets (9 / 10) pol_ex 1 1 batch_ex = Inr (predict, target) \<and>
      predict ! 0 = qnet pol_ex 1 (obs batch_ex ! 0) ! nat (actions batch_ex ! 0) \<and>
      target ! 0 = rewards batch_ex ! 0 + 9 / 10 * Max (set (qnet pol_ex 1 (obs_next batch_ex ! 0))))"
proof -
  have h: "well_shaped batch_ex" "net_shaped pol_ex 1 (obs batch_ex)"
    "net_shaped pol_ex 1 (obs_next batch_ex)" "0 < action_dim pol_ex"
    "actions_in_range (action_dim pol_ex) (actions batch_ex)"
    "0 < length (obs batch_ex)" "terminals batch_ex ! 0 = 0"
    by (simp_all add: well_shaped_def net_shaped_def rows_of_width_def actions_in_range_def
                      batch_ex_def pol_ex_def)
  show ?thesis
    using h ddqn_nonterminal_target [OF h, of "9 / 10"] by blast
qed

text \<open>
  C3. In every state of a DDQN training run (construction, then successful updates), the
  target network equals the online network whenever the iteration counter is a multiple
  of \<open>sync_frequency\<close>.
\<close>

theorem ddqn_trained_target_synced:
  assumes "trained cfg (ddqn_step cfg pol opt) s"
    and "int (iterations s) mod sync_frequency cfg = 0"
  shows "target_params s = eval_params s"
  using ddqn_trained_inv [OF assms(1)] assms(2) by (simp add: learner_inv_def)

theorem ddqn_trained_target_synced_witness:
  "trained cfg_ex (ddqn_step cfg_ex pol_ex opt_ex)
     \<lparr>iterations = 1, eval_params = 9 / 10, target_params = 9 / 10, opt_state = 1,
      lr = 3 / 40, last_epoch = 1\<rparr> \<and>
   int (iterations (\<lparr>iterations = 1, eval_params = 9 / 10, target_params = 9 / 10, opt_state = 1,
      lr = 3 / 40, last_epoch = 1\<rparr> :: (real, nat) learner_state)) mod sync_frequency cfg_ex = 0 \<and>
   target_params (\<lparr>iterations = 1, eval_params = 9 / 10, target_params = 9 / 10, opt_state = 1,
      lr = 3 / 40, last_epoch = 1\<rparr> :: (real, nat) learner_state) = 9 / 10"
proof -
  have m: "int (iterations (\<lparr>iterations = 1, eval_params = 9 / 10, target_params = 9 / 10,
      opt_state = 1, lr = 3 / 40, last_epoch = 1\<rparr> :: (real, nat) learner_state))
        mod sync_frequency cfg_ex = 0"
    by (simp add: cfg_ex_def)
  show ?thesis
    using ddqn_trained_ex m ddqn_trained_target_synced [OF ddqn_trained_ex m] by simp
qed

text \<open>
  C7. Along a DDQN training run, the learning rate an update reports under
  \<open>learning_rate\<close> is the linear schedule at the new iteration count:
  \<open>learning_rate * (T - min k T) / T\<close> for \<open>T = running_steps\<close>.
\<close>

theorem ddqn_reported_learning_rate:
  assumes "trained cfg (ddqn_step cfg pol opt) s" and "ddqn_update cfg pol opt s b = Inr (stats, s')"
  shows "map_of stats (rank_key cfg ''learning_rate'') =
           Some (Some (linear_lr_closed (learning_rate cfg) (running_steps cfg) (Suc (iterations s))))"
proof -
  obtain predict target loss where st: "stats = update_info cfg loss (lr s') (mean predict)"
    using assms(2) by (rule ddqn_update_Inr)
  have step: "ddqn_step cfg pol opt s s'"
    using assms(2) by (rule ddqn_step.intros)
  have "trained cfg (ddqn_step cfg pol opt) s'"
    using assms(1) step by (rule trained_step)
  then have inv: "learner_inv cfg s'" by (rule ddqn_trained_inv)
  have it: "iterations s' = Suc (iterations s)"
    using tail_step_sync [OF ddqn_step_tail [OF step]] by simp
  show ?thesis
    using st inv it by (simp add: learner_inv_def map_of_update_info_lr)
qed

theorem ddqn_reported_learning_rate_witness:
  "trained cfg_ex (ddqn_step cfg_ex pol_ex opt_ex) init_ex \<and>
   ddqn_update cfg_ex pol_ex opt_ex init_ex batch_ex =
     Inr ([(''Qloss'', Some (3521 / 400)), (''learning_rate'', Some (3 / 40)), (''predictQ'', Some 3)],
          \<lparr>iterations = 1, eval_params = 9 / 10, target_params = 9 / 10, opt_state = 1,
           lr = 3 / 40, last_epoch = 1\<rparr>) \<and>
   linear_lr_closed (learning_rate cfg_ex) (running_steps cfg_ex) (Suc (iterations init_ex)) = 3 / 40"
proof -
  have t: "trained cfg_ex (ddqn_step cfg_ex pol_ex opt_ex) init_ex"
    unfolding init_ex_def by (rule trained_init)
  have "map_of [(''Qloss'', Some (3521 / 400)), (''learning_rate'', Some (3 / 40)), (''predictQ'', Some (3::real))]
          (rank_key cfg_ex ''learning_rate'') =
        Some (Some (linear_lr_closed (learning_rate cfg_ex) (running_steps cfg_ex) (Suc (iterations init_ex))))"
    by (rule ddqn_reported_learning_rate [OF t ddqn_update_ex])
  then show ?thesis
    using t ddqn_update_ex by (simp add: rank_key_def cfg_ex_def)
qed

text \<open>
  C8. With \<open>sync_frequency = 0\<close> an update whose forward pass succeeds raises
  \<open>ZeroDivisionError\<close> at the sync test, after the counter has been incremented and the
  optimizer has already stepped the online parameters; the target network is untouched.
\<close>

theorem ddqn_zero_sync_frequency_raises:
  assumes "sync_frequency cfg = 0"
    and "ddqn_targets (gamma cfg) pol (eval_params s) (target_params s) b = Inr (predict, target)"
    and "mse_loss predict target = Inr loss"
  shows "\<exists>s'. ddqn_update cfg pol opt s b = Inl (Zero_division, s') \<and>
           iterations s' = Suc (iterations s) \<and>
           (opt_state s', eval_params s') =
             opt (opt_state s) (lr s) (clip_if cfg (grad_mse pol (eval_params s) (obs b) (actions b) target))
               (eval_params s) \<and>
           target_params s' = target_params s"
proof -
  let ?g = "grad_mse pol (eval_params s) (obs b) (actions b) target"
  obtain s' where r: "optimize_and_sync cfg opt ?g (start_update s) = Inl (Zero_division, s')"
    and f: "tail_fields cfg opt ?g (start_update s) s'"
    and t: "target_params s' = target_params (start_update s)"
    using assms(1) by (rule optimize_and_sync_zero)
  have "ddqn_update cfg pol opt s b = Inl (Zero_division, s')"
    using assms(2,3) r by (simp add: ddqn_update_def Let_def)
  then show ?thesis
    using f t by (auto simp: tail_fields_def)
qed

theorem ddqn_zero_sync_frequency_raises_witness:
  "sync_frequency (cfg_ex\<lparr>sync_frequency := 0\<rparr>) = 0 \<and>
   ddqn_targets (gamma (cfg_ex\<lparr>sync_frequency := 0\<rparr>)) pol_ex (eval_params init_ex) (target_params init_ex)
     batch_ex = Inr ([1, 3, 4, 4], [37 / 10, 18 / 5, 0, 37 / 5]) \<and>
   mse_loss [1, 3, 4, 4] [37 / 10, 18 / 5, 0, 37 / 5] = Inr (Some (3521 / 400)) \<and>
   (\<exists>s'. ddqn_update (cfg_ex\<lparr>sync_frequency := 0\<rparr>) pol_ex opt_ex init_ex batch_ex = Inl (Zero_division, s') \<and>
      iterations s' = 1 \<and> eval_params s' = 9 / 10 \<and> target_params s' = 1)"
proof -
  have z: "sync_frequency (cfg_ex\<lparr>sync_frequency := 0\<rparr>) = 0" by simp
  have f: "ddqn_targets (gamma (cfg_ex\<lparr>sync_frequency := 0\<rparr>)) pol_ex (eval_params init_ex)
             (target_params init_ex) batch_ex = Inr ([1, 3, 4, 4], [37 / 10, 18 / 5, 0, 37 / 5])"
    using ddqn_targets_ex by (simp add: cfg_ex_def init_ex_def learner_init_def)
  have l: "mse_loss [1, 3, 4, 4] [37 / 10, 18 / 5, 0, 37 / 5] = Inr (Some (3521 / 400))"
    by (simp add: mse_loss_def bcast_def mean_def power2_eq_square)
  show ?thesis
    using z f l ddqn_zero_sync_frequency_raises [OF z f l, of opt_ex]
    by (auto simp: opt_ex_def pol_ex_def init_ex_def learner_init_def cfg_ex_def clip_if_def
                   linear_lr_get_def)
qed

text \<open>
  C12. An action index outside \<open>[0, action_dim)\<close> in an otherwise well-formed batch makes
  the update raise at the online one-hot, with the counter already incremented and
  nothing else changed: the optimizer, the scheduler and the target network are untouched.
\<close>

theorem ddqn_action_out_of_range:
  assumes "well_shaped b" and "net_shaped pol (eval_params s) (obs b)"
    and "net_shaped pol (target_params s) (obs_next b)" and "0 < action_dim pol"
    and "\<not> actions_in_range (action_dim pol) (actions b)"
  shows "ddqn_update cfg pol opt s b = Inl (Class_out_of_range, start_update s)"
  using ddqn_targets_action_error [OF assms, of "gamma cfg"]
  by (rule ddqn_update_forward_Inl)

theorem ddqn_action_out_of_range_witness:
  "well_shaped (batch_ex\<lparr>actions := [0, 1, 2, 0]\<rparr>) \<and>
   net_shaped pol_ex (eval_params init_ex) (obs (batch_ex\<lparr>actions := [0, 1, 2, 0]\<rparr>)) \<and>
   net_shaped pol_ex (target_params init_ex) (obs_next (batch_ex\<lparr>actions := [0, 1, 2, 0]\<rparr>)) \<and>
   0 < action_dim pol_ex \<and> \<not> actions_in_range (action_dim pol_ex) (actions (batch_ex\<lparr>actions := [0, 1, 2, 0]\<rparr>)) \<and>
   ddqn_update cfg_ex pol_ex opt_ex init_ex (batch_ex\<lparr>actions := [0, 1, 2, 0]\<rparr>) =
     Inl (Class_out_of_range, start_update init_ex)"
proof -
  have h: "well_shaped (batch_ex\<lparr>actions := [0, 1, 2, 0]\<rparr>)"
    "net_shaped pol_ex (eval_params init_ex) (obs (batch_ex\<lparr>actions := [0, 1, 2, 0]\<rparr>))"
    "net_shaped pol_ex (target_params init_ex) (obs_next (batch_ex\<lparr>actions := [0, 1, 2, 0]\<rparr>))"
    "0 < action_dim pol_ex"
    "\<not> actions_in_range (action_dim pol_ex) (actions (batch_ex\<lparr>actions := [0, 1, 2, 0]\<rparr>))"
    by (simp_all add: well_shaped_def net_shaped_def rows_of_width_def actions_in_range_def
                      batch_ex_def pol_ex_def init_ex_def learner_init_def)
  show ?thesis
    using h ddqn_action_out_of_range [OF h, of cfg_ex opt_ex] by simp
qed

text \<open>
  C18. With gradient clipping configured with a non-negative threshold, a successful
  DDQN update has stepped the optimizer, at the current learning rate, with a gradient
  whose 2-norm is at most the threshold.
\<close>

theorem ddqn_update_clipped:
  assumes "ddqn_update cfg pol opt s b = Inr (stats, s')"
    and "use_grad_clip cfg" and "0 \<le> grad_clip_norm cfg"
  shows "\<exists>g. l2norm g \<le> grad_clip_norm cfg \<and>
           (opt_state s', eval_params s') = opt (opt_state s) (lr s) g (eval_params s)"
proof -
  obtain predict target loss where
    f: "ddqn_targets (gamma cfg) pol (eval_params s) (target_params s) b = Inr (predict, target)"
    and l: "mse_loss predict target = Inr loss"
    and o: "optimize_and_sync cfg opt (grad_mse pol (eval_params s) (obs b) (actions b) target)
              (start_update s) = Inr ((), s')"
    and st: "stats = update_info cfg loss (lr s') (mean predict)"
    using assms(1) by (rule ddqn_update_Inr)
  show ?thesis
    using optimize_and_sync_clipped [OF o assms(2,3)] by simp
qed

theorem ddqn_update_clipped_witness:
  "ddqn_update (cfg_ex\<lparr>use_grad_clip := True, grad_clip_norm := 1 / 2\<rparr>) pol_ex opt_ex init_ex batch_ex =
     Inr ([(''Qloss'', Some (3521 / 400)), (''learning_rate'', Some (3 / 40)), (''predictQ'', Some 3)],
          \<lparr>iterations = 1, eval_params = 950001 / 1000001, target_params = 950001 / 1000001,
           opt_state = 1, lr = 3 / 40, last_epoch = 1\<rparr>) \<and>
   use_grad_clip (cfg_ex\<lparr>use_grad_clip := True, grad_clip_norm := 1 / 2\<rparr>) \<and>
   0 \<le> grad_clip_norm (cfg_ex\<lparr>use_grad_clip := True, grad_clip_norm := 1 / 2\<rparr>) \<and>
   (\<exists>g. l2norm g \<le> 1 / 2 \<and>
        (Suc 0, 950001 / 1000001 :: real) = opt_ex (opt_state init_ex) (lr init_ex) g (eval_params init_ex))"
  using ddqn_update_clip_ex ddqn_update_clipped [OF ddqn_update_clip_ex] by simp

text \<open>
  C20. A rewards tensor with a single entry is not rejected: broadcasting repeats it over
  the batch, and the DDQN targets are computed as if every transition had that reward.
\<close>

theorem ddqn_rewards_broadcast:
  assumes "length (rewards b) = 1" and "length (actions b) = length (obs b)"
    and "length (obs_next b) = length (obs b)" and "length (terminals b) = length (obs b)"
    and "net_shaped pol pe (obs b)" and "net_shaped pol pt (obs_next b)"
    and "0 < action_dim pol" and "actions_in_range (action_dim pol) (actions b)"
  shows "ddqn_targets gam pol pe pt b =
           Inr (map2 (\<lambda>q a. q ! nat a) (map (qnet pol pe) (obs b)) (actions b),
                map (\<lambda>i. rewards b ! 0 + gam * (1 - terminals b ! i) *
                          Max (set (qnet pol pt (obs_next b ! i)))) [0..<length (obs b)])"
proof -
  obtain r where r: "rewards b = [r]"
    using assms(1) by (cases "rewards b") auto
  have td: "td_target gam [r] (terminals b) (map ((\<lambda>q. Max (set q)) \<circ> qnet pol pt) (obs_next b)) =
       Inr (map (\<lambda>i. r + gam * (1 - terminals b ! i) * Max (set (qnet pol pt (obs_next b ! i))))
              [0..<length (obs b)])"
    using assms(3,4) by (simp add: td_target_bcast_reward)
  have pr: "select_action (map (qnet pol pe) (obs b)) (actions b) (action_dim pol) =
              Inr (map2 (\<lambda>q a. q ! nat a) (map (qnet pol pe) (obs b)) (actions b))"
    using assms(2,5,8) by (intro select_action_nth) (simp_all add: net_shaped_def)
  show ?thesis
    by (simp add: ddqn_targets_forward [OF assms(5-7)] td pr r)
qed

theorem ddqn_rewards_broadcast_witness:
  "length (rewards (batch_ex\<lparr>rewards := [1]\<rparr>)) = 1 \<and>
   length (actions (batch_ex\<lparr>rewards := [1]\<rparr>)) = length (obs (batch_ex\<lparr>rewards := [1]\<rparr>)) \<and>
   length (obs_next (batch_ex\<lparr>rewards := [1]\<rparr>)) = length (obs (batch_ex\<lparr>rewards := [1]\<rparr>)) \<and>
   length (terminals (batch_ex\<lparr>rewards := [1]\<rparr>)) = length (obs (batch_ex\<lparr>rewards := [1]\<rparr>)) \<and>
   net_shaped pol_ex 1 (obs (batch_ex\<lparr>rewards := [1]\<rparr>)) \<and>
   net_shaped pol_ex 1 (obs_next (batch_ex\<lparr>rewards := [1]\<rparr>)) \<and> 0 < action_dim pol_ex \<and>
   actions_in_range (action_dim pol_ex) (actions (batch_ex\<lparr>rewards := [1]\<rparr>)) \<and>
   ddqn_targets (9 / 10) pol_ex 1 1 (batch_ex\<lparr>rewards := [1]\<rparr>) =
     Inr ([1, 3, 4, 4], [37 / 10, 23 / 5, 1, 32 / 5])"
  using ddqn_rewards_broadcast [of "batch_ex\<lparr>rewards := [1]\<rparr>" pol_ex 1 1 "9 / 10"]
  by (simp add: batch_ex_def pol_ex_def net_shaped_def rows_of_width_def actions_in_range_def upt_rec)

section \<open>The first update with Adam\<close>

text \<open>
  The example network with its weight as a one-entry parameter tensor, whose gradient has
  the parameters' shape.
\<close>

definition pol_list_ex :: "(real list, real) q_policy" where
  "pol_list_ex = \<lparr>action_dim = 2, qnet = (\<lambda>p x. [hd p * x, hd p + x]), grad_mse = (\<lambda>p xs as ts. p)\<rparr>"

lemma ddqn_adam_update_ex:
  "ddqn_update cfg_ex pol_list_ex learner_adam (ddqn_learner_init cfg_ex [1]) batch_ex =
     Inr ([(''Qloss'', Some (3521 / 400)), (''learning_rate'', Some (3 / 40)), (''predictQ'', Some 3)],
          \<lparr>iterations = 1, eval_params = [90001 / 100001], target_params = [90001 / 100001],
           opt_state = \<lparr>adam_t = 1, exp_avg = [1 / 10], exp_avg_sq = [1 / 1000]\<rparr>,
           lr = 3 / 40, last_epoch = 1\<rparr>)"
  by (simp add: ddqn_update_def ddqn_targets_def ddqn_learner_init_def pol_list_ex_def
                learner_adam_first_state example_defs run_defs power2_eq_square)

text \<open>
  C30: the first update of a DDQN learner built by its constructor, whose optimizer is
  Adam with default betas and \<open>eps=1e-5\<close>, moves every parameter by at most the
  configured learning rate, whatever the batch and the gradient.
\<close>

theorem ddqn_first_update_adam_bounded:
  assumes "grad_shaped pol" and "0 \<le> learning_rate cfg"
    and "ddqn_update cfg pol learner_adam (ddqn_learner_init cfg p) b = Inr (stats, s')"
  shows "length (eval_params s') = length p \<and>
         (\<forall>i < length p. \<bar>eval_params s' ! i - p ! i\<bar> \<le> learning_rate cfg)"
proof -
  obtain predict target where
    "optimize_and_sync cfg learner_adam
       (grad_mse pol (eval_params (ddqn_learner_init cfg p)) (obs b) (actions b) target)
       (start_update (ddqn_learner_init cfg p)) = Inr ((), s')"
    using assms(3) by (auto elim: ddqn_update_Inr)
  then have o: "optimize_and_sync cfg learner_adam (grad_mse pol p (obs b) (actions b) target)
                  (start_update (learner_init cfg p (adam_init p))) = Inr ((), s')"
    by (simp only: ddqn_learner_init_def eval_params_learner_init)
  have "length (grad_mse pol p (obs b) (actions b) target) = length p"
    using assms(1) by (simp add: grad_shaped_def)
  then show ?thesis by (rule first_tail_adam_bounded [OF o _ assms(2)])
qed

theorem ddqn_first_update_adam_bounded_witness:
  "grad_shaped pol_list_ex \<and> 0 \<le> learning_rate cfg_ex \<and>
   ddqn_update cfg_ex pol_list_ex learner_adam (ddqn_learner_init cfg_ex [1]) batch_ex =
     Inr ([(''Qloss'', Some (3521 / 400)), (''learning_rate'', Some (3 / 40)), (''predictQ'', Some 3)],
          \<lparr>iterations = 1, eval_params = [90001 / 100001], target_params = [90001 / 100001],
           opt_state = \<lparr>adam_t = 1, exp_avg = [1 / 10], exp_avg_sq = [1 / 1000]\<rparr>,
           lr = 3 / 40, last_epoch = 1\<rparr>) \<and>
   \<bar>90001 / 100001 - 1\<bar> \<le> (1 / 10 :: real)"
proof -
  have g: "grad_shaped pol_list_ex" by (simp add: grad_shaped_def pol_list_ex_def)
  have l: "0 \<le> learning_rate cfg_ex" by (simp add: cfg_ex_def)
  show ?thesis
    using ddqn_first_update_adam_bounded [OF g l ddqn_adam_update_ex] ddqn_adam_update_ex g l
    by (simp add: cfg_ex_def)
qed

end
