(* ===== verification/PerDQN.thy ===== *)
theory PerDQN
  imports Examples Adam
begin

text \<open>
  \<open>PerDQN_Learner\<close> (src/xuance/torch/learners/qlearning_family/perdqn_learner.py).
  \<open>build_training_data\<close> drops the bookkeeping keys of the sample dict and, with more
  than one worker, keeps the contiguous slice of the batch that belongs to this worker's
  rank (read from the \<open>RANK\<close> environment variable), the last rank taking the remainder
  of the integer division. \<open>perdqn_targets\<close> is the forward part of \<open>update\<close> with the
  plain maximum of the target network's values; \<open>perdqn_update\<close> is the whole method,
  which also returns the absolute TD errors for the replay buffer's priorities. The lemmas
  show that the slices of all ranks tile the batch exactly, that a rank written by \<open>str\<close>
  is read back by \<open>int\<close>, and what the returned TD errors and loss are.
\<close>

section \<open>Samples and sharding\<close>

text \<open>\<open>range(...)\<close> of the indices of one rank.\<close>

definition shard_range :: "nat \<Rightarrow> int \<Rightarrow> nat \<Rightarrow> int list" where
  "shard_range ws r bs =
     (let local = int (bs div ws) in
      if r < int ws - 1 then [r * local .. (r + 1) * local - 1]
      else [r * local .. int bs - 1])"

text \<open>numpy's \<open>v[indices]\<close> for a list of integer indices: negative indices count from
  the end, anything outside \<open>[-len, len)\<close> raises \<open>IndexError\<close>.\<close>

definition np_take :: "'a list \<Rightarrow> int list \<Rightarrow> error + 'a list" where
  "np_take v idx =
     traverse (\<lambda>i. let n = int (length v) in
                   if - n \<le> i \<and> i < n then Inr (v ! nat (if i < 0 then i + n else i))
                   else Inl Index_error) idx"

definition take_shard :: "int list \<Rightarrow> 'x per_samples \<Rightarrow> error + 'x transitions" where
  "take_shard idx smp =
     ebind (np_take (obs smp) idx) (\<lambda>o1.
     ebind (np_take (actions smp) idx) (\<lambda>a1.
     ebind (np_take (obs_next smp) idx) (\<lambda>n1.
     ebind (np_take (rewards smp) idx) (\<lambda>r1.
     ebind (np_take (terminals smp) idx) (\<lambda>t1.
     Inr \<lparr>obs = o1, actions = a1, obs_next = n1, rewards = r1, terminals = t1\<rparr>)))))"

definition build_training_data ::
  "learner_config \<Rightarrow> (string \<rightharpoonup> string) \<Rightarrow> 'x per_samples \<Rightarrow> error + 'x transitions" where
  "build_training_data cfg env smp =
     (if 1 < world_size cfg then
        (case env ''RANK'' of
           None \<Rightarrow> Inl Key_error
         | Some v \<Rightarrow> ebind (py_int v) (\<lambda>r.
             take_shard (shard_range (world_size cfg) r (batch_size smp)) smp))
      else Inr (transitions.truncate smp))"

section \<open>The constructor\<close>

text \<open>
  \<open>PerDQN_Learner.__init__\<close>: the base constructor, \<open>torch.optim.Adam\<close> over the policy's
  parameters with the configured rate and \<open>eps=1e-5\<close>, and the \<open>LinearLR\<close> scheduler.
\<close>

definition perdqn_learner_init :: "learner_config \<Rightarrow> real list \<Rightarrow> (real list, adam_state) learner_state" where
  "perdqn_learner_init cfg p = learner_init cfg p (adam_init p)"

section \<open>The update rule\<close>

definition perdqn_targets ::
  "real \<Rightarrow> ('p, 'x) q_policy \<Rightarrow> 'p \<Rightarrow> 'p \<Rightarrow> 'x transitions \<Rightarrow> error + real list \<times> real list" where
  "perdqn_targets gam pol pe pt b =
     ebind (policy_forward pol pe (obs b)) (\<lambda>(_, evalQ).
     ebind (policy_forward pol pt (obs_next b)) (\<lambda>(_, targetQ).
     ebind (max_last (action_dim pol) targetQ) (\<lambda>tq.
     ebind (td_target gam (rewards b) (terminals b) tq) (\<lambda>target.
     ebind (select_action evalQ (actions b) (action_dim pol)) (\<lambda>predict.
     Inr (predict, target))))))"

definition perdqn_update ::
  "learner_config \<Rightarrow> (string \<rightharpoonup> string) \<Rightarrow> ('p, 'x) q_policy \<Rightarrow> ('p, 'o) opt_step \<Rightarrow>
     ('p, 'o) learner_state \<Rightarrow> 'x per_samples \<Rightarrow>
     (real list \<times> info, ('p, 'o) learner_state) result" where
  "perdqn_update cfg env pol opt s smp =
     (let s1 = start_update s in
      case ebind (build_training_data cfg env smp) (\<lambda>b.
           ebind (perdqn_targets (gamma cfg) pol (eval_params s1) (target_params s1) b)
             (\<lambda>(predict, target).
              ebind (bcast (-) target predict) (\<lambda>td.
              ebind (mse_loss predict target) (\<lambda>loss. Inr (b, predict, target, td, loss))))) of
        Inl e \<Rightarrow> Inl (e, s1)
      | Inr (b, predict, target, td, loss) \<Rightarrow>
          (case optimize_and_sync cfg opt (grad_mse pol (eval_params s1) (obs b) (actions b) target) s1 of
             Inl es \<Rightarrow> Inl es
           | Inr (_, s2) \<Rightarrow> Inr ((map abs td, update_info cfg loss (lr s2) (mean predict)), s2)))"

text \<open>One successful update of a training run.\<close>

inductive perdqn_step ::
  "learner_config \<Rightarrow> (string \<rightharpoonup> string) \<Rightarrow> ('p, 'x) q_policy \<Rightarrow> ('p, 'o) opt_step \<Rightarrow>
     ('p, 'o) learner_state \<Rightarrow> ('p, 'o) learner_state \<Rightarrow> bool"
  for cfg env pol opt where
  "perdqn_update cfg env pol opt s smp = Inr ((td, stats), s') \<Longrightarrow> perdqn_step cfg env pol opt s s'"

section \<open>Sharding tiles the batch\<close>

lemma upto_append_adjacent:
  "i \<le> j \<Longrightarrow> j \<le> k \<Longrightarrow> [i .. j - 1] @ [j .. k - 1] = [i .. k - 1]"
proof (cases "j = k")
  case True
  then show ?thesis by simp
next
  case False
  assume "i \<le> j" and "j \<le> k"
  with False show ?thesis using upto_split1 [of i j "k - 1"] by simp
qed

lemma shard_prefix:
  assumes "k < ws"
  shows "concat (map (\<lambda>r. shard_range ws (int r) bs) [0..<k]) = [0 .. int k * int (bs div ws) - 1]"
  using assms
proof (induction k)
  case 0
  then show ?case by simp
next
  case (Suc k)
  let ?b = "int (bs div ws)"
  have r: "shard_range ws (int k) bs = [int k * ?b .. (int k + 1) * ?b - 1]"
    using Suc.prems by (simp add: shard_range_def Let_def)
  have "[0 .. int k * ?b - 1] @ [int k * ?b .. (int k + 1) * ?b - 1] = [0 .. (int k + 1) * ?b - 1]"
    by (rule upto_append_adjacent) (simp_all add: distrib_right)
  with Suc show ?case by (simp add: r algebra_simps)
qed

text \<open>
  With more than one worker, the index ranges of ranks \<open>0 .. world_size - 1\<close>, in rank
  order, concatenate to exactly \<open>0 .. batch_size - 1\<close>: no index is lost or taken twice,
  and the last rank's slice holds the remainder of the division.
\<close>

lemma shard_ranges_tile:
  assumes "1 < ws"
  shows "concat (map (\<lambda>r. shard_range ws (int r) bs) [0..<ws]) = [0 .. int bs - 1]"
proof -
  let ?b = "int (bs div ws)"
  have split: "[0..<ws] = [0..<ws - 1] @ [ws - 1]"
    using assms by (cases ws) simp_all
  have last: "shard_range ws (int ws - 1) bs = [(int ws - 1) * ?b .. int bs - 1]"
    using assms by (simp add: shard_range_def Let_def)
  have le: "(int ws - 1) * ?b \<le> int bs"
  proof -
    have "(ws - 1) * (bs div ws) \<le> ws * (bs div ws)" by simp
    also have "\<dots> \<le> bs" by simp
    finally have "int ((ws - 1) * (bs div ws)) \<le> int bs" by (simp only: of_nat_le_iff)
    then show ?thesis using assms by (simp add: of_nat_diff)
  qed
  have "concat (map (\<lambda>r. shard_range ws (int r) bs) [0..<ws]) =
        [0 .. (int ws - 1) * ?b - 1] @ [(int ws - 1) * ?b .. int bs - 1]"
    using assms by (simp add: split last shard_prefix of_nat_diff)
  also have "\<dots> = [0 .. int bs - 1]"
    using le assms by (intro upto_append_adjacent) simp_all
  finally show ?thesis .
qed

lemma np_take_in_range:
  assumes "\<forall>i \<in> set idx. 0 \<le> i \<and> i < int (length v)"
  shows "np_take v idx = Inr (map (\<lambda>i. v ! nat i) idx)"
  unfolding np_take_def using assms by (intro traverse_all_Inr) (auto simp: Let_def)

lemma shard_range_bounds:
  assumes "0 \<le> r" and "r < int ws"
  shows "\<forall>i \<in> set (shard_range ws r bs). 0 \<le> i \<and> i < int bs"
proof -
  let ?b = "int (bs div ws)"
  have "(r + 1) * ?b \<le> int ws * ?b"
    using assms by (intro mult_right_mono) simp_all
  also have "\<dots> \<le> int bs"
    by (simp flip: of_nat_mult)
  finally have hi: "(r + 1) * ?b \<le> int bs" .
  have lo: "0 \<le> r * ?b" using assms by simp
  show ?thesis
  proof
    fix i assume "i \<in> set (shard_range ws r bs)"
    then have "r * ?b \<le> i \<and> i < int bs"
      using hi by (auto simp: shard_range_def Let_def split: if_splits)
    with lo show "0 \<le> i \<and> i < int bs" by linarith
  qed
qed

text \<open>Every rank but the last has \<open>batch_size div world_size\<close> indices; the last has the rest.\<close>

lemma shard_range_length:
  assumes "0 \<le> r" and "r < int ws"
  shows "length (shard_range ws r bs) =
           (if r < int ws - 1 then bs div ws else bs - nat r * (bs div ws))"
proof -
  have rb: "r * int (bs div ws) = int (nat r * (bs div ws))"
    using assms(1) by simp
  have le: "nat r * (bs div ws) \<le> bs"
  proof -
    have "nat r * (bs div ws) \<le> ws * (bs div ws)"
      using assms by (intro mult_right_mono) simp_all
    also have "\<dots> \<le> bs" by simp
    finally show ?thesis .
  qed
  show ?thesis
  proof (cases "r < int ws - 1")
    case True
    then show ?thesis by (simp add: shard_range_def Let_def distrib_right)
  next
    case False
    have "int bs - 1 - r * int (bs div ws) + 1 = int (bs - nat r * (bs div ws))"
      using le by (simp add: rb of_nat_diff)
    with False show ?thesis by (simp add: shard_range_def Let_def)
  qed
qed

section \<open>The training data of a worker\<close>

text \<open>Every array of the sample dict has \<open>batch_size\<close> rows.\<close>

definition samples_shaped :: "'x per_samples \<Rightarrow> bool" where
  "samples_shaped smp \<longleftrightarrow>
     length (obs smp) = batch_size smp \<and> length (actions smp) = batch_size smp \<and>
     length (obs_next smp) = batch_size smp \<and> length (rewards smp) = batch_size smp \<and>
     length (terminals smp) = batch_size smp"

lemma take_shard_in_range:
  assumes "samples_shaped smp" and "\<forall>i \<in> set idx. 0 \<le> i \<and> i < int (batch_size smp)"
  shows "take_shard idx smp =
           Inr \<lparr>obs = map (\<lambda>i. obs smp ! nat i) idx, actions = map (\<lambda>i. actions smp ! nat i) idx,
                obs_next = map (\<lambda>i. obs_next smp ! nat i) idx,
                rewards = map (\<lambda>i. rewards smp ! nat i) idx,
                terminals = map (\<lambda>i. terminals smp ! nat i) idx\<rparr>"
  using assms by (simp add: take_shard_def samples_shaped_def np_take_in_range)

lemma upto_shift: "map (\<lambda>i. i + k) [a .. b] = [a + k .. b + k]"
  by (rule nth_equalityI) (simp_all add: nth_upto)

text \<open>numpy's negative indices count from the end.\<close>

lemma np_take_negative:
  assumes "\<forall>i \<in> set idx. - int (length v) \<le> i \<and> i < 0"
  shows "np_take v idx = np_take v (map (\<lambda>i. i + int (length v)) idx)"
  unfolding np_take_def traverse_map
  using assms by (intro traverse_cong ballI) (auto simp: Let_def)

lemma take_shard_negative:
  assumes "samples_shaped smp" and "\<forall>i \<in> set idx. - int (batch_size smp) \<le> i \<and> i < 0"
  shows "take_shard idx smp = take_shard (map (\<lambda>i. i + int (batch_size smp)) idx) smp"
  using assms by (simp add: take_shard_def samples_shaped_def np_take_negative [of idx])

lemma build_training_data_single:
  "world_size cfg \<le> 1 \<Longrightarrow> build_training_data cfg env smp = Inr (transitions.truncate smp)"
  by (simp add: build_training_data_def)

lemma build_training_data_rank:
  assumes "1 < world_size cfg" and "env ''RANK'' = Some (string_of_int r)"
    and "0 \<le> r" and "r < int (world_size cfg)" and "samples_shaped smp"
    and "r < 10 ^ max_str_digits"
  shows "build_training_data cfg env smp =
           take_shard (shard_range (world_size cfg) r (batch_size smp)) smp"
  using assms by (simp add: build_training_data_def py_int_string_of_int)

section \<open>The forward part and the TD errors\<close>

lemma perdqn_targets_Inr:
  assumes "perdqn_targets gam pol pe pt b = Inr (predict, target)"
  obtains evalA evalQ targetA targetQ tq where
    "policy_forward pol pe (obs b) = Inr (evalA, evalQ)"
    "policy_forward pol pt (obs_next b) = Inr (targetA, targetQ)"
    "max_last (action_dim pol) targetQ = Inr tq"
    "td_target gam (rewards b) (terminals b) tq = Inr target"
    "select_action evalQ (actions b) (action_dim pol) = Inr predict"
  using assms that
  by (auto simp: perdqn_targets_def ebind_eq_Inr split: prod.splits)

lemma max_last_length: "max_last n qs = Inr v \<Longrightarrow> length v = length qs"
  by (auto simp: max_last_def traverse_Inr_length split: if_splits)

text \<open>On a well-shaped batch the predictions and the targets have one entry per sample.\<close>

lemma perdqn_targets_lengths:
  assumes "perdqn_targets gam pol pe pt b = Inr (predict, target)" and "well_shaped b"
  shows "length predict = length (obs b) \<and> length target = length (obs b)"
proof -
  obtain evalA evalQ targetA targetQ tq where
    e: "policy_forward pol pe (obs b) = Inr (evalA, evalQ)"
    and t: "policy_forward pol pt (obs_next b) = Inr (targetA, targetQ)"
    and m: "max_last (action_dim pol) targetQ = Inr tq"
    and d: "td_target gam (rewards b) (terminals b) tq = Inr target"
    and p: "select_action evalQ (actions b) (action_dim pol) = Inr predict"
    using assms(1) by (rule perdqn_targets_Inr)
  have "length tq = length (obs b)"
    using m policy_forward_length [OF t] assms(2) by (simp add: max_last_length well_shaped_def)
  then have "length target = length (obs b)"
    using d assms(2) td_target_length by (fastforce simp: well_shaped_def)
  moreover have "length predict = length (obs b)"
    using p policy_forward_length [OF e] assms(2) select_action_length
    by (fastforce simp: well_shaped_def)
  ultimately show ?thesis by simp
qed

lemma perdqn_update_Inr:
  assumes "perdqn_update cfg env pol opt s smp = Inr ((td, stats), s')"
  obtains b predict target d loss where
    "build_training_data cfg env smp = Inr b"
    "perdqn_targets (gamma cfg) pol (eval_params s) (target_params s) b = Inr (predict, target)"
    "bcast (-) target predict = Inr d" "td = map abs d"
    "mse_loss predict target = Inr loss"
    "optimize_and_sync cfg opt (grad_mse pol (eval_params s) (obs b) (actions b) target)
       (start_update s) = Inr ((), s')"
    "stats = update_info cfg loss (lr s') (mean predict)"
  using assms that
  by (auto simp: perdqn_update_def start_update_def Let_def ebind_def split: sum.splits prod.splits)

lemma perdqn_step_tail: "perdqn_step cfg env pol opt s s' \<Longrightarrow> tail_step cfg opt s s'"
  by (auto simp: tail_step_def elim!: perdqn_step.cases elim: perdqn_update_Inr)

section \<open>Properties of the prioritized learner\<close>

lemma perdqn_update_ex:
  "perdqn_update cfg_ex Map.empty pol_ex opt_ex init_ex samples_ex =
     Inr (([27 / 10, 3 / 5, 4, 17 / 5],
           [(''Qloss'', Some (3521 / 400)), (''learning_rate'', Some (3 / 40)), (''predictQ'', Some 3)]),
          \<lparr>iterations = 1, eval_params = 9 / 10, target_params = 9 / 10, opt_state = 1,
           lr = 3 / 40, last_epoch = 1\<rparr>)"
  by (simp add: perdqn_update_def perdqn_targets_def build_training_data_def example_defs run_defs
                power2_eq_square transitions.truncate_def)

lemma perdqn_update_dist_ex:
  "perdqn_update cfg_dist_ex [''RANK'' \<mapsto> string_of_int 1] pol_ex opt_ex init_ex samples_ex =
     Inr (([4, 17 / 5], update_info cfg_dist_ex (Some (689 / 50)) (3 / 40) (Some 4)),
          \<lparr>iterations = 1, eval_params = 9 / 10, target_params = 9 / 10, opt_state = 1,
           lr = 3 / 40, last_epoch = 1\<rparr>)"
  by (simp add: perdqn_update_def perdqn_targets_def build_training_data_def example_defs run_defs
                power2_eq_square py_int_string_of_int take_shard_def shard_range_def np_take_def)

text \<open>
  C4. With more than one worker, the index ranges that \<open>build_training_data\<close> gives the
  ranks \<open>0 .. world_size - 1\<close>, taken in rank order, concatenate to exactly the indices
  \<open>0 .. batch_size - 1\<close>: no sample is lost or used by two workers, and the last rank
  absorbs the remainder of \<open>batch_size // world_size\<close>.
\<close>

theorem shard_partition:
  assumes "1 < ws"
  shows "concat (map (\<lambda>r. shard_range ws (int r) bs) [0..<ws]) = [0 .. int bs - 1]"
  using assms by (rule shard_ranges_tile)

theorem shard_partition_witness:
  "1 < (3::nat) \<and> concat (map (\<lambda>r. shard_range 3 (int r) 7) [0..<3]) = [0 .. 6] \<and>
   shard_range 3 2 7 = [4, 5, 6]"
proof -
  have "1 < (3::nat)" by simp
  then show ?thesis
    using shard_partition [of 3 7] by (simp add: shard_range_def upto.simps)
qed

text \<open>
  C5. A successful prioritized update on a single worker with a well-shaped sample dict
  returns one TD-error magnitude per sample, each non-negative, and its loss is the mean of
  the squared TD errors.
\<close>

theorem perdqn_td_errors:
  assumes "perdqn_update cfg env pol opt s smp = Inr ((td, stats), s')"
    and "world_size cfg \<le> 1" and "samples_shaped smp"
  shows "length td = batch_size smp \<and> (\<forall>x \<in> set td. 0 \<le> x) \<and>
         map_of stats (rank_key cfg ''Qloss'') = Some (mean (map (\<lambda>x. x\<^sup>2) td))"
proof -
  obtain b predict target d loss where
    bd: "build_training_data cfg env smp = Inr b"
    and f: "perdqn_targets (gamma cfg) pol (eval_params s) (target_params s) b = Inr (predict, target)"
    and d: "bcast (-) target predict = Inr d" and td: "td = map abs d"
    and l: "mse_loss predict target = Inr loss"
    and st: "stats = update_info cfg loss (lr s') (mean predict)"
    using assms(1) by (rule perdqn_update_Inr)
  have b: "b = transitions.truncate smp"
    using bd assms(2) by (simp add: build_training_data_single)
  have ws: "well_shaped b" and bs: "length (obs b) = batch_size smp"
    using assms(3) b by (simp_all add: well_shaped_def samples_shaped_def transitions.defs)
  have len: "length predict = length (obs b)" "length target = length (obs b)"
    using perdqn_targets_lengths [OF f ws] by simp_all
  then have dd: "d = map2 (-) target predict"
    using d by (simp add: bcast_same)
  have "loss = mean (map2 (\<lambda>p t. (p - t)\<^sup>2) predict target)"
    using l len by (simp add: mse_loss_same)
  also have "map2 (\<lambda>p t. (p - t)\<^sup>2) predict target = map (\<lambda>x. x\<^sup>2) td"
    using len td dd by (intro nth_equalityI) (simp_all add: power2_commute)
  finally have "loss = mean (map (\<lambda>x. x\<^sup>2) td)" .
  then show ?thesis
    using td dd len bs st by (simp add: update_info_def)
qed

theorem perdqn_td_errors_witness:
  "perdqn_update cfg_ex Map.empty pol_ex opt_ex init_ex samples_ex =
     Inr (([27 / 10, 3 / 5, 4, 17 / 5],
           [(''Qloss'', Some (3521 / 400)), (''learning_rate'', Some (3 / 40)), (''predictQ'', Some 3)]),
          \<lparr>iterations = 1, eval_params = 9 / 10, target_params = 9 / 10, opt_state = 1,
           lr = 3 / 40, last_epoch = 1\<rparr>) \<and>
   world_size cfg_ex \<le> 1 \<and> samples_shaped samples_ex \<and> length [27 / 10, 3 / 5, 4, 17 / 5 :: real] = 4"
proof -
  have w: "world_size cfg_ex \<le> 1" by (simp add: cfg_ex_def)
  have s: "samples_shaped samples_ex" by (simp add: samples_shaped_def samples_ex_def)
  show ?thesis
    using perdqn_update_ex w s perdqn_td_errors [OF perdqn_update_ex w s]
    by (simp add: samples_ex_def)
qed

text \<open>
  C6. A worker whose \<open>RANK\<close> environment variable holds the decimal string of its rank
  \<open>r\<close> (as the launcher writes it) trains on exactly the samples at the indices of rank
  \<open>r\<close>'s range: \<open>int\<close> reads back what \<open>str\<close> wrote.
\<close>

theorem rank_shard_roundtrip:
  assumes "1 < world_size cfg" and "env ''RANK'' = Some (string_of_int r)"
    and "0 \<le> r" and "r < int (world_size cfg)" and "samples_shaped smp"
    and "r < 10 ^ max_str_digits"
  shows "build_training_data cfg env smp =
           Inr (let idx = shard_range (world_size cfg) r (batch_size smp) in
                \<lparr>obs = map (\<lambda>i. obs smp ! nat i) idx, actions = map (\<lambda>i. actions smp ! nat i) idx,
                 obs_next = map (\<lambda>i. obs_next smp ! nat i) idx,
                 rewards = map (\<lambda>i. rewards smp ! nat i) idx,
                 terminals = map (\<lambda>i. terminals smp ! nat i) idx\<rparr>)"
  using build_training_data_rank [of cfg env r smp, OF assms]
    take_shard_in_range [OF assms(5) shard_range_bounds [OF assms(3,4)]]
  by (simp add: Let_def)

theorem rank_shard_roundtrip_witness:
  "1 < world_size cfg_dist_ex \<and> [''RANK'' \<mapsto> string_of_int 1] ''RANK'' = Some (string_of_int 1) \<and>
   0 \<le> (1::int) \<and> 1 < int (world_size cfg_dist_ex) \<and> samples_shaped samples_ex \<and>
   (1::int) < 10 ^ max_str_digits \<and>
   build_training_data cfg_dist_ex [''RANK'' \<mapsto> string_of_int 1] samples_ex =
     Inr \<lparr>obs = [3, 4], actions = [1, 0], obs_next = [4, 5], rewards = [0, 2], terminals = [1, 0]\<rparr>"
proof -
  have h: "1 < world_size cfg_dist_ex" "[''RANK'' \<mapsto> string_of_int 1] ''RANK'' = Some (string_of_int 1)"
    "0 \<le> (1::int)" "1 < int (world_size cfg_dist_ex)" "samples_shaped samples_ex"
    "(1::int) < 10 ^ max_str_digits"
    by (simp_all add: cfg_dist_ex_def cfg_ex_def samples_shaped_def samples_ex_def)
  show ?thesis
    using h rank_shard_roundtrip [of cfg_dist_ex "[''RANK'' \<mapsto> string_of_int 1]" 1 samples_ex, OF h]
    by (simp add: cfg_dist_ex_def cfg_ex_def samples_ex_def shard_range_def upto.simps)
qed

text \<open>
  C19. Under multi-worker training, the TD-error array a worker returns has one entry per
  sample of its own slice, \<open>batch_size div world_size\<close> (the last rank: the rest), not one
  per sample of the batch.
\<close>

theorem perdqn_shard_td_length:
  assumes "perdqn_update cfg env pol opt s smp = Inr ((td, stats), s')"
    and "1 < world_size cfg" and "env ''RANK'' = Some (string_of_int r)"
    and "0 \<le> r" and "r < int (world_size cfg)" and "samples_shaped smp"
    and "r < 10 ^ max_str_digits"
  shows "length td = (if r < int (world_size cfg) - 1 then batch_size smp div world_size cfg
                      else batch_size smp - nat r * (batch_size smp div world_size cfg))"
proof -
  obtain b predict target d loss where
    bd: "build_training_data cfg env smp = Inr b"
    and f: "perdqn_targets (gamma cfg) pol (eval_params s) (target_params s) b = Inr (predict, target)"
    and d: "bcast (-) target predict = Inr d" and td: "td = map abs d"
    and l: "mse_loss predict target = Inr loss"
    and o: "optimize_and_sync cfg opt (grad_mse pol (eval_params s) (obs b) (actions b) target)
              (start_update s) = Inr ((), s')"
    and st: "stats = update_info cfg loss (lr s') (mean predict)"
    using assms(1) by (rule perdqn_update_Inr)
  let ?idx = "shard_range (world_size cfg) r (batch_size smp)"
  have "b = \<lparr>obs = map (\<lambda>i. obs smp ! nat i) ?idx, actions = map (\<lambda>i. actions smp ! nat i) ?idx,
             obs_next = map (\<lambda>i. obs_next smp ! nat i) ?idx,
             rewards = map (\<lambda>i. rewards smp ! nat i) ?idx,
             terminals = map (\<lambda>i. terminals smp ! nat i) ?idx\<rparr>"
    using bd build_training_data_rank [of cfg env r smp, OF assms(2-7)]
          take_shard_in_range [OF assms(6) shard_range_bounds [OF assms(4,5)]] by simp
  then have ws: "well_shaped b" and lb: "length (obs b) = length ?idx"
    by (simp_all add: well_shaped_def)
  have "length predict = length (obs b) \<and> length target = length (obs b)"
    by (rule perdqn_targets_lengths [OF f ws])
  then have "length d = length (obs b)"
    using d by (auto simp: bcast_same)
  then show ?thesis
    using td lb shard_range_length [OF assms(4,5)] by simp
qed

theorem perdqn_shard_td_length_witness:
  "perdqn_update cfg_dist_ex [''RANK'' \<mapsto> string_of_int 1] pol_ex opt_ex init_ex samples_ex =
     Inr (([4, 17 / 5], update_info cfg_dist_ex (Some (689 / 50)) (3 / 40) (Some 4)),
          \<lparr>iterations = 1, eval_params = 9 / 10, target_params = 9 / 10, opt_state = 1,
           lr = 3 / 40, last_epoch = 1\<rparr>) \<and>
   1 < world_size cfg_dist_ex \<and> [''RANK'' \<mapsto> string_of_int 1] ''RANK'' = Some (string_of_int 1) \<and>
   0 \<le> (1::int) \<and> 1 < int (world_size cfg_dist_ex) \<and> samples_shaped samples_ex \<and>
   (1::int) < 10 ^ max_str_digits \<and> length [4, 17 / 5 :: real] = 2 \<and> batch_size samples_ex - 1 * (batch_size samples_ex div world_size cfg_dist_ex) = 2"
  using perdqn_update_dist_ex perdqn_shard_td_length [OF perdqn_update_dist_ex, of 1]
  by (simp add: cfg_dist_ex_def cfg_ex_def samples_ex_def samples_shaped_def)

text \<open>
  C22. A worker whose RANK is \<open>-1\<close> is not rejected: the negative indices of its range
  wrap around, and when world_size divides batch_size it trains on exactly the samples
  of the last rank.
\<close>

theorem perdqn_negative_rank_duplicates_last:
  assumes "1 < world_size cfg" and "world_size cfg dvd batch_size smp" and "samples_shaped smp"
    and "int (world_size cfg) \<le> 10 ^ max_str_digits"
  shows "build_training_data cfg (env(''RANK'' \<mapsto> string_of_int (-1))) smp =
           build_training_data cfg (env(''RANK'' \<mapsto> string_of_int (int (world_size cfg) - 1))) smp"
proof -
  let ?ws = "world_size cfg" and ?bs = "batch_size smp"
  let ?b = "int (?bs div ?ws)"
  have bs: "int ?bs = int ?ws * ?b"
    using assms(2) by (simp flip: of_nat_mult)
  have le: "?b \<le> int ?bs"
    using bs assms(1) by (simp add: mult_le_cancel_right1)
  have neg: "build_training_data cfg (env(''RANK'' \<mapsto> string_of_int (-1))) smp =
               take_shard [- ?b .. -1] smp"
    using assms(1) by (simp add: build_training_data_def py_int_string_of_int shard_range_def Let_def)
  have last: "build_training_data cfg (env(''RANK'' \<mapsto> string_of_int (int ?ws - 1))) smp =
                take_shard [int ?bs - ?b .. int ?bs - 1] smp"
  proof -
    have "int ?ws - 1 < 10 ^ max_str_digits" using assms(4) by linarith
    then show ?thesis
      using assms(1) by (simp add: build_training_data_rank [OF assms(1) _ _ _ assms(3)]
                                   shard_range_def Let_def bs algebra_simps)
  qed
  have rng: "\<forall>i \<in> set [- ?b .. -1]. - int ?bs \<le> i \<and> i < 0"
  proof
    fix i assume "i \<in> set [- ?b .. -1]"
    then have "- ?b \<le> i" and "i \<le> -1" by simp_all
    with le show "- int ?bs \<le> i \<and> i < 0" by linarith
  qed
  have "take_shard [- ?b .. -1] smp = take_shard (map (\<lambda>i. i + int ?bs) [- ?b .. -1]) smp"
    using assms(3) rng by (rule take_shard_negative)
  then show ?thesis
    by (simp add: neg last upto_shift)
qed

theorem perdqn_negative_rank_duplicates_last_witness:
  "1 < world_size cfg_dist_ex \<and> world_size cfg_dist_ex dvd batch_size samples_ex \<and>
   samples_shaped samples_ex \<and> int (world_size cfg_dist_ex) \<le> 10 ^ max_str_digits \<and>
   build_training_data cfg_dist_ex [''RANK'' \<mapsto> string_of_int (-1)] samples_ex =
     build_training_data cfg_dist_ex [''RANK'' \<mapsto> string_of_int (int (world_size cfg_dist_ex) - 1)] samples_ex"
  using perdqn_negative_rank_duplicates_last [of cfg_dist_ex samples_ex Map.empty]
  by (simp add: cfg_dist_ex_def cfg_ex_def samples_ex_def samples_shaped_def)

text \<open>
  C23. Under multi-worker training without a RANK environment variable the prioritized
  update raises KeyError, with the iteration counter already advanced.
\<close>

theorem perdqn_missing_rank_raises:
  assumes "1 < world_size cfg" and "env ''RANK'' = None"
  shows "perdqn_update cfg env pol opt s smp = Inl (Key_error, start_update s)"
  using assms by (simp add: perdqn_update_def build_training_data_def)

theorem perdqn_missing_rank_raises_witness:
  "1 < world_size cfg_dist_ex \<and> (Map.empty :: string \<rightharpoonup> string) ''RANK'' = None \<and>
   perdqn_update cfg_dist_ex Map.empty pol_ex opt_ex init_ex samples_ex = Inl (Key_error, start_update init_ex)"
  using perdqn_missing_rank_raises [of cfg_dist_ex Map.empty pol_ex opt_ex init_ex samples_ex]
  by (simp add: cfg_dist_ex_def cfg_ex_def)

section \<open>The first update with Adam\<close>

text \<open>
  As for DDQN: the first successful update after the constructor moves every parameter by
  at most the learning rate.
\<close>

lemma perdqn_first_update_adam_bounded:
  assumes "grad_shaped pol" and "0 \<le> learning_rate cfg"
    and "perdqn_update cfg env pol learner_adam (perdqn_learner_init cfg p) smp = Inr ((td, stats), s')"
  shows "length (eval_params s') = length p \<and>
         (\<forall>i < length p. \<bar>eval_params s' ! i - p ! i\<bar> \<le> learning_rate cfg)"
proof -
  obtain b predict target d loss where
    "build_training_data cfg env smp = Inr b"
    "perdqn_targets (gamma cfg) pol (eval_params (perdqn_learner_init cfg p))
       (target_params (perdqn_learner_init cfg p)) b = Inr (predict, target)"
    "bcast (-) target predict = Inr d" "td = map abs d"
    "mse_loss predict target = Inr loss"
    "optimize_and_sync cfg learner_adam
       (grad_mse pol (eval_params (perdqn_learner_init cfg p)) (obs b) (actions b) target)
       (start_update (perdqn_learner_init cfg p)) = Inr ((), s')"
    "stats = update_info cfg loss (lr s') (mean predict)"
    by (rule perdqn_update_Inr [OF assms(3)])
  then have o: "optimize_and_sync cfg learner_adam (grad_mse pol p (obs b) (actions b) target)
                  (start_update (learner_init cfg p (adam_init p))) = Inr ((), s')"
    by (simp only: perdqn_learner_init_def eval_params_learner_init)
  have "length (grad_mse pol p (obs b) (actions b) target) = length p"
    using assms(1) by (simp add: grad_shaped_def)
  then show ?thesis by (rule first_tail_adam_bounded [OF o _ assms(2)])
qed

end
