(* ===== verification/Seq_Tensor.thy ===== *)
theory Seq_Tensor
  imports Tensor_Ops
begin

text \<open>
  The torch operations the recurrent learner applies to tensors with a batch and a time
  dimension (\<open>[B, T]\<close> and \<open>[B, T, A]\<close>), a tensor of rank two being the list of its rows.
  Broadcasting acts on each dimension independently, so a rank-two element-wise
  operation broadcasts the rows against each other and then the entries of each pair of
  rows (\<open>bcast2\<close>). Python's slices \<open>x[0:-1]\<close> and \<open>x[1:]\<close> along the time dimension are
  \<open>slice_drop_last\<close> and \<open>slice_from_1\<close>; the one-hot masking, the TD target and the MSE
  loss are the rank-two forms of those of \<open>Tensor_Ops\<close>. The lemmas give their values on
  tensors of equal shapes, element by element.
\<close>

section \<open>Slicing along the time dimension\<close>

text \<open>\<open>x[0:-1]\<close>: all but the last step (empty for sequences of length 0 or 1).\<close>

definition slice_drop_last :: "'a list \<Rightarrow> 'a list" where
  "slice_drop_last xs = take (length xs - 1) xs"

text \<open>\<open>x[1:]\<close>: all but the first step.\<close>

definition slice_from_1 :: "'a list \<Rightarrow> 'a list" where
  "slice_from_1 xs = drop 1 xs"

lemma slice_lengths [simp]:
  "length (slice_drop_last xs) = length xs - 1" "length (slice_from_1 xs) = length xs - 1"
  by (simp_all add: slice_drop_last_def slice_from_1_def)

section \<open>Rank-two tensor operations\<close>

definition bcast2 ::
  "('a \<Rightarrow> 'b \<Rightarrow> 'c) \<Rightarrow> 'a list list \<Rightarrow> 'b list list \<Rightarrow> error + 'c list list" where
  "bcast2 f xs ys =
     (case bcast Pair xs ys of Inl e \<Rightarrow> Inl e | Inr ps \<Rightarrow> traverse (\<lambda>(x, y). bcast f x y) ps)"

text \<open>
  \<open>(Q * one_hot(a, n)).sum(dim=-1)\<close> on \<open>[B, T, A]\<close> values and \<open>[B, T]\<close> actions: the one-hot
  of every action first (it raises before any product is formed), then the masked sum of
  each pair of rows.
\<close>

definition select_action_seq ::
  "real list list list \<Rightarrow> int list list \<Rightarrow> nat \<Rightarrow> error + real list list" where
  "select_action_seq qs as n =
     (case traverse (\<lambda>a. one_hot_batch a n) as of
        Inl e \<Rightarrow> Inl e
      | Inr ms \<Rightarrow>
          (case bcast Pair qs ms of
             Inl e \<Rightarrow> Inl e
           | Inr ps \<Rightarrow> traverse (\<lambda>(q, m). mask_sum q m) ps))"

text \<open>\<open>rew + gamma * (1 - ter) * q\<close> on \<open>[B, T]\<close> tensors.\<close>

definition td_target_seq ::
  "real \<Rightarrow> real list list \<Rightarrow> real list list \<Rightarrow> real list list \<Rightarrow> error + real list list" where
  "td_target_seq gamma rew ter q =
     (case bcast2 (*) (map (map (\<lambda>t. gamma * (1 - t))) ter) q of
        Inl e \<Rightarrow> Inl e
      | Inr c \<Rightarrow> bcast2 (+) rew c)"

text \<open>\<open>nn.MSELoss()\<close> on \<open>[B, T]\<close> tensors: the mean over all \<open>B * T\<close> entries (NaN when there are none).\<close>

definition mse_loss_seq :: "real list list \<Rightarrow> real list list \<Rightarrow> error + real option" where
  "mse_loss_seq inp tgt =
     (case bcast2 (\<lambda>p t. (p - t)\<^sup>2) inp tgt of Inl e \<Rightarrow> Inl e | Inr d \<Rightarrow> Inr (mean (concat d)))"

text \<open>Two rank-two tensors have the same shape.\<close>

definition same_shape :: "'a list list \<Rightarrow> 'b list list \<Rightarrow> bool" where
  "same_shape xs ys \<longleftrightarrow> list_all2 (\<lambda>x y. length x = length y) xs ys"

section \<open>Values on tensors of equal shape\<close>

lemma same_shape_nth:
  "same_shape xs ys \<longleftrightarrow> length xs = length ys \<and> (\<forall>i < length xs. length (xs ! i) = length (ys ! i))"
  by (simp add: same_shape_def list_all2_conv_all_nth)

lemma same_shape_map2:
  "same_shape xs ys \<Longrightarrow> same_shape (map2 (map2 f) xs ys) ys"
  by (auto simp: same_shape_nth)

lemma same_shape_map:
  "same_shape (map (map f) xs) ys \<longleftrightarrow> same_shape xs ys"
  by (simp add: same_shape_nth)

lemma same_shape_sym: "same_shape xs ys \<Longrightarrow> same_shape ys xs"
  by (simp add: same_shape_nth)

lemma same_shape_trans: "same_shape xs ys \<Longrightarrow> same_shape ys zs \<Longrightarrow> same_shape xs zs"
  by (simp add: same_shape_nth)

lemma bcast2_same:
  assumes "same_shape xs ys"
  shows "bcast2 f xs ys = Inr (map2 (map2 f) xs ys)"
proof -
  have "\<forall>p \<in> set (zip xs ys). (\<lambda>(x, y). bcast f x y) p = Inr ((\<lambda>(x, y). map2 f x y) p)"
    using assms by (auto simp: same_shape_def bcast_same simp: list_all2_iff)
  then show ?thesis
    using assms by (simp add: bcast2_def bcast_same same_shape_def list_all2_lengthD
                              traverse_all_Inr cong: map_cong)
qed

lemma td_target_seq_same:
  assumes "same_shape rew q" and "same_shape ter q"
  shows "td_target_seq gamma rew ter q =
           Inr (map2 (map2 (+)) rew (map2 (map2 (*)) (map (map (\<lambda>t. gamma * (1 - t))) ter) q))"
proof -
  have "same_shape rew (map2 (map2 (*)) (map (map (\<lambda>t. gamma * (1 - t))) ter) q)"
    using assms by (simp add: same_shape_nth)
  then show ?thesis
    using assms by (simp add: td_target_seq_def bcast2_same same_shape_map)
qed

lemma td_target_seq_nth:
  assumes "same_shape rew q" and "same_shape ter q" and "td_target_seq gamma rew ter q = Inr d"
    and "i < length q" and "t < length (q ! i)"
  shows "d ! i ! t = rew ! i ! t + gamma * (1 - ter ! i ! t) * q ! i ! t"
  using assms by (auto simp: td_target_seq_same same_shape_nth)

lemma td_target_seq_shape:
  assumes "same_shape rew q" and "same_shape ter q" and "td_target_seq gamma rew ter q = Inr d"
  shows "same_shape d q"
  using assms by (auto simp: td_target_seq_same same_shape_nth)

lemma mse_loss_seq_same:
  "same_shape p t \<Longrightarrow> mse_loss_seq p t = Inr (mean (concat (map2 (map2 (\<lambda>x y. (x - y)\<^sup>2)) p t)))"
  by (simp add: mse_loss_seq_def bcast2_same)

text \<open>With every action in range, the masked sum works row by row.\<close>

lemma select_action_seq_rows:
  assumes "length qs = length as" and "\<forall>a \<in> set as. actions_in_range n a"
  shows "select_action_seq qs as n = traverse (\<lambda>(q, a). select_action q a n) (zip qs as)"
proof -
  let ?oh = "\<lambda>a. map (\<lambda>x. map (\<lambda>j. if j = nat x then 1 else (0::real)) [0..<n]) a"
  have oh: "traverse (\<lambda>a. one_hot_batch a n) as = Inr (map ?oh as)"
    using assms(2) by (intro traverse_all_Inr) (simp add: one_hot_batch_Inr)
  have "\<forall>p \<in> set (zip qs as). ((\<lambda>(q, m). mask_sum q m) \<circ> (\<lambda>(q, a). (q, ?oh a))) p =
                               (\<lambda>(q, a). select_action q a n) p"
    using assms(2) by (auto simp: select_action_def one_hot_batch_Inr dest: set_zip_rightD)
  then have "traverse (\<lambda>(q, m). mask_sum q m) (zip qs (map ?oh as)) =
             traverse (\<lambda>(q, a). select_action q a n) (zip qs as)"
    by (simp add: zip_map2 traverse_map traverse_cong)
  then show ?thesis
    using assms(1) by (simp add: select_action_seq_def oh bcast_same)
qed

text \<open>
  On values with \<open>n\<close> entries per step and actions in range, the masked sum reads the
  value of each step's action.
\<close>

lemma select_action_seq_nth:
  assumes "list_all2 (\<lambda>q a. rows_of_width n q \<and> actions_in_range n a \<and> length a = length q) qs as"
  shows "select_action_seq qs as n = Inr (map2 (map2 (\<lambda>q a. q ! nat a)) qs as)"
proof -
  have len: "length qs = length as" and ar: "\<forall>a \<in> set as. actions_in_range n a"
    using assms by (auto simp: list_all2_conv_all_nth in_set_conv_nth)
  have "\<forall>p \<in> set (zip qs as). (\<lambda>(q, a). select_action q a n) p =
                               Inr ((\<lambda>(q, a). map2 (\<lambda>q a. q ! nat a) q a) p)"
    using assms by (auto simp: list_all2_iff select_action_nth)
  then show ?thesis
    by (simp add: select_action_seq_rows [OF len ar] traverse_all_Inr)
qed

lemma traverse_one_hot_Inl:
  "\<exists>a \<in> set as. \<not> actions_in_range n a \<Longrightarrow>
     traverse (\<lambda>a. one_hot_batch a n) as = Inl Class_out_of_range"
proof (induction as)
  case (Cons a as)
  then show ?case
    by (cases "actions_in_range n a") (auto simp: one_hot_batch_Inl one_hot_batch_Inr)
qed simp

lemma select_action_seq_Inl:
  "\<exists>a \<in> set as. \<not> actions_in_range n a \<Longrightarrow> select_action_seq qs as n = Inl Class_out_of_range"
  by (simp add: select_action_seq_def traverse_one_hot_Inl)

text \<open>Selecting, at every step, the value of that step's argmax gives the step's maximum.\<close>

lemma select_action_seq_argmax:
  assumes "list_all (rows_of_width n) qs" and "0 < n" and "traverse (argmax_last n) qs = Inr as"
  shows "select_action_seq qs (map (map int) as) n = Inr (map (map (\<lambda>q. Max (set q))) qs)"
proof -
  have len: "length (map (map int) as) = length qs"
    using assms(3) by (simp add: traverse_Inr_length)
  have row: "\<forall>i < length qs. select_action (qs ! i) (map (map int) as ! i) n =
                              Inr (map (\<lambda>q. Max (set q)) (qs ! i))"
  proof (intro allI impI)
    fix i assume i: "i < length qs"
    then have w: "rows_of_width n (qs ! i)" and a: "argmax_last n (qs ! i) = Inr (as ! i)"
      using assms(1,3) by (auto simp: list_all_length traverse_Inr_nth)
    have "i < length as" using i len by simp
    then show "select_action (qs ! i) (map (map int) as ! i) n = Inr (map (\<lambda>q. Max (set q)) (qs ! i))"
      using select_argmax_eq_max_last [OF w assms(2) a] max_last_Max [OF w assms(2)] by simp
  qed
  have ar: "\<forall>a \<in> set (map (map int) as). actions_in_range n a"
    using row len by (metis in_set_conv_nth select_action_Inl sum.distinct(1))
  have "traverse (\<lambda>(q, a). select_action q a n) (zip qs (map (map int) as)) =
        Inr (map (map (\<lambda>q. Max (set q))) qs)"
    using row len by (simp add: traverse_Inr_iff list_all2_conv_all_nth)
  then show ?thesis
    using len ar by (simp add: select_action_seq_rows)
qed

lemma select_action_seq_in_range:
  "select_action_seq qs as n = Inr v \<Longrightarrow> \<forall>a \<in> set as. actions_in_range n a"
  using select_action_seq_Inl by fastforce

end
