(* ===== verification/Recurrent.thy ===== *)
theory Recurrent
  imports Seq_Tensor Policy
begin

text \<open>
  The interface the recurrent learner requires of its policy (xuance's recurrent
  Q-network classes are outside this repository and are modelled from the contract the
  learner uses). \<open>init_hidden(batch_size)\<close> gives the initial recurrent state of every
  sequence of a batch; the network is a cell that, from a recurrent state and one
  observation, gives one value per action and the next state, run along each sequence
  from its initial state (\<open>rscan\<close>). \<open>policy(obs, *hidden)\<close> and
  \<open>policy.target(obs, *hidden)\<close> (\<open>rforward\<close>) do so with the online and the target
  parameters and return the greedy actions, the values and the final states; a hidden
  state whose batch size differs from the observations' raises, and so does a sequence of
  no step (\<open>Expected sequence length to be larger than 0 in RNN\<close>), as torch's recurrent
  layers do. \<open>rgrad_mse\<close> is the gradient that \<open>loss.backward()\<close> computes. The lemmas
  show that the scan is causal (the values at a step depend only on the observations up
  to it) and give the forward pass's value on well-shaped input.
\<close>

record ('p, 'h, 'x) rq_policy =
  raction_dim :: nat
  init_hidden :: "nat \<Rightarrow> 'h list"
  rcell :: "'p \<Rightarrow> 'h \<Rightarrow> 'x \<Rightarrow> real list \<times> 'h"
  rgrad_mse :: "'p \<Rightarrow> 'h list \<Rightarrow> 'x list list \<Rightarrow> int list list \<Rightarrow> real list list \<Rightarrow> real list"

text \<open>The recurrent network run along one sequence: the values of every step and the final state.\<close>

fun rscan :: "('h \<Rightarrow> 'x \<Rightarrow> real list \<times> 'h) \<Rightarrow> 'h \<Rightarrow> 'x list \<Rightarrow> real list list \<times> 'h" where
  "rscan c h [] = ([], h)"
| "rscan c h (x # xs) = (let (q, h') = c h x; (qs, h'') = rscan c h' xs in (q # qs, h''))"

text \<open>The values of every step of every sequence, and the final states, from the given states.\<close>

definition rvalues :: "('p, 'h, 'x) rq_policy \<Rightarrow> 'p \<Rightarrow> 'h list \<Rightarrow> 'x list list \<Rightarrow> real list list list" where
  "rvalues pol p hs xss = map2 (\<lambda>h xs. fst (rscan (rcell pol p) h xs)) hs xss"

definition rstates :: "('p, 'h, 'x) rq_policy \<Rightarrow> 'p \<Rightarrow> 'h list \<Rightarrow> 'x list list \<Rightarrow> 'h list" where
  "rstates pol p hs xss = map2 (\<lambda>h xs. snd (rscan (rcell pol p) h xs)) hs xss"

definition rforward ::
  "('p, 'h, 'x) rq_policy \<Rightarrow> 'p \<Rightarrow> 'h list \<Rightarrow> 'x list list \<Rightarrow>
     error + (nat list list \<times> real list list list \<times> 'h list)" where
  "rforward pol p hs xss =
     (if length hs \<noteq> length xss then Inl Shape_mismatch
      else if \<not> list_all (\<lambda>xs. xs \<noteq> []) xss then Inl Empty_sequence
      else let q = rvalues pol p hs xss in
           ebind (traverse (argmax_last (raction_dim pol)) q) (\<lambda>a. Inr (a, q, rstates pol p hs xss)))"

text \<open>
  The hidden states match the sequences, every sequence has a step, and the network
  returns \<open>raction_dim\<close> values at every step of every sequence.
\<close>

definition rnet_shaped :: "('p, 'h, 'x) rq_policy \<Rightarrow> 'p \<Rightarrow> 'h list \<Rightarrow> 'x list list \<Rightarrow> bool" where
  "rnet_shaped pol p hs xss \<longleftrightarrow>
     length hs = length xss \<and> list_all (\<lambda>xs. xs \<noteq> []) xss \<and>
     list_all (rows_of_width (raction_dim pol)) (rvalues pol p hs xss)"

section \<open>Causality of the recurrent scan\<close>

lemma rscan_Cons:
  "rscan c h (x # xs) =
     (fst (c h x) # fst (rscan c (snd (c h x)) xs), snd (rscan c (snd (c h x)) xs))"
  by (simp add: case_prod_beta)

lemma rscan_length [simp]: "length (fst (rscan c h xs)) = length xs"
  by (induction xs arbitrary: h) (simp_all add: rscan_Cons del: rscan.simps(2))

lemma rscan_append:
  "rscan c h (xs @ ys) =
     (fst (rscan c h xs) @ fst (rscan c (snd (rscan c h xs)) ys),
      snd (rscan c (snd (rscan c h xs)) ys))"
  by (induction xs arbitrary: h) (simp_all add: rscan_Cons del: rscan.simps(2))

lemma rscan_take: "fst (rscan c h (take k xs)) = take k (fst (rscan c h xs))"
proof -
  have "fst (rscan c h xs) =
        fst (rscan c h (take k xs)) @ fst (rscan c (snd (rscan c h (take k xs))) (drop k xs))"
    using rscan_append [of c h "take k xs" "drop k xs"] by simp
  then have "take k (fst (rscan c h xs)) =
             take k (fst (rscan c h (take k xs)) @ fst (rscan c (snd (rscan c h (take k xs))) (drop k xs)))"
    by simp
  then show ?thesis
    by (cases "k \<le> length xs") (simp_all add: min_def)
qed

text \<open>The values at step \<open>t\<close> are the last values of the run over the steps \<open>0..t\<close>.\<close>

lemma rscan_nth_prefix:
  assumes "t < length xs"
  shows "fst (rscan c h xs) ! t = last (fst (rscan c h (take (Suc t) xs)))"
proof -
  let ?L = "fst (rscan c h xs)"
  have "take (Suc t) ?L \<noteq> []"
    using assms rscan_length [of c h xs] by (cases ?L) auto
  then have "last (take (Suc t) ?L) = ?L ! t"
    using assms by (cases "length xs = Suc t") (auto simp: last_conv_nth min_def)
  then show ?thesis
    by (simp add: rscan_take)
qed

section \<open>The forward pass\<close>

lemma rvalues_nth:
  "length hs = length xss \<Longrightarrow> i < length xss \<Longrightarrow>
     rvalues pol p hs xss ! i = fst (rscan (rcell pol p) (hs ! i) (xss ! i))"
  by (simp add: rvalues_def)

lemma rvalues_length [simp]: "length (rvalues pol p hs xss) = min (length hs) (length xss)"
  by (simp add: rvalues_def)

lemma rvalues_row_length:
  "length hs = length xss \<Longrightarrow> i < length xss \<Longrightarrow> length (rvalues pol p hs xss ! i) = length (xss ! i)"
  by (simp add: rvalues_nth)

lemma rvalues_shape: "length hs = length xss \<Longrightarrow> same_shape (rvalues pol p hs xss) xss"
  by (simp add: same_shape_nth rvalues_nth)

lemma rforward_Inr_iff:
  "rforward pol p hs xss = Inr (a, q, hs') \<longleftrightarrow>
     length hs = length xss \<and> list_all (\<lambda>xs. xs \<noteq> []) xss \<and> q = rvalues pol p hs xss \<and> hs' = rstates pol p hs xss \<and>
     traverse (argmax_last (raction_dim pol)) q = Inr a"
  by (auto simp: rforward_def Let_def ebind_eq_Inr)

lemma rforward_length_mismatch:
  "length hs \<noteq> length xss \<Longrightarrow> rforward pol p hs xss = Inl Shape_mismatch"
  by (simp add: rforward_def)

lemma rforward_empty_sequence:
  "length hs = length xss \<Longrightarrow> [] \<in> set xss \<Longrightarrow> rforward pol p hs xss = Inl Empty_sequence"
  by (auto simp: rforward_def list_all_iff)

lemma rforward_exists:
  assumes "rnet_shaped pol p hs xss" and "0 < raction_dim pol"
  obtains a where "rforward pol p hs xss = Inr (a, rvalues pol p hs xss, rstates pol p hs xss)"
    and "traverse (argmax_last (raction_dim pol)) (rvalues pol p hs xss) = Inr a"
proof -
  let ?q = "rvalues pol p hs xss"
  have "\<forall>r \<in> set ?q. \<exists>a. argmax_last (raction_dim pol) r = Inr a"
  proof
    fix r assume "r \<in> set ?q"
    with assms(1) have "rows_of_width (raction_dim pol) r"
      by (simp add: rnet_shaped_def list_all_iff)
    then obtain a where "argmax_last (raction_dim pol) r = Inr a"
      using assms(2) by (rule argmax_last_Inr)
    then show "\<exists>a. argmax_last (raction_dim pol) r = Inr a" by blast
  qed
  then obtain g where "\<forall>r \<in> set ?q. argmax_last (raction_dim pol) r = Inr (g r)"
    by metis
  then have tr: "traverse (argmax_last (raction_dim pol)) ?q = Inr (map g ?q)"
    by (rule traverse_all_Inr)
  have len: "length hs = length xss" and ne: "list_all (\<lambda>xs. xs \<noteq> []) xss"
    using assms(1) by (simp_all add: rnet_shaped_def)
  show ?thesis
    by (rule that [of "map g ?q"]) (simp_all only: rforward_Inr_iff tr len ne simp_thms)
qed

end
