(* ===== verification/DRQN.thy ===== *)
theory DRQN
  imports Examples Recurrent Adam
begin

text \<open>
  \<open>DRQN_Learner.update\<close> (src/xuance/torch/learners/qlearning_family/drqn_learner.py).
  A sample holds one observation sequence of \<open>T + 1\<close> steps per batch element and \<open>T\<close>
  actions, rewards and terminal flags. \<open>drqn_targets\<close> is the forward part: a fresh
  initial recurrent state from \<open>init_hidden(batch_size)\<close> for each of the two networks,
  the online network run over \<open>obs[:, 0:-1]\<close> and the target network over \<open>obs[:, 1:]\<close>,
  the target value at the target network's greedy action by one-hot masking, the TD
  target, and the online value of the taken action, at every step of every sequence.
  \<open>drqn_update\<close> is the whole method, with the MSE loss over all steps, the shared tail
  of \<open>Learner\<close> and the statistics. The lemmas give the value of every step of the
  forward part in terms of the recurrent network run from its initial state, the errors
  of a mismatched batch size, the result on sequences too short to have a step, and the
  invariant of training runs.
\<close>

section \<open>The update rule\<close>

text \<open>The sample dict of the recurrent buffer.\<close>

record 'x seq_samples =
  seq_obs :: "'x list list"
  seq_actions :: "int list list"
  seq_rewards :: "real list list"
  seq_terminals :: "real list list"
  seq_batch_size :: nat

definition drqn_targets ::
  "real \<Rightarrow> ('p, 'h, 'x) rq_policy \<Rightarrow> 'p \<Rightarrow> 'p \<Rightarrow> 'x seq_samples \<Rightarrow>
     error + real list list \<times> real list list" where
  "drqn_targets gam pol pe pt b =
     ebind (rforward pol pe (init_hidden pol (seq_batch_size b)) (map slice_drop_last (seq_obs b)))
       (\<lambda>(_, evalQ, _).
     ebind (rforward pol pt (init_hidden pol (seq_batch_size b)) (map slice_from_1 (seq_obs b)))
       (\<lambda>(targetA, targetQ, _).
     ebind (select_action_seq targetQ (map (map int) targetA) (raction_dim pol)) (\<lambda>tq.
     ebind (td_target_seq gam (seq_rewards b) (seq_terminals b) tq) (\<lambda>target.
     ebind (select_action_seq evalQ (seq_actions b) (raction_dim pol)) (\<lambda>predict.
     Inr (predict, target))))))"

definition drqn_update ::
  "learner_config \<Rightarrow> ('p, 'h, 'x) rq_policy \<Rightarrow> ('p, 'o) opt_step \<Rightarrow> ('p, 'o) learner_state \<Rightarrow>
     'x seq_samples \<Rightarrow> (info, ('p, 'o) learner_state) result" where
  "drqn_update cfg pol opt s b =
     (let s1 = start_update s in
      case ebind (drqn_targets (gamma cfg) pol (eval_params s1) (target_params s1) b)
             (\<lambda>(predict, target). ebind (mse_loss_seq predict target) (\<lambda>loss. Inr (predict, target, loss))) of
        Inl e \<Rightarrow> Inl (e, s1)
      | Inr (predict, target, loss) \<Rightarrow>
          (case optimize_and_sync cfg opt
                  (rgrad_mse pol (eval_params s1) (init_hidden pol (seq_batch_size b))
                     (map slice_drop_last (seq_obs b)) (seq_actions b) target) s1 of
             Inl es \<Rightarrow> Inl es
           | Inr (_, s2) \<Rightarrow> Inr (update_info cfg loss (lr s2) (mean (concat predict)), s2)))"

text \<open>One successful update of a training run.\<close>

inductive drqn_step ::
  "learner_config \<Rightarrow> ('p, 'h, 'x) rq_policy \<Rightarrow> ('p, 'o) opt_step \<Rightarrow>
     ('p, 'o) learner_state \<Rightarrow> ('p, 'o) learner_state \<Rightarrow> bool"
  for cfg pol opt where
  "drqn_update cfg pol opt s b = Inr (stats, s') \<Longrightarrow> drqn_step cfg pol opt s s'"

text \<open>
  A well-shaped sample: \<open>batch_size\<close> sequences, each with one action, reward and flag per
  step but the last.
\<close>

definition seq_well_shaped :: "'x seq_samples \<Rightarrow> bool" where
  "seq_well_shaped b \<longleftrightarrow>
     length (seq_obs b) = seq_batch_size b \<and>
     list_all2 (\<lambda>xs a. length a = length xs - 1) (seq_obs b) (seq_actions b) \<and>
     list_all2 (\<lambda>xs r. length r = length xs - 1) (seq_obs b) (seq_rewards b) \<and>
     list_all2 (\<lambda>xs t. length t = length xs - 1) (seq_obs b) (seq_terminals b)"

section \<open>The constructor\<close>

text \<open>
  \<open>DRQN_Learner.__init__\<close>: the base constructor, \<open>torch.optim.Adam\<close> over the policy's
  parameters with the configured rate and \<open>eps=1e-5\<close>, and the \<open>LinearLR\<close> scheduler.
\<close>

definition drqn_learner_init :: "learner_config \<Rightarrow> real list \<Rightarrow> (real list, adam_state) learner_state" where
  "drqn_learner_init cfg p = learner_init cfg p (adam_init p)"

text \<open>The gradient of the recurrent loss has the shape of the parameters.\<close>

definition rgrad_shaped :: "(real list, 'h, 'x) rq_policy \<Rightarrow> bool" where
  "rgrad_shaped pol \<longleftrightarrow> (\<forall>p hs xss as ts. length (rgrad_mse pol p hs xss as ts) = length p)"

section \<open>Examples\<close>

text \<open>
  A recurrent network with two actions whose state accumulates the observations seen, and
  two sequences of three observations.
\<close>

definition rpol_ex :: "(real, real, real) rq_policy" where
  "rpol_ex = \<lparr>raction_dim = 2, init_hidden = (\<lambda>n. replicate n 0),
              rcell = (\<lambda>p h x. ([p * x + h, p + h], h + x)), rgrad_mse = (\<lambda>p hs xss as ts. [p])\<rparr>"

definition seq_batch_ex :: "real seq_samples" where
  "seq_batch_ex = \<lparr>seq_obs = [[1, 2, 3], [2, 0, 1]], seq_actions = [[0, 1], [1, 0]],
                   seq_rewards = [[1, 0], [0, 2]], seq_terminals = [[0, 1], [0, 0]],
                   seq_batch_size = 2\<rparr>"

lemmas seq_run_defs = rforward_def rvalues_def rstates_def slice_drop_last_def slice_from_1_def
  select_action_seq_def td_target_seq_def bcast2_def mse_loss_seq_def rpol_ex_def seq_batch_ex_def

section \<open>The forward part\<close>

lemma drqn_targets_Inr:
  assumes "drqn_targets gam pol pe pt b = Inr (predict, target)"
  obtains evalA evalQ eh targetA targetQ th tq where
    "rforward pol pe (init_hidden pol (seq_batch_size b)) (map slice_drop_last (seq_obs b)) =
       Inr (evalA, evalQ, eh)"
    "rforward pol pt (init_hidden pol (seq_batch_size b)) (map slice_from_1 (seq_obs b)) =
       Inr (targetA, targetQ, th)"
    "select_action_seq targetQ (map (map int) targetA) (raction_dim pol) = Inr tq"
    "td_target_seq gam (seq_rewards b) (seq_terminals b) tq = Inr target"
    "select_action_seq evalQ (seq_actions b) (raction_dim pol) = Inr predict"
  using assms that
  by (auto simp: drqn_targets_def ebind_eq_Inr split: prod.splits)

lemma seq_well_shaped_slices:
  assumes "seq_well_shaped b"
  shows "same_shape (seq_actions b) (map slice_drop_last (seq_obs b))"
    and "same_shape (seq_rewards b) (map slice_from_1 (seq_obs b))"
    and "same_shape (seq_terminals b) (map slice_from_1 (seq_obs b))"
  using assms
  by (auto simp: seq_well_shaped_def same_shape_nth list_all2_conv_all_nth slice_drop_last_def
                 slice_from_1_def)

lemma seq_well_shaped_lengths:
  assumes "seq_well_shaped b"
  shows "length (seq_obs b) = seq_batch_size b \<and> length (seq_actions b) = length (seq_obs b) \<and>
         length (seq_rewards b) = length (seq_obs b) \<and> length (seq_terminals b) = length (seq_obs b)"
  using assms by (auto simp: seq_well_shaped_def list_all2_conv_all_nth)

lemma seq_well_shaped_row:
  assumes "seq_well_shaped b" and "i < length (seq_obs b)"
  shows "length (seq_actions b ! i) = length (seq_obs b ! i) - 1 \<and>
         length (seq_rewards b ! i) = length (seq_obs b ! i) - 1 \<and>
         length (seq_terminals b ! i) = length (seq_obs b ! i) - 1"
  using assms by (auto simp: seq_well_shaped_def list_all2_conv_all_nth)

text \<open>
  Step \<open>t\<close> of sequence \<open>i\<close>: the online network has seen the observations \<open>0..t\<close>, the
  target network the observations \<open>1..t+1\<close>, each from the initial state of the sequence.
\<close>

lemma rvalues_drop_last_nth:
  assumes "length hs = length xss" and "i < length xss" and "t < length (xss ! i) - 1"
  shows "rvalues pol p hs (map slice_drop_last xss) ! i ! t =
           last (fst (rscan (rcell pol p) (hs ! i) (take (Suc t) (xss ! i))))"
proof -
  let ?x = "slice_drop_last (xss ! i)"
  have t: "t < length ?x"
    using assms(3) by (simp add: slice_drop_last_def)
  have "take (Suc t) ?x = take (Suc t) (xss ! i)"
    using assms(3) by (simp add: slice_drop_last_def min_def)
  then show ?thesis
    using assms(1,2) rscan_nth_prefix [OF t] by (simp add: rvalues_nth)
qed

lemma rvalues_from_1_nth:
  assumes "length hs = length xss" and "i < length xss" and "t < length (xss ! i) - 1"
  shows "rvalues pol p hs (map slice_from_1 xss) ! i ! t =
           last (fst (rscan (rcell pol p) (hs ! i) (take (Suc t) (drop 1 (xss ! i)))))"
  using assms by (simp add: rvalues_nth rscan_nth_prefix slice_from_1_def)

lemma drqn_targets_eq:
  assumes wf: "seq_well_shaped b"
    and ne: "rnet_shaped pol pe (init_hidden pol (seq_batch_size b)) (map slice_drop_last (seq_obs b))"
    and nt: "rnet_shaped pol pt (init_hidden pol (seq_batch_size b)) (map slice_from_1 (seq_obs b))"
    and a: "0 < raction_dim pol"
    and ar: "\<forall>a \<in> set (seq_actions b). actions_in_range (raction_dim pol) a"
  shows "drqn_targets gam pol pe pt b =
     Inr (map2 (map2 (\<lambda>q a. q ! nat a))
            (rvalues pol pe (init_hidden pol (seq_batch_size b)) (map slice_drop_last (seq_obs b)))
            (seq_actions b),
          map2 (map2 (+)) (seq_rewards b)
            (map2 (map2 (*)) (map (map (\<lambda>t. gam * (1 - t))) (seq_terminals b))
               (map (map (\<lambda>q. Max (set q)))
                  (rvalues pol pt (init_hidden pol (seq_batch_size b)) (map slice_from_1 (seq_obs b))))))"
proof -
  let ?hs = "init_hidden pol (seq_batch_size b)"
  let ?xe = "map slice_drop_last (seq_obs b)" and ?xt = "map slice_from_1 (seq_obs b)"
  let ?eQ = "rvalues pol pe ?hs ?xe" and ?tQ = "rvalues pol pt ?hs ?xt"
  obtain eA where e: "rforward pol pe ?hs ?xe = Inr (eA, ?eQ, rstates pol pe ?hs ?xe)"
    using ne a by (rule rforward_exists)
  obtain tA where t: "rforward pol pt ?hs ?xt = Inr (tA, ?tQ, rstates pol pt ?hs ?xt)"
    and ta: "traverse (argmax_last (raction_dim pol)) ?tQ = Inr tA"
    using nt a by (rule rforward_exists)
  have sel: "select_action_seq ?tQ (map (map int) tA) (raction_dim pol) =
               Inr (map (map (\<lambda>q. Max (set q))) ?tQ)"
    using nt a ta by (simp add: rnet_shaped_def select_action_seq_argmax)
  have shT: "same_shape (map (map (\<lambda>q. Max (set q))) ?tQ) ?xt"
    using nt by (simp add: rnet_shaped_def rvalues_shape same_shape_map)
  have td: "td_target_seq gam (seq_rewards b) (seq_terminals b) (map (map (\<lambda>q. Max (set q))) ?tQ) =
      Inr (map2 (map2 (+)) (seq_rewards b)
            (map2 (map2 (*)) (map (map (\<lambda>t. gam * (1 - t))) (seq_terminals b))
               (map (map (\<lambda>q. Max (set q))) ?tQ)))"
    using seq_well_shaped_slices(2,3) [OF wf] shT
    by (intro td_target_seq_same) (blast intro: same_shape_trans same_shape_sym)+
  have "list_all2 (\<lambda>q a. rows_of_width (raction_dim pol) q \<and> actions_in_range (raction_dim pol) a \<and>
                         length a = length q) ?eQ (seq_actions b)"
    using ne ar seq_well_shaped_slices(1) [OF wf] rvalues_shape [of ?hs ?xe pol pe]
    by (auto simp: rnet_shaped_def list_all2_conv_all_nth list_all_length same_shape_nth)
  then have pr: "select_action_seq ?eQ (seq_actions b) (raction_dim pol) =
                   Inr (map2 (map2 (\<lambda>q a. q ! nat a)) ?eQ (seq_actions b))"
    by (rule select_action_seq_nth)
  show ?thesis
    by (simp add: drqn_targets_def e t sel td pr)
qed

section \<open>The whole update\<close>

lemma drqn_update_Inr:
  assumes "drqn_update cfg pol opt s b = Inr (stats, s')"
  obtains predict target loss where
    "drqn_targets (gamma cfg) pol (eval_params s) (target_params s) b = Inr (predict, target)"
    "mse_loss_seq predict target = Inr loss"
    "optimize_and_sync cfg opt
       (rgrad_mse pol (eval_params s) (init_hidden pol (seq_batch_size b))
          (map slice_drop_last (seq_obs b)) (seq_actions b) target) (start_update s) = Inr ((), s')"
    "stats = update_info cfg loss (lr s') (mean (concat predict))"
  using assms that
  by (auto simp: drqn_update_def start_update_def Let_def ebind_def split: sum.splits prod.splits)

lemma drqn_update_forward_Inl:
  "drqn_targets (gamma cfg) pol (eval_params s) (target_params s) b = Inl e \<Longrightarrow>
     drqn_update cfg pol opt s b = Inl (e, start_update s)"
  by (simp add: drqn_update_def start_update_def)

lemma drqn_step_tail: "drqn_step cfg pol opt s s' \<Longrightarrow> tail_step cfg opt s s'"
  by (auto simp: tail_step_def elim!: drqn_step.cases elim: drqn_update_Inr)

text \<open>A sequence of at most one observation leaves the online pass a sequence of no step.\<close>

lemma drqn_targets_short:
  assumes "length (init_hidden pol (seq_batch_size b)) = seq_batch_size b"
    and "seq_batch_size b = length (seq_obs b)"
    and "xs \<in> set (seq_obs b)" and "length xs \<le> 1"
  shows "drqn_targets gam pol pe pt b = Inl Empty_sequence"
proof -
  have "slice_drop_last xs = []" using assms(4) by (simp add: slice_drop_last_def)
  then have "[] \<in> set (map slice_drop_last (seq_obs b))" using assms(3) by force
  then show ?thesis
    using assms(1,2) by (simp add: drqn_targets_def rforward_empty_sequence)
qed

section \<open>Examples\<close>

lemma drqn_targets_ex:
  "drqn_targets (9 / 10) rpol_ex 1 1 seq_batch_ex =
     Inr ([[1, 2], [1, 2]], [[14 / 5, 0], [9 / 10, 29 / 10]])"
  by (simp add: drqn_targets_def seq_run_defs run_defs Let_def numeral_2_eq_2)

lemma drqn_update_ex:
  "drqn_update cfg_ex rpol_ex opt_ex init_ex seq_batch_ex =
     Inr ([(''Qloss'', Some (403 / 200)), (''learning_rate'', Some (3 / 40)), (''predictQ'', Some (3 / 2))],
          \<lparr>iterations = 1, eval_params = 9 / 10, target_params = 9 / 10, opt_state = 1,
           lr = 3 / 40, last_epoch = 1\<rparr>)"
  by (simp add: drqn_update_def drqn_targets_def example_defs run_defs seq_run_defs power2_eq_square
                Let_def numeral_2_eq_2)

lemma drqn_trained_ex:
  "trained cfg_ex (drqn_step cfg_ex rpol_ex opt_ex)
     \<lparr>iterations = 1, eval_params = 9 / 10, target_params = 9 / 10, opt_state = 1,
      lr = 3 / 40, last_epoch = 1\<rparr>"
proof (rule trained_step)
  show "trained cfg_ex (drqn_step cfg_ex rpol_ex opt_ex) init_ex"
    unfolding init_ex_def by (rule trained_init)
  show "drqn_step cfg_ex rpol_ex opt_ex init_ex
          \<lparr>iterations = 1, eval_params = 9 / 10, target_params = 9 / 10, opt_state = 1,
           lr = 3 / 40, last_epoch = 1\<rparr>"
    by (rule drqn_step.intros) (rule drqn_update_ex)
qed

section \<open>Properties of the update rule\<close>

text \<open>
  C14. At step \<open>t\<close> of sequence \<open>i\<close> of a well-shaped sample, the DRQN prediction is the
  online network's value of the taken action after reading the observations \<open>0..t\<close>, and
  the TD target is the reward plus the discounted, terminal-masked maximum of the target
  network's values after reading the observations \<open>1..t+1\<close>, both networks started from
  the fresh initial state \<open>init_hidden(batch_size)\<close> of that sequence.
\<close>

theorem drqn_step_values:
  assumes r: "drqn_targets gam pol pe pt b = Inr (predict, target)"
    and wf: "seq_well_shaped b"
    and ne: "rnet_shaped pol pe (init_hidden pol (seq_batch_size b)) (map slice_drop_last (seq_obs b))"
    and nt: "rnet_shaped pol pt (init_hidden pol (seq_batch_size b)) (map slice_from_1 (seq_obs b))"
    and a: "0 < raction_dim pol"
    and i: "i < length (seq_obs b)" and t: "t < length (seq_obs b ! i) - 1"
  shows "predict ! i ! t =
           last (fst (rscan (rcell pol pe) (init_hidden pol (seq_batch_size b) ! i)
                        (take (Suc t) (seq_obs b ! i)))) ! nat (seq_actions b ! i ! t) \<and>
         target ! i ! t =
           seq_rewards b ! i ! t + gam * (1 - seq_terminals b ! i ! t) *
           Max (set (last (fst (rscan (rcell pol pt) (init_hidden pol (seq_batch_size b) ! i)
                                  (take (Suc t) (drop 1 (seq_obs b ! i)))))))"
proof -
  let ?hs = "init_hidden pol (seq_batch_size b)"
  let ?eQ = "rvalues pol pe ?hs (map slice_drop_last (seq_obs b))"
    and ?tQ = "rvalues pol pt ?hs (map slice_from_1 (seq_obs b))"
  obtain evalA evalQ eh targetA targetQ th tq where
    "select_action_seq evalQ (seq_actions b) (raction_dim pol) = Inr predict"
    using r by (rule drqn_targets_Inr)
  then have ar: "\<forall>a \<in> set (seq_actions b). actions_in_range (raction_dim pol) a"
    by (rule select_action_seq_in_range)
  have p: "predict = map2 (map2 (\<lambda>q a. q ! nat a)) ?eQ (seq_actions b)"
    and tg: "target = map2 (map2 (+)) (seq_rewards b)
                        (map2 (map2 (*)) (map (map (\<lambda>t. gam * (1 - t))) (seq_terminals b))
                           (map (map (\<lambda>q. Max (set q))) ?tQ))"
    using r drqn_targets_eq [OF wf ne nt a ar, of gam] by simp_all
  have lh: "length ?hs = length (seq_obs b)"
    using ne by (simp add: rnet_shaped_def)
  show ?thesis
    using seq_well_shaped_lengths [OF wf] seq_well_shaped_row [OF wf i] lh i t
          rvalues_drop_last_nth [OF lh i t, of pol pe] rvalues_from_1_nth [OF lh i t, of pol pt]
    by (simp add: p tg rvalues_row_length)
qed

theorem drqn_step_values_witness:
  "drqn_targets (9 / 10) rpol_ex 1 1 seq_batch_ex = Inr ([[1, 2], [1, 2]], [[14 / 5, 0], [9 / 10, 29 / 10]]) \<and>
   seq_well_shaped seq_batch_ex \<and>
   rnet_shaped rpol_ex 1 (init_hidden rpol_ex (seq_batch_size seq_batch_ex))
     (map slice_drop_last (seq_obs seq_batch_ex)) \<and>
   rnet_shaped rpol_ex 1 (init_hidden rpol_ex (seq_batch_size seq_batch_ex))
     (map slice_from_1 (seq_obs seq_batch_ex)) \<and>
   0 < raction_dim rpol_ex \<and> 1 < length (seq_obs seq_batch_ex) \<and>
   0 < length (seq_obs seq_batch_ex ! 1) - 1 \<and>
   [[1, 2], [1, 2 :: real]] ! 1 ! 0 =
     last (fst (rscan (rcell rpol_ex 1) (init_hidden rpol_ex (seq_batch_size seq_batch_ex) ! 1)
                  (take 1 (seq_obs seq_batch_ex ! 1)))) ! nat (seq_actions seq_batch_ex ! 1 ! 0) \<and>
   [[14 / 5, 0], [9 / 10, 29 / 10 :: real]] ! 1 ! 0 =
     seq_rewards seq_batch_ex ! 1 ! 0 + 9 / 10 * (1 - seq_terminals seq_batch_ex ! 1 ! 0) *
     Max (set (last (fst (rscan (rcell rpol_ex 1) (init_hidden rpol_ex (seq_batch_size seq_batch_ex) ! 1)
                            (take 1 (drop 1 (seq_obs seq_batch_ex ! 1)))))))"
proof -
  have r: "drqn_targets (9 / 10) rpol_ex 1 1 seq_batch_ex =
             Inr ([[1, 2], [1, 2]], [[14 / 5, 0], [9 / 10, 29 / 10]])"
    by (simp add: drqn_targets_def seq_run_defs run_defs Let_def numeral_2_eq_2)
  have h: "seq_well_shaped seq_batch_ex \<and>
     rnet_shaped rpol_ex 1 (init_hidden rpol_ex (seq_batch_size seq_batch_ex))
       (map slice_drop_last (seq_obs seq_batch_ex)) \<and>
     rnet_shaped rpol_ex 1 (init_hidden rpol_ex (seq_batch_size seq_batch_ex))
       (map slice_from_1 (seq_obs seq_batch_ex)) \<and>
     0 < raction_dim rpol_ex \<and> 1 < length (seq_obs seq_batch_ex) \<and>
     0 < length (seq_obs seq_batch_ex ! 1) - 1"
    by (simp add: seq_well_shaped_def rnet_shaped_def rows_of_width_def seq_run_defs numeral_2_eq_2)
  show ?thesis
    using drqn_step_values [OF r, of 1 0] h r by simp
qed

text \<open>
  C15. In every state of a DRQN training run the target network equals the online network
  whenever the iteration counter is a multiple of sync_frequency.
\<close>

theorem drqn_trained_target_synced:
  assumes "trained cfg (drqn_step cfg pol opt) s" and "int (iterations s) mod sync_frequency cfg = 0"
  shows "target_params s = eval_params s"
proof -
  have "learner_inv cfg s"
    using assms(1) by (rule trained_learner_inv) (erule drqn_step_tail)
  with assms(2) show ?thesis by (simp add: learner_inv_def)
qed

theorem drqn_trained_target_synced_witness:
  "trained cfg_ex (drqn_step cfg_ex rpol_ex opt_ex)
     \<lparr>iterations = 1, eval_params = 9 / 10, target_params = 9 / 10, opt_state = 1,
      lr = 3 / 40, last_epoch = 1\<rparr> \<and>
   int 1 mod sync_frequency cfg_ex = 0 \<and> (9 / 10 :: real) = 9 / 10"
  using drqn_trained_target_synced [OF drqn_trained_ex] drqn_trained_ex by (simp add: cfg_ex_def)

text \<open>
  C16. When the sample's batch_size differs from its number of sequences, the initial
  recurrent state does not fit the observations and the update raises, with only the
  iteration counter advanced.
\<close>

theorem drqn_batch_size_mismatch:
  assumes "length (init_hidden pol (seq_batch_size b)) = seq_batch_size b"
    and "seq_batch_size b \<noteq> length (seq_obs b)"
  shows "drqn_update cfg pol opt s b = Inl (Shape_mismatch, start_update s)"
  using assms
  by (intro drqn_update_forward_Inl) (simp add: drqn_targets_def rforward_length_mismatch)

theorem drqn_batch_size_mismatch_witness:
  "length (init_hidden rpol_ex (seq_batch_size (seq_batch_ex\<lparr>seq_batch_size := 3\<rparr>))) =
     seq_batch_size (seq_batch_ex\<lparr>seq_batch_size := 3\<rparr>) \<and>
   seq_batch_size (seq_batch_ex\<lparr>seq_batch_size := 3\<rparr>) \<noteq> length (seq_obs (seq_batch_ex\<lparr>seq_batch_size := 3\<rparr>)) \<and>
   drqn_update cfg_ex rpol_ex opt_ex init_ex (seq_batch_ex\<lparr>seq_batch_size := 3\<rparr>) =
     Inl (Shape_mismatch, start_update init_ex)"
  using drqn_batch_size_mismatch [of rpol_ex "seq_batch_ex\<lparr>seq_batch_size := 3\<rparr>" cfg_ex opt_ex init_ex]
  by (simp add: rpol_ex_def seq_batch_ex_def)

text \<open>
  C17. When some observation sequence of the sample has at most one observation, the
  online pass over its first \<open>T - 1\<close> steps gets a sequence of no step and raises, as
  torch's recurrent layers do: the update fails with only the iteration counter advanced,
  before the optimizer or the scheduler steps.
\<close>

theorem drqn_short_sequence_raises:
  assumes "length (init_hidden pol (seq_batch_size b)) = seq_batch_size b"
    and "seq_batch_size b = length (seq_obs b)"
    and "xs \<in> set (seq_obs b)" and "length xs \<le> 1"
  shows "drqn_update cfg pol opt s b = Inl (Empty_sequence, start_update s)"
  using drqn_targets_short [OF assms] by (rule drqn_update_forward_Inl)

theorem drqn_short_sequence_raises_witness:
  "length (init_hidden rpol_ex (seq_batch_size (seq_batch_ex\<lparr>seq_obs := [[1, 2], [2]]\<rparr>))) =
     seq_batch_size (seq_batch_ex\<lparr>seq_obs := [[1, 2], [2]]\<rparr>) \<and>
   seq_batch_size (seq_batch_ex\<lparr>seq_obs := [[1, 2], [2]]\<rparr>) = length (seq_obs (seq_batch_ex\<lparr>seq_obs := [[1, 2], [2]]\<rparr>)) \<and>
   [2] \<in> set (seq_obs (seq_batch_ex\<lparr>seq_obs := [[1, 2], [2]]\<rparr>)) \<and> length [2 :: real] \<le> 1 \<and>
   drqn_update cfg_ex rpol_ex opt_ex init_ex (seq_batch_ex\<lparr>seq_obs := [[1, 2], [2]]\<rparr>) =
     Inl (Empty_sequence, start_update init_ex)"
  using drqn_short_sequence_raises [of rpol_ex "seq_batch_ex\<lparr>seq_obs := [[1, 2], [2]]\<rparr>" "[2]"
                                    cfg_ex opt_ex init_ex]
  by (simp add: rpol_ex_def seq_batch_ex_def)

end
