(* ===== verification/Argparse.thy ===== *)
theory Argparse
  imports Py_Int
begin

text \<open>
  The part of Python's \<open>argparse\<close> that the benchmark launcher relies on: a parser built by
  \<open>ArgumentParser(...)\<close> (which registers \<open>-h\<close>/\<open>--help\<close>) and \<open>add_argument\<close> calls for
  optional arguments that store one value converted by \<open>type=str\<close> or \<open>type=int\<close>, and
  \<open>parse_args()\<close> on such a parser (no positional arguments, \<open>allow_abbrev=True\<close>,
  \<open>prefix_chars='-'\<close>). The model follows CPython 3.11's \<open>argparse.py\<close>:
  \<open>_parse_optional\<close> and \<open>_get_option_tuples\<close> classify every command-line string as an
  argument (\<open>A\<close>), the \<open>--\<close> separator, or an option with its action and explicit
  \<open>=\<close>-argument; \<open>_parse_known_args\<close> then runs its \<open>while\<close> loop over the option
  indices, \<open>consume_optional\<close> collecting the action tuples and running the actions left to
  right; strings no action consumes are the extras, which \<open>parse_args\<close> rejects. \<open>-h\<close> exits
  with status 0 when its action runs; \<open>parser.error\<close> exits with status 2. A namespace is a
  map from attribute names to values.
\<close>

section \<open>Parsers, actions and results\<close>

datatype arg_type = Str_type | Int_type

text \<open>Python values stored in a namespace: strings, ints, and lists of values.\<close>

datatype pyval = PStr string | PInt int | PList "pyval list"

text \<open>
  \<open>_HelpAction\<close> takes no argument; \<open>_StoreAction\<close> (with \<open>nargs=None\<close>) takes exactly one and
  has a destination attribute, a type and a default.
\<close>

datatype action =
    Help_action
  | Store_action string arg_type pyval

text \<open>\<open>parser._option_string_actions\<close>: option strings in insertion order, each with its action.\<close>

type_synonym option_table = "(string \<times> action) list"

type_synonym namespace = "string \<rightharpoonup> pyval"

text \<open>The messages \<open>parser.error\<close> prints before exiting with status 2.\<close>

datatype arg_error =
    Ambiguous_option string "string list"  \<comment> \<open>ambiguous option: X could match Y, Z\<close>
  | Expected_one_argument string          \<comment> \<open>argument D: expected one argument\<close>
  | Ignored_explicit_argument string      \<comment> \<open>argument D: ignored explicit argument E\<close>
  | Invalid_value string string           \<comment> \<open>argument D: invalid T value: V\<close>
  | Unrecognized_arguments "string list"  \<comment> \<open>unrecognized arguments: ...\<close>

datatype parse_exit = Help_exit | Usage_error arg_error

text \<open>Exit status of the process: \<open>parser.exit()\<close> after the help, \<open>parser.error\<close> otherwise.\<close>

fun exit_status :: "parse_exit \<Rightarrow> nat" where
  "exit_status Help_exit = 0"
| "exit_status (Usage_error e) = 2"

section \<open>Building a parser\<close>

text \<open>\<open>ArgumentParser(...)\<close> with \<open>add_help=True\<close>.\<close>

definition parser_init :: option_table where
  "parser_init = [(''-h'', Help_action), (''--help'', Help_action)]"

text \<open>
  The attribute name of an option: leading dashes stripped, inner dashes replaced by
  underscores (\<open>_get_optional_kwargs\<close>).
\<close>

definition dest_of :: "string \<Rightarrow> string" where
  "dest_of s = map (\<lambda>c. if c = CHR ''-'' then CHR ''_'' else c) (dropWhile (\<lambda>c. c = CHR ''-'') s)"

text \<open>
  \<open>add_argument(s, type=..., default=...)\<close> for one option string: \<open>ValueError\<close> when it does
  not start with a dash or leaves an empty name, \<open>ArgumentError\<close> when the string is
  already registered.
\<close>

definition add_argument :: "option_table \<Rightarrow> string \<Rightarrow> arg_type \<Rightarrow> pyval \<Rightarrow> error + option_table" where
  "add_argument t s ty d =
     (if s = [] \<or> hd s \<noteq> CHR ''-'' \<or> dest_of s = [] then Inl Value_error
      else if s \<in> set (map fst t) then Inl Argument_error
      else Inr (t @ [(s, Store_action (dest_of s) ty d)]))"

section \<open>Classifying the command-line strings\<close>

text \<open>\<open>s.startswith(p)\<close>.\<close>

fun startswith :: "string \<Rightarrow> string \<Rightarrow> bool" where
  "startswith s [] = True"
| "startswith [] (c # p) = False"
| "startswith (d # s) (c # p) = (d = c \<and> startswith s p)"

text \<open>\<open>s.split('=', 1)\<close> when \<open>'='\<close> occurs in \<open>s\<close>.\<close>

definition split_eq :: "string \<Rightarrow> (string \<times> string) option" where
  "split_eq s =
     (if CHR ''='' \<in> set s then Some (takeWhile (\<lambda>c. c \<noteq> CHR ''='') s, tl (dropWhile (\<lambda>c. c \<noteq> CHR ''='') s))
      else None)"

text \<open>
  \<open>_negative_number_matcher = re.compile(r'^-\d+$|^-\d*\.\d+$')\<close>; Python's \<open>$\<close> also matches
  just before a final newline.
\<close>

definition neg_number_body :: "string \<Rightarrow> bool" where
  "neg_number_body s =
     (case s of
        [] \<Rightarrow> False
      | c # r \<Rightarrow> c = CHR ''-'' \<and>
          ((r \<noteq> [] \<and> (\<forall>x \<in> set r. is_digit x)) \<or>
           (case dropWhile is_digit r of
              [] \<Rightarrow> False
            | d # ds \<Rightarrow> d = CHR ''.'' \<and> ds \<noteq> [] \<and> (\<forall>x \<in> set ds. is_digit x))))"

definition is_neg_number :: "string \<Rightarrow> bool" where
  "is_neg_number s \<longleftrightarrow>
     neg_number_body s \<or> (s \<noteq> [] \<and> last s = CHR ''\<newline>'' \<and> neg_number_body (butlast s))"

text \<open>\<open>parser._has_negative_number_optionals\<close>: some option string looks like a negative number.\<close>

definition has_neg_number_optionals :: "option_table \<Rightarrow> bool" where
  "has_neg_number_optionals t \<longleftrightarrow> (\<exists>p \<in> set t. is_neg_number (fst p))"

text \<open>\<open>_get_option_tuples\<close>: the options a string can abbreviate, for a string of length two or more.\<close>

definition option_tuples :: "option_table \<Rightarrow> string \<Rightarrow> (action \<times> string \<times> string option) list" where
  "option_tuples t s =
     (if s ! 1 = CHR ''-'' then
        (let (pre, e) = (case split_eq s of Some (p, x) \<Rightarrow> (p, Some x) | None \<Rightarrow> (s, None))
         in map (\<lambda>(os, a). (a, os, e)) (filter (\<lambda>(os, a). startswith os pre) t))
      else map (\<lambda>(os, a). (a, os, if os = take 2 s then Some (drop 2 s) else None))
             (filter (\<lambda>(os, a). os = take 2 s \<or> startswith os s) t))"

text \<open>
  The pattern of one command-line string: an argument, the separator \<open>--\<close>, or an option
  string with its action (\<open>None\<close> for an unknown option) and its explicit argument.
\<close>

datatype pattern = Pat_A | Pat_dash | Pat_O "action option" string "string option"

text \<open>The \<open>option=value\<close> form of a registered option.\<close>

definition explicit_option :: "option_table \<Rightarrow> string \<Rightarrow> pattern option" where
  "explicit_option t s =
     (case split_eq s of
        None \<Rightarrow> None
      | Some (os, e) \<Rightarrow> map_option (\<lambda>a. Pat_O (Some a) os (Some e)) (map_of t os))"

definition parse_optional :: "option_table \<Rightarrow> string \<Rightarrow> parse_exit + pattern" where
  "parse_optional t s =
     (if s = [] \<or> hd s \<noteq> CHR ''-'' then Inr Pat_A
      else case map_of t s of
        Some a \<Rightarrow> Inr (Pat_O (Some a) s None)
      | None \<Rightarrow>
          if length s = 1 then Inr Pat_A
          else case explicit_option t s of
            Some p \<Rightarrow> Inr p
          | None \<Rightarrow>
              (case option_tuples t s of
                 [] \<Rightarrow>
                   if is_neg_number s \<and> \<not> has_neg_number_optionals t then Inr Pat_A
                   else if CHR '' '' \<in> set s then Inr Pat_A
                   else Inr (Pat_O None s None)
               | [(a, os, e)] \<Rightarrow> Inr (Pat_O (Some a) os e)
               | _ \<Rightarrow> Inl (Usage_error (Ambiguous_option s (map (fst \<circ> snd) (option_tuples t s))))))"

text \<open>The first loop of \<open>_parse_known_args\<close>: after \<open>--\<close> every string is an argument.\<close>

fun classify :: "option_table \<Rightarrow> string list \<Rightarrow> parse_exit + pattern list" where
  "classify t [] = Inr []"
| "classify t (s # ss) =
     (if s = ''--'' then Inr (Pat_dash # map (\<lambda>_. Pat_A) ss)
      else ebind (parse_optional t s) (\<lambda>p. ebind (classify t ss) (\<lambda>ps. Inr (p # ps))))"

section \<open>Consuming the options\<close>

text \<open>Number of strings an action consumes: \<open>nargs=0\<close> for help, \<open>nargs=None\<close> (one) for store.\<close>

fun arg_count :: "action \<Rightarrow> nat" where
  "arg_count Help_action = 0"
| "arg_count (Store_action d ty v) = 1"

text \<open>
  \<open>_match_argument\<close> against the patterns after the option: an optional action's pattern has
  no \<open>-\<close>, so one argument must be an \<open>A\<close> string.
\<close>

definition match_argument :: "action \<Rightarrow> pattern list \<Rightarrow> parse_exit + nat" where
  "match_argument a ps =
     (case a of
        Help_action \<Rightarrow> Inr 0
      | Store_action d ty v \<Rightarrow>
          (case ps of Pat_A # _ \<Rightarrow> Inr 1 | _ \<Rightarrow> Inl (Usage_error (Expected_one_argument d))))"

text \<open>
  The \<open>while True\<close> loop of \<open>consume_optional\<close> for the option at index \<open>i\<close>: the action
  tuples (action and its argument strings) and the index after them. An explicit argument
  of a flag written with one dash is a cluster of further one-letter flags (\<open>-hh\<close>).
\<close>

fun consume_tuples ::
  "option_table \<Rightarrow> string list \<Rightarrow> pattern list \<Rightarrow> nat \<Rightarrow> action \<Rightarrow> string \<Rightarrow> string option \<Rightarrow>
     parse_exit + ((action \<times> string list) list \<times> nat)" where
  "consume_tuples t xs ps i a os None =
     ebind (match_argument a (drop (Suc i) ps)) (\<lambda>n. Inr ([(a, take n (drop (Suc i) xs))], Suc i + n))"
| "consume_tuples t xs ps i a os (Some e) =
     (if arg_count a = 0 \<and> os ! 1 \<noteq> CHR ''-'' \<and> e \<noteq> [] then
        (case map_of t [os ! 0, hd e] of
           None \<Rightarrow> Inl (Usage_error (Ignored_explicit_argument e))
         | Some a' \<Rightarrow>
             ebind (consume_tuples t xs ps i a' [os ! 0, hd e] (if tl e = [] then None else Some (tl e)))
               (\<lambda>(ts, stop). Inr ((a, []) # ts, stop)))
      else if arg_count a = 1 then Inr ([(a, [e])], Suc i)
      else Inl (Usage_error (Ignored_explicit_argument e)))"

text \<open>
  \<open>_get_value\<close>: the \<open>type\<close> conversion, whose \<open>ValueError\<close> becomes a usage error.
\<close>

fun get_value :: "arg_type \<Rightarrow> string \<Rightarrow> parse_exit + pyval" where
  "get_value Str_type s = Inr (PStr s)"
| "get_value Int_type s =
     (case py_int s of Inl e \<Rightarrow> Inl (Usage_error (Invalid_value ''int'' s)) | Inr i \<Rightarrow> Inr (PInt i))"

text \<open>
  \<open>_get_values\<close> for \<open>nargs=None\<close>: the first \<open>--\<close> is removed from the strings; one string
  gives its value, any other number a list of values.
\<close>

definition get_values :: "arg_type \<Rightarrow> string list \<Rightarrow> parse_exit + pyval" where
  "get_values ty ss =
     (let ss' = remove1 ''--'' ss in
      if length ss' = 1 then get_value ty (hd ss')
      else ebind (traverse (get_value ty) ss') (\<lambda>vs. Inr (PList vs)))"

text \<open>
  \<open>take_action\<close>: the help action exits; a store action sets its attribute. The state is
  the namespace and the destinations of the actions seen so far.
\<close>

fun take_action ::
  "action \<Rightarrow> string list \<Rightarrow> namespace \<times> string list \<Rightarrow> parse_exit + (namespace \<times> string list)" where
  "take_action Help_action ss st = Inl Help_exit"
| "take_action (Store_action d ty v) ss (ns, seen) =
     ebind (get_values ty ss) (\<lambda>x. Inr (ns(d \<mapsto> x), seen @ [d]))"

fun take_actions ::
  "(action \<times> string list) list \<Rightarrow> namespace \<times> string list \<Rightarrow> parse_exit + (namespace \<times> string list)" where
  "take_actions [] st = Inr st"
| "take_actions ((a, ss) # ts) st = ebind (take_action a ss st) (take_actions ts)"

text \<open>
  \<open>consume_optional(start_index)\<close>: an unknown option goes to the extras; a known one runs
  its action tuples. The state is the namespace, the seen destinations and the extras.
\<close>

type_synonym parse_state = "namespace \<times> string list \<times> string list"

definition consume_optional ::
  "option_table \<Rightarrow> string list \<Rightarrow> pattern list \<Rightarrow> nat \<Rightarrow> parse_state \<Rightarrow> parse_exit + (nat \<times> parse_state)" where
  "consume_optional t xs ps i st =
     (case st of (ns, seen, ex) \<Rightarrow>
      case ps ! i of
        Pat_O (Some a) os e \<Rightarrow>
          ebind (consume_tuples t xs ps i a os e) (\<lambda>(ts, stop).
            ebind (take_actions ts (ns, seen)) (\<lambda>(ns', seen'). Inr (stop, ns', seen', ex)))
      | _ \<Rightarrow> Inr (Suc i, ns, seen, ex @ [xs ! i]))"

text \<open>The smallest option index at or after \<open>i\<close>, if any.\<close>

fun is_option :: "pattern \<Rightarrow> bool" where
  "is_option (Pat_O a os e) = True"
| "is_option Pat_A = False"
| "is_option Pat_dash = False"

definition next_option :: "pattern list \<Rightarrow> nat \<Rightarrow> nat option" where
  "next_option ps i = find (\<lambda>j. is_option (ps ! j)) [i..<length ps]"

lemma next_option_Some:
  "next_option ps i = Some j \<Longrightarrow> i \<le> j \<and> j < length ps \<and> is_option (ps ! j)"
  by (auto simp: next_option_def find_Some_iff)

lemma consume_tuples_stop:
  "consume_tuples t xs ps i a os e = Inr (ts, stop) \<Longrightarrow> i < stop"
proof (induction t xs ps i a os e arbitrary: ts stop rule: consume_tuples.induct)
  case (1 t xs ps i a os)
  then show ?case by (auto simp: ebind_eq_Inr)
next
  case (2 t xs ps i a os e)
  show ?case
  proof (cases "arg_count a = 0 \<and> os ! 1 \<noteq> CHR ''-'' \<and> e \<noteq> []")
    case True
    then obtain a' where m: "map_of t [os ! 0, hd e] = Some a'"
      using "2.prems" by (cases "map_of t [os ! 0, hd e]") simp_all
    then obtain ts' where "consume_tuples t xs ps i a' [os ! 0, hd e] (if tl e = [] then None else Some (tl e)) = Inr (ts', stop)"
      using "2.prems" True by (auto simp: ebind_eq_Inr)
    then show ?thesis using "2.IH" [OF True m] by blast
  next
    case False
    then show ?thesis using "2.prems" by (simp split: if_splits)
  qed
qed

lemma consume_optional_advances:
  assumes "consume_optional t xs ps i st = Inr (k, st')"
  shows "i < k"
proof -
  obtain ns seen ex where st: "st = (ns, seen, ex)" by (cases st)
  show ?thesis
  proof (cases "ps ! i")
    case (Pat_O a os e)
    show ?thesis
    proof (cases a)
      case None
      then show ?thesis using assms Pat_O st by (simp add: consume_optional_def)
    next
      case (Some b)
      then obtain ts where "consume_tuples t xs ps i b os e = Inr (ts, k)"
        using assms Pat_O st by (auto simp: consume_optional_def ebind_eq_Inr split: prod.splits)
      then show ?thesis by (rule consume_tuples_stop)
    qed
  qed (use assms st in \<open>simp_all add: consume_optional_def\<close>)
qed

text \<open>
  The \<open>while start_index <= max_option_string_index\<close> loop of \<open>_parse_known_args\<close>. The
  strings before the next option go to the extras (the parser has no positionals, so
  \<open>consume_positionals\<close> takes none of them), then that option is consumed. Every round
  moves \<open>start_index\<close> past an option, which bounds the number of rounds.
\<close>

function (domintros) parse_loop ::
  "option_table \<Rightarrow> string list \<Rightarrow> pattern list \<Rightarrow> nat \<Rightarrow> parse_state \<Rightarrow> parse_exit + (nat \<times> parse_state)" where
  "parse_loop t xs ps i st =
     (case next_option ps i of
        None \<Rightarrow> Inr (i, st)
      | Some j \<Rightarrow>
          (case st of (ns, seen, ex) \<Rightarrow>
           case consume_optional t xs ps j (ns, seen, ex @ drop i (take j xs)) of
             Inl x \<Rightarrow> Inl x
           | Inr (k, st') \<Rightarrow> parse_loop t xs ps k st'))"
  by pat_completeness auto
termination
proof (relation "measure (\<lambda>(t, xs, ps, i, st). length ps - i)", goal_cases)
  case (2 t xs ps i st j ns r seen ex r' k st')
  then have "i \<le> j" "j < length ps" "j < k"
    using next_option_Some [of ps i j] consume_optional_advances [of t xs ps j _ k st'] by auto
  then show ?case by simp
qed simp
declare parse_loop.simps [simp del]

text \<open>
  \<open>parse_known_args\<close>: every store action's default is put in the namespace first (the
  first action of a destination wins); after the loop the remaining strings are extras,
  and the string default of every action not seen is converted by its type (CPython
  compares the namespace value with the default by identity; with one action per
  destination that is the test below).
\<close>

fun set_default :: "string \<times> action \<Rightarrow> namespace \<Rightarrow> namespace" where
  "set_default (os, Store_action d ty v) ns = (if ns d = None then ns(d \<mapsto> v) else ns)"
| "set_default (os, Help_action) ns = ns"

definition defaults :: "option_table \<Rightarrow> namespace" where
  "defaults t = fold set_default t Map.empty"

fun convert_default :: "string list \<Rightarrow> string \<times> action \<Rightarrow> namespace \<Rightarrow> parse_exit + namespace" where
  "convert_default seen (os, Store_action d ty (PStr v)) ns =
     (if d \<notin> set seen \<and> ns d = Some (PStr v) then ebind (get_value ty v) (\<lambda>x. Inr (ns(d \<mapsto> x)))
      else Inr ns)"
| "convert_default seen (os, a) ns = Inr ns"

fun convert_defaults :: "string list \<Rightarrow> option_table \<Rightarrow> namespace \<Rightarrow> parse_exit + namespace" where
  "convert_defaults seen [] ns = Inr ns"
| "convert_defaults seen (p # t) ns = ebind (convert_default seen p ns) (convert_defaults seen t)"

definition parse_known_args :: "option_table \<Rightarrow> string list \<Rightarrow> parse_exit + (namespace \<times> string list)" where
  "parse_known_args t xs =
     ebind (classify t xs) (\<lambda>ps.
       case parse_loop t xs ps 0 (defaults t, [], []) of
         Inl x \<Rightarrow> Inl x
       | Inr (i, ns, seen, ex) \<Rightarrow> ebind (convert_defaults seen t ns) (\<lambda>ns'. Inr (ns', ex @ drop i xs)))"

text \<open>\<open>parse_args\<close>: extras are an error.\<close>

definition parse_args :: "option_table \<Rightarrow> string list \<Rightarrow> parse_exit + namespace" where
  "parse_args t xs =
     ebind (parse_known_args t xs) (\<lambda>(ns, ex).
       if ex = [] then Inr ns else Inl (Usage_error (Unrecognized_arguments ex)))"

section \<open>Evaluation rules\<close>

text \<open>Rules that run the parser on command lines with symbolic values.\<close>

lemma next_option_here: "i < length ps \<Longrightarrow> is_option (ps ! i) \<Longrightarrow> next_option ps i = Some i"
  by (simp add: next_option_def upt_conv_Cons)

lemma next_option_None: "length ps \<le> i \<Longrightarrow> next_option ps i = None"
  by (simp add: next_option_def)

lemma parse_loop_done: "length ps \<le> i \<Longrightarrow> parse_loop t xs ps i st = Inr (i, st)"
  by (simp add: parse_loop.simps next_option_None)

lemma get_values_single: "s \<noteq> ''--'' \<Longrightarrow> get_values ty [s] = get_value ty s"
  by (simp add: get_values_def)

lemma parse_loop_at:
  assumes "i < length ps" "is_option (ps ! i)"
  shows "parse_loop t xs ps i (ns, seen, ex) =
    (case consume_optional t xs ps i (ns, seen, ex) of Inl x \<Rightarrow> Inl x | Inr (k, st') \<Rightarrow> parse_loop t xs ps k st')"
  using assms by (subst parse_loop.simps) (simp add: next_option_here)

lemma is_digit_not:
  "is_digit c \<Longrightarrow> c \<noteq> CHR ''-'' \<and> c \<noteq> CHR ''h'' \<and> c \<noteq> CHR ''='' \<and> c \<noteq> CHR '' '' \<and> c \<noteq> CHR ''.''"
  by (auto simp: is_digit_def)

lemma string_of_int_cases:
  obtains c cs where "string_of_int i = c # cs" "is_digit c" "\<forall>x \<in> set cs. is_digit x" "0 \<le> i"
  | c cs where "string_of_int i = CHR ''-'' # c # cs" "is_digit c" "\<forall>x \<in> set cs. is_digit x" "i < 0"
proof (cases "i < 0")
  case True
  obtain c cs where "string_of_nat (nat (- i)) = c # cs" by (rule string_of_nat_Cons)
  then show ?thesis
    using True that(2) string_of_nat_chars [of _ "nat (- i)"] by (simp add: string_of_int_def)
next
  case False
  obtain c cs where "string_of_nat (nat i) = c # cs" by (rule string_of_nat_Cons)
  then show ?thesis
    using False that(1) string_of_nat_chars [of _ "nat i"] by (simp add: string_of_int_def)
qed

lemma string_of_int_not_dashdash: "string_of_int i \<noteq> ''--''"
  by (cases i rule: string_of_int_cases) (auto dest: is_digit_not)

lemma neg_int_body: "is_digit c \<Longrightarrow> \<forall>x \<in> set cs. is_digit x \<Longrightarrow> is_neg_number (CHR ''-'' # c # cs)"
  by (simp add: is_neg_number_def neg_number_body_def)

lemma explicit_option_no_eq: "CHR ''='' \<notin> set s \<Longrightarrow> explicit_option t s = None"
  by (simp add: explicit_option_def split_eq_def)

lemma parse_optional_value: "\<not> startswith s ''-'' \<Longrightarrow> parse_optional t s = Inr Pat_A"
  by (cases s) (simp_all add: parse_optional_def)

lemma not_startswith_dash: "\<not> startswith s ''-'' \<Longrightarrow> s \<noteq> ''--''"
  by auto

lemma parse_optional_exact:
  "map_of t s = Some a \<Longrightarrow> startswith s ''-'' \<Longrightarrow> parse_optional t s = Inr (Pat_O (Some a) s None)"
  by (cases s) (simp_all add: parse_optional_def)

section \<open>What parse_args returns\<close>

lemma take_action_dom:
  "take_action a ss (ns, seen) = Inr (ns', seen') \<Longrightarrow> dom ns \<subseteq> dom ns'"
  by (cases a) (auto simp: ebind_eq_Inr)

lemma take_actions_dom:
  "take_actions ts (ns, seen) = Inr (ns', seen') \<Longrightarrow> dom ns \<subseteq> dom ns'"
proof (induction ts arbitrary: ns seen)
  case (Cons p ts)
  obtain a ss where p: "p = (a, ss)" by (cases p)
  then obtain ns1 seen1 where "take_action a ss (ns, seen) = Inr (ns1, seen1)"
    and "take_actions ts (ns1, seen1) = Inr (ns', seen')"
    using Cons.prems by (auto simp: ebind_eq_Inr)
  then show ?case using take_action_dom Cons.IH by blast
qed simp

lemma consume_optional_dom:
  "consume_optional t xs ps i (ns, seen, ex) = Inr (k, ns', seen', ex') \<Longrightarrow> dom ns \<subseteq> dom ns'"
  by (auto simp: consume_optional_def ebind_eq_Inr split: pattern.splits option.splits prod.splits
           dest: take_actions_dom)

lemma parse_loop_keeps_dom:
  "parse_loop t xs ps i (ns, seen, ex) = Inr (k, ns', seen', ex') \<Longrightarrow> dom ns \<subseteq> dom ns'"
proof (induction t xs ps i "(ns, seen, ex)" arbitrary: ns seen ex rule: parse_loop.induct)
  case (1 t xs ps i ns seen ex)
  show ?case
  proof (cases "next_option ps i")
    case None
    then show ?thesis using "1.prems" by (simp add: parse_loop.simps)
  next
    case (Some j)
    then obtain k1 ns1 seen1 ex1 where
      c: "consume_optional t xs ps j (ns, seen, ex @ drop i (take j xs)) = Inr (k1, ns1, seen1, ex1)"
      and r: "parse_loop t xs ps k1 (ns1, seen1, ex1) = Inr (k, ns', seen', ex')"
      using "1.prems" by (auto simp: parse_loop.simps split: sum.splits)
    have "dom ns \<subseteq> dom ns1" using c by (rule consume_optional_dom)
    also have "dom ns1 \<subseteq> dom ns'" using 1(1) [OF Some _ _ c] r by simp
    finally show ?thesis .
  qed
qed

lemma set_default_dom: "dom ns \<subseteq> dom (set_default p ns)"
  by (cases "(p, ns)" rule: set_default.cases) auto

lemma fold_set_default_dom:
  "d \<in> dom ns \<or> (\<exists>os ty v. (os, Store_action d ty v) \<in> set t) \<Longrightarrow> d \<in> dom (fold set_default t ns)"
proof (induction t arbitrary: ns)
  case (Cons p t)
  have "d \<in> dom (set_default p ns) \<or> (\<exists>os ty v. (os, Store_action d ty v) \<in> set t)"
  proof (cases "\<exists>os ty v. (os, Store_action d ty v) \<in> set t")
    case False
    then have "d \<in> dom ns \<or> (\<exists>os ty v. p = (os, Store_action d ty v))" using Cons.prems by auto
    then show ?thesis using set_default_dom [of ns p] by auto
  qed simp
  then show ?case using Cons.IH by simp
qed simp

lemma defaults_dom:
  "(os, Store_action d ty v) \<in> set t \<Longrightarrow> d \<in> dom (defaults t)"
  unfolding defaults_def by (rule fold_set_default_dom) blast

lemma convert_default_dom:
  "convert_default seen p ns = Inr ns' \<Longrightarrow> dom ns \<subseteq> dom ns'"
  by (induction seen p ns rule: convert_default.induct) (auto simp: ebind_eq_Inr split: if_splits)

lemma convert_defaults_dom:
  "convert_defaults seen t ns = Inr ns' \<Longrightarrow> dom ns \<subseteq> dom ns'"
proof (induction t arbitrary: ns)
  case (Cons p t)
  then obtain ns1 where c: "convert_default seen p ns = Inr ns1" and r: "convert_defaults seen t ns1 = Inr ns'"
    by (auto simp: ebind_eq_Inr)
  then show ?case using convert_default_dom [OF c] Cons.IH [OF r] by blast
qed simp

lemma parse_known_args_InrE:
  assumes "parse_known_args t xs = Inr (ns, rest)"
  obtains ps k ns1 seen ex where "classify t xs = Inr ps"
    and "parse_loop t xs ps 0 (defaults t, [], []) = Inr (k, ns1, seen, ex)"
    and "convert_defaults seen t ns1 = Inr ns" and "rest = ex @ drop k xs"
proof -
  obtain ps where c: "classify t xs = Inr ps"
    and l: "(case parse_loop t xs ps 0 (defaults t, [], []) of
               Inl x \<Rightarrow> Inl x
             | Inr (i, ns, seen, ex) \<Rightarrow> ebind (convert_defaults seen t ns) (\<lambda>ns'. Inr (ns', ex @ drop i xs))) =
            Inr (ns, rest)"
    using assms by (auto simp: parse_known_args_def ebind_eq_Inr)
  then obtain k ns1 seen ex where "parse_loop t xs ps 0 (defaults t, [], []) = Inr (k, ns1, seen, ex)"
    and "ebind (convert_defaults seen t ns1) (\<lambda>ns'. Inr (ns', ex @ drop k xs)) = Inr (ns, rest)"
    by (auto split: sum.splits)
  then show ?thesis using c that by (auto simp: ebind_eq_Inr)
qed

lemma parse_args_Inr:
  "parse_args t xs = Inr ns \<longleftrightarrow> parse_known_args t xs = Inr (ns, [])"
  by (auto simp: parse_args_def ebind_eq_Inr split: if_splits)

lemma parse_args_dom_defaults:
  assumes "parse_args t xs = Inr ns"
  shows "dom (defaults t) \<subseteq> dom ns"
proof -
  obtain ps k ns1 seen ex where
    "parse_loop t xs ps 0 (defaults t, [], []) = Inr (k, ns1, seen, ex)"
    and "convert_defaults seen t ns1 = Inr ns"
    using assms by (auto simp: parse_args_Inr elim: parse_known_args_InrE)
  then show ?thesis
    using parse_loop_keeps_dom convert_defaults_dom by blast
qed

lemma classify_Inl: "classify t xs = Inl x \<Longrightarrow> \<exists>s ss. x = Usage_error (Ambiguous_option s ss)"
proof (induction xs)
  case (Cons y ys)
  then show ?case
    by (auto simp: parse_optional_def ebind_def split: if_splits option.splits list.splits sum.splits)
qed simp

end
