(* ===== verification/Benchmark.thy ===== *)
theory Benchmark
  imports Argparse
begin

text \<open>
  The benchmark launcher \<open>src/benchmark_marl.py\<close>: \<open>parse_args()\<close> builds a parser with six
  options and parses \<open>sys.argv[1:]\<close>; the main block passes the method, environment,
  environment id, the whole namespace and the test flag to \<open>xuance.get_runner\<close> and calls
  the runner's \<open>benchmark()\<close>. The runner belongs to the xuance package outside this
  repository: the model ends at the call it receives.
\<close>

section \<open>The parser\<close>

text \<open>The \<open>add_argument\<close> calls of \<open>parse_args\<close>, in order: option string, type and default.\<close>

definition bench_options :: "(string \<times> arg_type \<times> pyval) list" where
  "bench_options =
     [(''--method'', Str_type, PStr ''mappo''),
      (''--env'', Str_type, PStr ''football''),
      (''--env-id'', Str_type, PStr ''1v1''),
      (''--seed'', Int_type, PInt 2),
      (''--test'', Int_type, PInt 0),
      (''--device'', Str_type, PStr ''cuda:0'')]"

fun add_arguments :: "option_table \<Rightarrow> (string \<times> arg_type \<times> pyval) list \<Rightarrow> error + option_table" where
  "add_arguments t [] = Inr t"
| "add_arguments t ((s, ty, d) # os) = ebind (add_argument t s ty d) (\<lambda>t'. add_arguments t' os)"

definition bench_parser :: "error + option_table" where
  "bench_parser = add_arguments parser_init bench_options"

text \<open>
  \<open>parse_args()\<close> of the script: build the parser (an \<open>add_argument\<close> error propagates) and
  parse the command line, which ends the process with \<open>SystemExit\<close> or gives the namespace.
\<close>

definition bench_parse_args :: "string list \<Rightarrow> error + (parse_exit + namespace)" where
  "bench_parse_args argv = ebind bench_parser (\<lambda>t. Inr (parse_args t argv))"

section \<open>The main block\<close>

text \<open>The keyword arguments of \<open>get_runner(...)\<close>.\<close>

record runner_call =
  rc_method :: pyval
  rc_env :: pyval
  rc_env_id :: pyval
  rc_parser_args :: namespace
  rc_is_test :: pyval

text \<open>
  How the process ends: \<open>SystemExit\<close> with a status (help or a usage error), an uncaught
  exception, or the runner's \<open>benchmark()\<close> started with the given call.
\<close>

datatype launch = Sys_exit nat | Uncaught error | Benchmark runner_call

text \<open>\<open>getattr(namespace, name)\<close>.\<close>

definition getattr :: "namespace \<Rightarrow> string \<Rightarrow> error + pyval" where
  "getattr ns d = (case ns d of None \<Rightarrow> Inl Attribute_error | Some v \<Rightarrow> Inr v)"

definition get_runner_call :: "namespace \<Rightarrow> error + runner_call" where
  "get_runner_call ns =
     ebind (getattr ns ''method'') (\<lambda>m.
     ebind (getattr ns ''env'') (\<lambda>e.
     ebind (getattr ns ''env_id'') (\<lambda>i.
     ebind (getattr ns ''test'') (\<lambda>tst.
       Inr \<lparr>rc_method = m, rc_env = e, rc_env_id = i, rc_parser_args = ns, rc_is_test = tst\<rparr>))))"

definition benchmark_main :: "string list \<Rightarrow> launch" where
  "benchmark_main argv =
     (case bench_parse_args argv of
        Inl e \<Rightarrow> Uncaught e
      | Inr (Inl x) \<Rightarrow> Sys_exit (exit_status x)
      | Inr (Inr ns) \<Rightarrow> (case get_runner_call ns of Inl e \<Rightarrow> Uncaught e | Inr c \<Rightarrow> Benchmark c))"

section \<open>Evaluation of the parser\<close>

abbreviation bench_table :: option_table where
  "bench_table \<equiv>
     [(''-h'', Help_action), (''--help'', Help_action),
      (''--method'', Store_action ''method'' Str_type (PStr ''mappo'')),
      (''--env'', Store_action ''env'' Str_type (PStr ''football'')),
      (''--env-id'', Store_action ''env_id'' Str_type (PStr ''1v1'')),
      (''--seed'', Store_action ''seed'' Int_type (PInt 2)),
      (''--test'', Store_action ''test'' Int_type (PInt 0)),
      (''--device'', Store_action ''device'' Str_type (PStr ''cuda:0''))]"

lemma bench_parser_table: "bench_parser = Inr bench_table"
  by (simp add: bench_parser_def bench_options_def parser_init_def add_argument_def dest_of_def)

lemma bench_no_neg: "\<not> has_neg_number_optionals bench_table"
  by (simp add: has_neg_number_optionals_def is_neg_number_def neg_number_body_def is_digit_def)

lemma option_tuples_neg:
  assumes "is_digit c"
  shows "option_tuples bench_table (CHR ''-'' # c # cs) = []"
proof -
  have "CHR ''-'' \<noteq> c" "CHR ''h'' \<noteq> c" using is_digit_not [OF assms] by auto
  then show ?thesis by (simp add: option_tuples_def)
qed

lemma parse_optional_int: "parse_optional bench_table (string_of_int i) = Inr Pat_A"
proof (cases i rule: string_of_int_cases)
  case (1 c cs)
  then show ?thesis using is_digit_not [of c] by (simp add: parse_optional_def)
next
  case (2 c cs)
  have "CHR ''='' \<notin> set (CHR ''-'' # c # cs)" using 2 is_digit_not by fastforce
  moreover have "CHR ''-'' \<noteq> c" "CHR ''h'' \<noteq> c" using is_digit_not [OF 2(2)] by auto
  ultimately show ?thesis
    using 2 bench_no_neg neg_int_body [of c cs] option_tuples_neg [of c cs]
    by (simp add: parse_optional_def explicit_option_no_eq)
qed

lemma bench_parse_args_table: "bench_parse_args argv = Inr (parse_args bench_table argv)"
  by (simp add: bench_parse_args_def bench_parser_table)

lemma bench_defaults:
  "defaults bench_table = [''method'' \<mapsto> PStr ''mappo'', ''env'' \<mapsto> PStr ''football'',
     ''env_id'' \<mapsto> PStr ''1v1'', ''seed'' \<mapsto> PInt 2, ''test'' \<mapsto> PInt 0, ''device'' \<mapsto> PStr ''cuda:0'']"
  by (simp add: defaults_def)

section \<open>Properties of the launcher\<close>

text \<open>
  C25: every configuration survives the \<open>--option=value\<close> command line: the namespace holds
  exactly the six given values, for any strings other than \<open>--\<close> and any integers of
  at most 4300 digits (\<open>int()\<close> rejects longer ones).
\<close>

theorem bench_roundtrip_explicit:
  assumes "m \<noteq> ''--''" "e \<noteq> ''--''" "i \<noteq> ''--''" "d \<noteq> ''--''"
    and "\<bar>s\<bar> < 10 ^ max_str_digits" "\<bar>x\<bar> < 10 ^ max_str_digits"
  shows "bench_parse_args
     [''--method='' @ m, ''--env='' @ e, ''--env-id='' @ i, ''--seed='' @ string_of_int s,
      ''--test='' @ string_of_int x, ''--device='' @ d] =
   Inr (Inr [''method'' \<mapsto> PStr m, ''env'' \<mapsto> PStr e, ''env_id'' \<mapsto> PStr i, ''seed'' \<mapsto> PInt s,
        ''test'' \<mapsto> PInt x, ''device'' \<mapsto> PStr d])"
  using assms string_of_int_not_dashdash [of s] string_of_int_not_dashdash [of x]
  by (simp add: bench_parse_args_table parse_args_def parse_known_args_def parse_optional_def
                explicit_option_def split_eq_def defaults_def parse_loop_at consume_optional_def
                get_values_single py_int_string_of_int parse_loop_done)

text \<open>
  C26: every configuration survives the \<open>--option value\<close> command line when no string
  value starts with a dash and the integers have at most 4300 digits; negative integers are read as values, not options, since no
  option string looks like a negative number.
\<close>

theorem bench_roundtrip_separate:
  assumes "\<not> startswith m ''-''" "\<not> startswith e ''-''" "\<not> startswith i ''-''" "\<not> startswith d ''-''"
    and "\<bar>s\<bar> < 10 ^ max_str_digits" "\<bar>x\<bar> < 10 ^ max_str_digits"
  shows "bench_parse_args
     [''--method'', m, ''--env'', e, ''--env-id'', i, ''--seed'', string_of_int s,
      ''--test'', string_of_int x, ''--device'', d] =
   Inr (Inr [''method'' \<mapsto> PStr m, ''env'' \<mapsto> PStr e, ''env_id'' \<mapsto> PStr i, ''seed'' \<mapsto> PInt s,
        ''test'' \<mapsto> PInt x, ''device'' \<mapsto> PStr d])"
  using assms not_startswith_dash [OF assms(1)] not_startswith_dash [OF assms(2)]
    not_startswith_dash [OF assms(3)] not_startswith_dash [OF assms(4)]
    string_of_int_not_dashdash [of s] string_of_int_not_dashdash [of x]
  by (simp add: bench_parse_args_table parse_args_def parse_known_args_def parse_optional_value
                parse_optional_int parse_optional_exact defaults_def parse_loop_at consume_optional_def
                match_argument_def get_values_single py_int_string_of_int parse_loop_done)

text \<open>
  C28: a value of \<open>--seed\<close> or \<open>--test\<close> that \<open>int()\<close> rejects ends the process with
  status 2, whatever follows it (a later \<open>-h\<close> included).
\<close>

theorem bench_invalid_int_exits:
  assumes "s = ''--seed'' \<or> s = ''--test''" and "\<not> startswith v ''-''" and "py_int v = Inl err"
  shows "benchmark_main (s # v # rest) = Sys_exit 2"
proof (cases "classify bench_table rest")
  case (Inl x)
  then obtain a b where "x = Usage_error (Ambiguous_option a b)" using classify_Inl by blast
  then show ?thesis
    using assms Inl
    by (auto simp: benchmark_main_def bench_parse_args_table parse_args_def parse_known_args_def
                   parse_optional_exact parse_optional_value)
next
  case (Inr ps)
  show ?thesis
    using assms Inr not_startswith_dash [OF assms(2)]
    by (auto simp: benchmark_main_def bench_parse_args_table parse_args_def parse_known_args_def
                   parse_optional_exact parse_optional_value parse_loop_at consume_optional_def
                   match_argument_def get_values_single)
qed

text \<open>
  C29: \<open>-h\<close> first on the command line prints the help and exits with status 0, unless a
  later string is an ambiguous abbreviation, which is rejected before any action runs.
\<close>

theorem bench_help_first:
  "bench_parse_args (''-h'' # rest) = Inr (Inl Help_exit) \<or>
   (\<exists>s ss. bench_parse_args (''-h'' # rest) = Inr (Inl (Usage_error (Ambiguous_option s ss))))"
proof (cases "classify bench_table rest")
  case (Inl x)
  then show ?thesis
    using classify_Inl [OF Inl]
    by (auto simp: bench_parse_args_table parse_args_def parse_known_args_def parse_optional_exact)
next
  case (Inr ps)
  then show ?thesis
    by (simp add: bench_parse_args_table parse_args_def parse_known_args_def parse_optional_exact
                  parse_loop_at consume_optional_def match_argument_def)
qed

text \<open>
  C27: the launcher never dies with an uncaught exception: either parsing ends the process
  with its exit status, or \<open>get_runner\<close> receives the parsed method, environment, id and
  test flag with the whole namespace.
\<close>

theorem benchmark_main_outcome:
  "(\<exists>x. bench_parse_args argv = Inr (Inl x) \<and> benchmark_main argv = Sys_exit (exit_status x)) \<or>
   (\<exists>ns m e i tst. bench_parse_args argv = Inr (Inr ns) \<and>
      ns ''method'' = Some m \<and> ns ''env'' = Some e \<and> ns ''env_id'' = Some i \<and> ns ''test'' = Some tst \<and>
      benchmark_main argv =
        Benchmark \<lparr>rc_method = m, rc_env = e, rc_env_id = i, rc_parser_args = ns, rc_is_test = tst\<rparr>)"
proof (cases "parse_args bench_table argv")
  case (Inl x)
  then show ?thesis by (simp add: benchmark_main_def bench_parse_args_table)
next
  case (Inr ns)
  have "dom (defaults bench_table) \<subseteq> dom ns" using Inr by (rule parse_args_dom_defaults)
  then obtain m e i tst where "ns ''method'' = Some m" "ns ''env'' = Some e" "ns ''env_id'' = Some i"
    "ns ''test'' = Some tst"
    by (auto simp: bench_defaults)
  then show ?thesis
    using Inr by (simp add: benchmark_main_def bench_parse_args_table get_runner_call_def getattr_def)
qed

section \<open>The properties at concrete command lines\<close>

theorem bench_roundtrip_explicit_witness:
  "''qmix'' \<noteq> ''--'' \<and> ''mpe'' \<noteq> ''--'' \<and> ''simple_spread_v3'' \<noteq> ''--'' \<and> ''cpu'' \<noteq> ''--'' \<and>
   \<bar>-7 :: int\<bar> < 10 ^ max_str_digits \<and> \<bar>1 :: int\<bar> < 10 ^ max_str_digits \<and>
   bench_parse_args
     [''--method=qmix'', ''--env=mpe'', ''--env-id=simple_spread_v3'', ''--seed='' @ string_of_int (-7),
      ''--test='' @ string_of_int 1, ''--device=cpu''] =
   Inr (Inr [''method'' \<mapsto> PStr ''qmix'', ''env'' \<mapsto> PStr ''mpe'', ''env_id'' \<mapsto> PStr ''simple_spread_v3'',
        ''seed'' \<mapsto> PInt (-7), ''test'' \<mapsto> PInt 1, ''device'' \<mapsto> PStr ''cpu''])"
  using bench_roundtrip_explicit [of "''qmix''" "''mpe''" "''simple_spread_v3''" "''cpu''" "-7" 1] by simp

theorem bench_roundtrip_separate_witness:
  "\<not> startswith ''qmix'' ''-'' \<and> \<not> startswith ''mpe'' ''-'' \<and> \<not> startswith ''simple_spread_v3'' ''-'' \<and>
   \<not> startswith ''cpu'' ''-'' \<and>
   \<bar>-7 :: int\<bar> < 10 ^ max_str_digits \<and> \<bar>1 :: int\<bar> < 10 ^ max_str_digits \<and>
   bench_parse_args
     [''--method'', ''qmix'', ''--env'', ''mpe'', ''--env-id'', ''simple_spread_v3'', ''--seed'', string_of_int (-7),
      ''--test'', string_of_int 1, ''--device'', ''cpu''] =
   Inr (Inr [''method'' \<mapsto> PStr ''qmix'', ''env'' \<mapsto> PStr ''mpe'', ''env_id'' \<mapsto> PStr ''simple_spread_v3'',
        ''seed'' \<mapsto> PInt (-7), ''test'' \<mapsto> PInt 1, ''device'' \<mapsto> PStr ''cpu''])"
  using bench_roundtrip_separate [of "''qmix''" "''mpe''" "''simple_spread_v3''" "''cpu''" "-7" 1] by simp

theorem bench_invalid_int_exits_witness:
  "\<not> startswith ''abc'' ''-'' \<and> py_int ''abc'' = Inl Value_error \<and>
   benchmark_main [''--seed'', ''abc'', ''-h''] = Sys_exit 2"
proof -
  have "py_int ''abc'' = Inl Value_error"
    by (simp add: py_int_def transform_decimal_and_space_def strip_def is_space_def
                  parse_unsigned_def is_digit_def)
  then show ?thesis
    using bench_invalid_int_exits [of "''--seed''" "''abc''" Value_error "[''-h'']"] by simp
qed

end
