(* ===== verification/Spec2Isabelle.thy ===== *)
theory Spec2Isabelle
  imports DDQN PerDQN DRQN Benchmark
begin

text \<open>
  A shallow embedding in Isabelle/HOL of the Q-learning learners of xuance
  (src/xuance/torch/learners/qlearning_family): \<open>DDQN_Learner\<close> (ddqn_learner.py),
  \<open>DRQN_Learner\<close> (drqn_learner.py) and \<open>PerDQN_Learner\<close> (perdqn_learner.py), and of
  the parts of torch, of Python and of the policy networks their \<open>update\<close> methods rely on;
  and of the benchmark launcher src/benchmark_marl.py with the part of Python's argparse
  its command line goes through.

  \<^bold>\<open>The program.\<close> Each learner holds a policy with an online and a target parameter
  set, an Adam optimizer with a \<open>LinearLR\<close> schedule, and an iteration counter. One call
  of \<open>update\<close> increments the counter, evaluates the online network on the current
  observations and the target network on the next ones, forms the TD target
  \<open>r + gamma * (1 - done) * v\<close>, regresses the online value of the taken action on it by
  mean squared error, clips the gradient if configured, steps the optimizer and the
  schedule, copies the online parameters to the target ones every \<open>sync_frequency\<close>
  updates, and returns a dict of statistics, rank-suffixed under distributed training.
  DDQN takes \<open>v\<close> at the target network's own greedy action, PerDQN takes the plain
  maximum, first keeps this worker's slice of the batch and returns the absolute TD
  errors as well, and DRQN runs a recurrent network from a fresh initial state along
  observation sequences and does all of this at every step. The launcher
  benchmark_marl.py parses six options (\<open>parse_args\<close>) and hands method, environment,
  environment id, test flag and the namespace to \<open>get_runner\<close>, whose runner's
  \<open>benchmark()\<close> trains with the learners.

  \<^bold>\<open>The theories.\<close>
  \<^item> \<open>Prelude\<close>: the error type (one constructor per exception the code can raise:
    shape mismatch, class out of range, empty reduction, ZeroDivisionError, KeyError,
    ValueError, IndexError, AttributeError, argparse's ArgumentError, a recurrent layer
    given a sequence of no step), the result type \<open>(error \<times> state) + (value \<times> state)\<close> of a
    method that may raise after mutating \<open>self\<close>, the fallible traversal, torch
    broadcasting of element-wise operators on a dimension (\<open>bcast\<close>), and the mean with
    NaN (an empty tensor) as \<open>None\<close>.
  \<^item> \<open>Tensor_Ops\<close>: one-hot, one-hot masking and summation, argmax and max over the last
    dimension, the TD target and the MSE loss on \<open>[B]\<close> and \<open>[B, A]\<close> tensors; their values
    on well-shaped input, and the fact that masking with the one-hot of the argmax is
    the maximum (\<open>select_argmax_eq_max_last\<close>).
  \<^item> \<open>Seq_Tensor\<close>: the same on \<open>[B, T]\<close> and \<open>[B, T, A]\<close> tensors (broadcasting on each
    dimension) and the slices \<open>x[0:-1]\<close> and \<open>x[1:]\<close> of drqn_learner.py.
  \<^item> \<open>Optim\<close>: torch's \<open>LinearLR(start_factor=1, end_factor=0, total_iters=T)\<close>, as its
    recursive \<open>get_lr\<close>, proved equal to the closed form \<open>base * (T - min k T) / T\<close>; and
    \<open>clip_grad_norm_\<close> with its \<open>1e-6\<close>, proved to bound the norm. The generic theorems take
    the optimizer step as the \<open>opt_step\<close> parameter, so they hold for every optimizer.
  \<^item> \<open>Adam\<close>: the optimizer the constructors build, \<open>torch.optim.Adam\<close> with default betas
    \<open>(0.9, 0.999)\<close> and \<open>eps=1e-5\<close>, after torch's single-tensor step (moment updates, bias
    corrections, \<open>addcdiv_\<close>) on a flat parameter tensor (\<open>learner_adam\<close>); its first step
    from a fresh state in closed form, \<open>p - lr * g / (|g| + eps)\<close>, and the bound that it
    moves each parameter by at most the rate.
  \<^item> \<open>Py_Int\<close>: Python's \<open>str(int)\<close> and CPython 3.11's \<open>int(str)\<close> (the mapping of
    Unicode whitespace to spaces in a non-ASCII string, sign, surrounding whitespace,
    underscores between digits, the default limit of 4300 digits), with
    \<open>int(str(i)) = i\<close> for every \<open>i\<close> of at most 4300 digits; they build the
    rank-suffixed keys and read the \<open>RANK\<close> environment variable.
  \<^item> \<open>Learner\<close>: the configuration and state records (\<open>self.iterations\<close>, the two
    parameter sets, the optimizer state, the current learning rate and the scheduler's
    \<open>last_epoch\<close>), the constructor, the counter increment and the shared tail
    \<open>optimize_and_sync\<close> (zero_grad, backward, clip, step, scheduler step, sync test), the
    statistics dict; training runs as the inductive set \<open>trained\<close> (the constructor, then
    successful updates in sequence) and their invariant \<open>learner_inv\<close>, proved by rule
    induction once for every learner whose step ends with the tail.
  \<^item> \<open>Policy\<close> and \<open>Recurrent\<close>: the policy interfaces (the policies are outside the
    repository and are modelled from the contract the learners use): values per action
    of an observation, the greedy action, \<open>init_hidden\<close> and a recurrent cell run along a
    sequence (\<open>rscan\<close>, proved causal), and the gradient of the loss; like torch's
    recurrent layers, the recurrent forward pass raises on a hidden state of the wrong
    batch size and on a sequence of no step.
  \<^item> \<open>Examples\<close>: a one-parameter network, a counting gradient-descent optimizer, the
    batch of the specification's scenario, and two configurations.
  \<^item> \<open>DDQN\<close>, \<open>PerDQN\<close>, \<open>DRQN\<close>: the three constructors (\<open>ddqn_learner_init\<close>,
    \<open>perdqn_learner_init\<close>, \<open>drqn_learner_init\<close>: the base constructor with a fresh Adam
    state and the scheduler) and the three \<open>update\<close> methods in full
    (\<open>ddqn_update\<close>, \<open>perdqn_update\<close> with \<open>build_training_data\<close>, \<open>drqn_update\<close>), each a
    function from the learner state and the sample to the statistics and the new state
    or to the error and the state at the raise, and the step relation of a run.
  \<^item> \<open>Argparse\<close>: CPython 3.11's \<open>ArgumentParser\<close> for parsers whose options store one
    value of type \<open>str\<close> or \<open>int\<close> (and \<open>-h\<close>): \<open>add_argument\<close>, the classification of each
    command-line string (\<open>_parse_optional\<close>: exact option, \<open>option=value\<close>, unique-prefix
    abbreviation, negative numbers, \<open>--\<close>, clusters of one-letter flags), the
    \<open>while\<close> loop of \<open>_parse_known_args\<close> as \<open>parse_loop\<close> (a \<open>function\<close> whose termination is
    proved by the measure \<open>length - start_index\<close>), \<open>_get_values\<close> with the type conversion
    (\<open>int\<close> is \<open>Py_Int.py_int\<close>), defaults, extras, and the exits: status 0 after the help,
    status 2 with the message of \<open>parser.error\<close>.
  \<^item> \<open>Benchmark\<close>: the six \<open>add_argument\<close> calls of benchmark_marl.py (\<open>bench_options\<close>,
    \<open>bench_parser\<close>), its \<open>parse_args()\<close> (\<open>bench_parse_args\<close>) and its main block up to
    the \<open>get_runner(...)\<close> call it makes (\<open>benchmark_main\<close>, with \<open>runner_call\<close> the keyword
    arguments); the evaluation rules that run the parser on symbolic command lines.
  \<^item> This theory: the theorem that the DDQN learner's target is PerDQN's plain maximum
    target, not the Double DQN rule of the paper ddqn_learner.py cites; the contract
    of the shared bookkeeping and the refinement of it by the three learners; the
    properties of runs of any learner whose step ends with the shared tail (finite runs
    are \<open>run_path\<close> of \<open>Learner\<close>).

  \<^bold>\<open>What the claims show.\<close> The TD targets are right at terminal and non-terminal
  transitions (C1, C2) and at every step of a recurrent sequence, with the online and
  target networks reading the right observations from a fresh initial state (C14); the
  target network equals the online one on multiples of \<open>sync_frequency\<close> along every
  run of DDQN and DRQN (C3, C15), and all three learners refine the base class's
  contract \<open>sync_contract\<close>: the counter advances by one and the target network changes
  only at a sync (C21); along every run, every \<open>sync_frequency\<close> consecutive updates
  include a sync (C24, liveness). The per-rank slices of PerDQN tile the batch and a
  worker reading \<open>RANK\<close> gets its slice (C4, C6), a missing \<open>RANK\<close> raises KeyError (C23)
  and a \<open>RANK\<close> of -1 silently duplicates the last slice (C22); PerDQN returns one
  non-negative TD error per sample with the loss their mean square (C5), and under
  several workers the TD errors of its slice only (C19). The reported learning rate
  follows the linear schedule (C7, C9) and clipping bounds the norm of the gradient the
  optimizer steps with (C10, C18); rank-suffixed keys never collide (C11); a one-entry
  rewards tensor is broadcast, not rejected (C20); the errors of a zero
  \<open>sync_frequency\<close>, an action out of range, a mismatched \<open>batch_size\<close> and sequences of
  at most one observation are what the code does, including the state it leaves (C8,
  C12, C16, C17); and DDQN's target is the plain maximum target, not the Double DQN one
  it cites (C13). For the launcher: every configuration passes through the command line
  unchanged in the \<open>--option=value\<close> form for values other than \<open>--\<close> (C25) and in the
  \<open>--option value\<close> form for values not starting with a dash, negative integers included
  (C26), as long as the integers have at most 4300 digits; the launcher never dies with
  an uncaught exception and passes the parsed values on (C27); a bad integer exits with
  status 2 whatever follows (C28); a leading \<open>-h\<close> wins over later errors except
  ambiguous abbreviations (C29). Composing a constructor, an update and Adam: the first
  update of a DDQN learner moves every parameter by at most the configured learning
  rate (C30; the same lemma is proved for PerDQN and DRQN).

  \<^bold>\<open>Choices.\<close> Tensors are lists (a batch of rows), numbers are reals: the theorems
  are about the arithmetic the code specifies, not about IEEE rounding, and NaN appears
  only where torch produces it from an empty tensor. Every recursion of the learners is
  structural (lists, the scheduler's step count), so no fuel or bound is needed. The one
  loop that is not, argparse's index loop over the command line, is a \<open>function\<close> with
  a measure; the explicit-argument loop of \<open>consume_optional\<close> shortens its string each
  round. The networks and autograd are interfaces the claims quantify over, and so is the
  optimizer except where a claim names Adam.
  Strings are lists of HOL characters, each a Unicode code point below 256 (ASCII and
  Latin-1, which is what \<open>int()\<close>'s whitespace rule distinguishes); argparse is modelled after CPython 3.11, whose
  handling of \<open>--\<close> inside option arguments and of abbreviations with \<open>=\<close> later
  versions changed.

  \<^bold>\<open>Not modelled.\<close> The network architectures, Adam's options the learners do not
  use (weight decay, AMSGrad, several parameter groups), devices and
  \<open>torch.as_tensor\<close> conversions (arrays are assumed rectangular), the replay buffers that
  produce the samples, and the distributed all-reduce of gradients. Of the launcher, the
  runner that \<open>get_runner\<close> builds and its \<open>benchmark()\<close> (the xuance package outside the
  repository: environments, logging, the training loop); of argparse, what this parser
  does not use (positional arguments, other actions and \<open>nargs\<close>, subparsers, the text
  of the help and the usage). \<open>str()\<close> of an integer of more than 4300 digits raises in
  CPython 3.11; \<open>string_of_int\<close> does not, and only ranks, far below that, are formatted.
\<close>

section \<open>Double-Q selection against the plain maximum\<close>

text \<open>
  C13. The DDQN learner's target, which selects the greedy action of the target network
  and then reads the target network's value there, is the plain maximum target of the
  prioritized learner: on every batch whose next observations the target network maps to
  one value per action, the two forward computations agree, errors included.
\<close>

theorem double_q_target_is_max:
  assumes "net_shaped pol pt (obs_next b)"
  shows "ddqn_targets gam pol pe pt b = perdqn_targets gam pol pe pt b"
proof (cases "action_dim pol = 0")
  case True
  then show ?thesis
    by (simp add: ddqn_targets_def perdqn_targets_def policy_forward_empty_actions)
next
  case False
  let ?tQ = "map (qnet pol pt) (obs_next b)"
  obtain tA where t: "policy_forward pol pt (obs_next b) = Inr (tA, ?tQ)"
    and ta: "argmax_last (action_dim pol) ?tQ = Inr tA"
    using assms False by (auto elim: policy_forward_Inr)
  have sel: "select_action ?tQ (map int tA) (action_dim pol) = max_last (action_dim pol) ?tQ"
    using assms False ta by (simp add: net_shaped_def select_argmax_eq_max_last)
  show ?thesis
    by (simp add: ddqn_targets_def perdqn_targets_def t sel)
qed

theorem double_q_target_is_max_witness:
  "net_shaped pol_ex 3 (obs_next batch_ex) \<and>
   ddqn_targets (9 / 10) pol_ex 1 3 batch_ex = perdqn_targets (9 / 10) pol_ex 1 3 batch_ex"
proof -
  have h: "net_shaped pol_ex 3 (obs_next batch_ex)"
    by (simp add: net_shaped_def rows_of_width_def pol_ex_def batch_ex_def)
  show ?thesis using h double_q_target_is_max [OF h] by simp
qed

section \<open>The contract of the shared bookkeeping\<close>

text \<open>
  What the learner base promises of every update, whatever its TD-target formula: the
  counter advances by one, and the target parameters are the new online parameters when
  the new count is a multiple of the sync frequency and are unchanged otherwise.
\<close>

definition sync_contract ::
  "learner_config \<Rightarrow> ('p, 'o) learner_state \<Rightarrow> ('p, 'o) learner_state \<Rightarrow> bool" where
  "sync_contract cfg s s' \<longleftrightarrow>
     iterations s' = Suc (iterations s) \<and>
     target_params s' = (if int (iterations s') mod sync_frequency cfg = 0 then eval_params s'
                         else target_params s)"

text \<open>
  C21. The three learners refine the contract: every successful update of the DDQN, the
  DRQN and the prioritized learner is a step of \<open>sync_contract\<close>, so between two
  consecutive calls the target network is unchanged unless the counter reaches a multiple
  of sync_frequency, where it equals the online network.
\<close>

theorem learners_sync_contract:
  "ddqn_step cfg pol opt \<le> sync_contract cfg \<and> drqn_step cfg rpol opt \<le> sync_contract cfg \<and>
   perdqn_step cfg env pol opt \<le> sync_contract cfg"
proof -
  have c: "sync_contract cfg s s'" if "tail_step cfg opt s s'" for s s'
    using tail_step_sync [OF that] by (simp add: sync_contract_def)
  show ?thesis
    by (intro conjI predicate2I c) (erule ddqn_step_tail drqn_step_tail perdqn_step_tail)+
qed

section \<open>Runs of any learner\<close>

text \<open>
  C24. Liveness of the hard sync: along any run of a learner whose updates end with the
  shared tail (DDQN, DRQN and PerDQN do, C21), every \<open>sync_frequency\<close> consecutive
  successful updates include one after which the target network equals the online one.
\<close>

theorem run_syncs_within_window:
  assumes "trained cfg step s" and "step \<le> tail_step cfg opt" and "run_path step s xs"
    and "0 < sync_frequency cfg" and "sync_frequency cfg \<le> int (length xs)"
  shows "\<exists>j < length xs. int j < sync_frequency cfg \<and> target_params (xs ! j) = eval_params (xs ! j)"
proof -
  have t: "\<And>s s'. step s s' \<Longrightarrow> tail_step cfg opt s s'"
    using assms(2) by (rule predicate2D)
  define N where "N = nat (sync_frequency cfg)"
  have N: "0 < N" "int N = sync_frequency cfg"
    using assms(4) by (simp_all add: N_def)
  obtain j where j: "j < N" and m: "(iterations s + Suc j) mod N = 0"
    using N(1) by (rule window_multiple)
  have jl: "j < length xs"
    using j assms(5) N(2) by linarith
  have it: "iterations (xs ! j) = iterations s + Suc j"
    using run_path_iterations [OF t assms(3)] jl by blast
  have "trained cfg step (xs ! j)"
    using run_path_trained [OF assms(1,3)] jl by simp
  then have inv: "learner_inv cfg (xs ! j)"
    using t by (rule trained_learner_inv)
  have "int (iterations (xs ! j)) mod int N = int ((iterations s + Suc j) mod N)"
    unfolding it by (rule of_nat_mod [symmetric])
  then have "int (iterations (xs ! j)) mod sync_frequency cfg = 0"
    using m N(2) by simp
  then show ?thesis
    using inv jl j N(2) by (auto simp: learner_inv_def)
qed

theorem run_syncs_within_window_witness:
  "trained cfg_ex (ddqn_step cfg_ex pol_ex opt_ex) init_ex \<and>
   ddqn_step cfg_ex pol_ex opt_ex \<le> tail_step cfg_ex opt_ex \<and>
   run_path (ddqn_step cfg_ex pol_ex opt_ex) init_ex
     [\<lparr>iterations = 1, eval_params = 9 / 10, target_params = 9 / 10, opt_state = 1,
           lr = 3 / 40, last_epoch = 1\<rparr>] \<and>
   0 < sync_frequency cfg_ex \<and> sync_frequency cfg_ex \<le> int (length [\<lparr>iterations = 1, eval_params = 9 / 10, target_params = 9 / 10, opt_state = 1,
           lr = 3 / 40, last_epoch = 1\<rparr> :: (real, nat) learner_state]) \<and>
   (\<exists>j < length [\<lparr>iterations = 1, eval_params = 9 / 10, target_params = 9 / 10, opt_state = 1,
           lr = 3 / 40, last_epoch = 1\<rparr> :: (real, nat) learner_state]. int j < sync_frequency cfg_ex \<and>
      target_params ([\<lparr>iterations = 1, eval_params = 9 / 10, target_params = 9 / 10, opt_state = 1,
           lr = 3 / 40, last_epoch = 1\<rparr>] ! j) = eval_params ([\<lparr>iterations = 1, eval_params = 9 / 10, target_params = 9 / 10, opt_state = 1,
           lr = 3 / 40, last_epoch = 1\<rparr>] ! j))"
proof -
  have tr: "trained cfg_ex (ddqn_step cfg_ex pol_ex opt_ex) init_ex"
    unfolding init_ex_def by (rule trained_init)
  have le: "ddqn_step cfg_ex pol_ex opt_ex \<le> tail_step cfg_ex opt_ex"
    by (intro predicate2I) (erule ddqn_step_tail)
  have rp: "run_path (ddqn_step cfg_ex pol_ex opt_ex) init_ex [\<lparr>iterations = 1, eval_params = 9 / 10, target_params = 9 / 10, opt_state = 1,
           lr = 3 / 40, last_epoch = 1\<rparr>]"
    using ddqn_step.intros [OF ddqn_update_ex] by simp
  show ?thesis
    using tr le rp run_syncs_within_window [OF tr le rp] by (simp add: cfg_ex_def)
qed

end
